(* ===== verification/Prelude.thy ===== *)
theory Prelude
  imports Main "HOL-Library.Code_Target_Numeral"
begin

text \<open>
  Shared vocabulary of the development: the JavaScript string and array operations the
  sources under \<open>src/src\<close> call (\<open>String.prototype.trim\<close>, \<open>split\<close>, \<open>includes\<close>,
  \<open>replace\<close>, \<open>toLowerCase\<close>, \<open>Set\<close> insertion), the JavaScript number type with its
  \<open>NaN\<close>, the identifier supply standing for \<open>uuidv4()\<close>, and the lemmas about them
  that the component theories share.  Strings are \<open>char list\<close>s; a \<open>char\<close> is a
  byte, so the model covers ASCII text exactly (a non-ASCII code point is several bytes,
  which \<open>toLowerCase\<close> and \<open>trim\<close> leave alone here).
\<close>

named_theorems js_simps "characteristic equations of the JavaScript string primitives"

section \<open>Numbers and identifiers\<close>

text \<open>A JavaScript number as the sources use it: an integer or \<open>NaN\<close>.\<close>

datatype js_number = Num int | NaN

fun is_nan :: "js_number \<Rightarrow> bool" where
  "is_nan NaN = True"
| "is_nan (Num _) = False"

text \<open>
  \<open>uuidv4()\<close> draws a fresh identifier.  The model threads a counter: an identifier is
  the counter's value, and drawing one increments it.
\<close>

type_synonym uuid = nat

section \<open>Characters\<close>

text \<open>
  ECMAScript \<open>WhiteSpace\<close> and \<open>LineTerminator\<close> restricted to single bytes: tab, line
  feed, vertical tab, form feed, carriage return and space.
\<close>

definition js_ws :: "char \<Rightarrow> bool" where
  "js_ws c \<longleftrightarrow> of_char c \<in> {9, 10, 11, 12, 13, 32 :: nat}"

definition is_upper :: "char \<Rightarrow> bool" where
  "is_upper c \<longleftrightarrow> 65 \<le> (of_char c :: nat) \<and> (of_char c :: nat) \<le> 90"

definition is_lower :: "char \<Rightarrow> bool" where
  "is_lower c \<longleftrightarrow> 97 \<le> (of_char c :: nat) \<and> (of_char c :: nat) \<le> 122"

definition is_digit :: "char \<Rightarrow> bool" where
  "is_digit c \<longleftrightarrow> 48 \<le> (of_char c :: nat) \<and> (of_char c :: nat) \<le> 57"

definition upper_letters :: string where
  "upper_letters = ''ABCDEFGHIJKLMNOPQRSTUVWXYZ''"

definition lower_letters :: string where
  "lower_letters = ''abcdefghijklmnopqrstuvwxyz''"

text \<open>The case mappings of ASCII letters; every other byte is left as it is.\<close>

definition lower_char :: "char \<Rightarrow> char" where
  "lower_char c = (case map_of (zip upper_letters lower_letters) c of Some d \<Rightarrow> d | None \<Rightarrow> c)"

definition upper_char :: "char \<Rightarrow> char" where
  "upper_char c = (case map_of (zip lower_letters upper_letters) c of Some d \<Rightarrow> d | None \<Rightarrow> c)"

section \<open>String primitives\<close>

text \<open>\<open>s.toLowerCase()\<close> and \<open>s.toUpperCase()\<close>.\<close>

definition to_lower :: "string \<Rightarrow> string" where
  "to_lower s = map lower_char s"

definition to_upper :: "string \<Rightarrow> string" where
  "to_upper s = map upper_char s"

text \<open>\<open>s.trim()\<close>: whitespace removed at both ends.\<close>

definition trim :: "string \<Rightarrow> string" where
  "trim s = rev (dropWhile js_ws (rev (dropWhile js_ws s)))"

text \<open>\<open>s.startsWith(p)\<close>, the test a search for \<open>p\<close> makes at each position.\<close>

fun starts_with :: "string \<Rightarrow> string \<Rightarrow> bool" where
  "starts_with [] s = True"
| "starts_with (p # ps) [] = False"
| "starts_with (p # ps) (c # cs) = (p = c \<and> starts_with ps cs)"

text \<open>\<open>s.includes(p)\<close>.\<close>

fun str_includes :: "string \<Rightarrow> string \<Rightarrow> bool" where
  "str_includes [] p = (p = [])"
| "str_includes (c # cs) p = (starts_with p (c # cs) \<or> str_includes cs p)"

text \<open>
  \<open>s.split(c)\<close> for a one-character separator: every occurrence separates, so
  \<open>''''.split(c)\<close> is \<open>['''']\<close> and adjacent separators give empty pieces.
\<close>

fun split_on :: "char \<Rightarrow> string \<Rightarrow> string list" where
  "split_on c [] = [[]]"
| "split_on c (x # xs) =
     (case split_on c xs of
        [] \<Rightarrow> [[x]]
      | w # ws \<Rightarrow> (if x = c then [] # w # ws else (x # w) # ws))"

text \<open>
  \<open>s.split(sep)\<close> for a separator of several characters, matched left to right without
  overlap.  The separators the sources use are non-empty; the function is total for the
  empty one too (it then returns the string whole).
\<close>

function split_str :: "string \<Rightarrow> string \<Rightarrow> string list" where
  "split_str sep s =
     (if s = [] then [[]]
      else if sep \<noteq> [] \<and> starts_with sep s then [] # split_str sep (drop (length sep) s)
      else (case split_str sep (tl s) of
              [] \<Rightarrow> [[hd s]]
            | w # ws \<Rightarrow> (hd s # w) # ws))"
  by pat_completeness auto
termination
  by (relation "measure (\<lambda>(sep, s). length s)") auto

declare split_str.simps [simp del]

text \<open>\<open>parts.join(sep)\<close>.\<close>

fun join :: "string \<Rightarrow> string list \<Rightarrow> string" where
  "join sep [] = []"
| "join sep [w] = w"
| "join sep (w # ws) = w @ sep @ join sep ws"

text \<open>\<open>s.replace(p, r)\<close> with a string pattern: the first occurrence only.\<close>

fun replace_first :: "string \<Rightarrow> string \<Rightarrow> string \<Rightarrow> string" where
  "replace_first p r [] = (if p = [] then r else [])"
| "replace_first p r (c # cs) =
     (if starts_with p (c # cs) then r @ drop (length p) (c # cs)
      else c # replace_first p r cs)"

section \<open>Decimal digits\<close>

text \<open>
  Decimal numerals: \<open>nat_digits\<close> prints a number, \<open>digits_value\<close> reads a
  string of digits (the accumulation \<open>parseInt\<close> performs).
\<close>

definition digit_char :: "nat \<Rightarrow> char" where
  "digit_char d = char_of (48 + d)"

fun nat_digits :: "nat \<Rightarrow> string" where
  "nat_digits n = (if n < 10 then [digit_char n] else nat_digits (n div 10) @ [digit_char (n mod 10)])"

definition digits_value :: "string \<Rightarrow> nat" where
  "digits_value s = foldl (\<lambda>n c. 10 * n + (of_char c - 48)) 0 s"

section \<open>Insertion-ordered sets\<close>

text \<open>
  A JavaScript \<open>Set\<close> iterates in insertion order and ignores a value it already holds:
  \<open>set.add(x)\<close> on a list kept in that order.
\<close>

definition set_add :: "'a list \<Rightarrow> 'a \<Rightarrow> 'a list" where
  "set_add xs x = (if x \<in> set xs then xs else xs @ [x])"

definition set_add_all :: "'a list \<Rightarrow> 'a list \<Rightarrow> 'a list" where
  "set_add_all xs ys = foldl set_add xs ys"

section \<open>Lemmas\<close>

lemma split_on_not_Nil [simp]: "split_on c s \<noteq> []"
  by (induction s) (auto split: list.splits)

lemma split_on_Cons:
  "split_on c (x # xs) =
     (if x = c then [] # split_on c xs
      else (x # hd (split_on c xs)) # tl (split_on c xs))"
  by (cases "split_on c xs") auto

lemmas split_on_simps [js_simps] = split_on.simps(1) split_on_Cons

declare split_on.simps(2) [simp del]

lemma split_on_pieces: "w \<in> set (split_on c s) \<Longrightarrow> c \<notin> set w"
proof (induction s arbitrary: w)
  case Nil
  then show ?case by simp
next
  case (Cons x xs)
  then show ?case
    by (cases "split_on c xs") (auto simp: split_on_Cons split: if_splits)
qed

text \<open>
  Splitting and joining with the same separator is the identity.\<close>

lemma join_split_on: "join [c] (split_on c s) = s"
proof (induction s)
  case Nil
  then show ?case by simp
next
  case (Cons x xs)
  obtain w ws where sp: "split_on c xs = w # ws"
    by (cases "split_on c xs") auto
  from Cons sp have ih: "join [c] (w # ws) = xs" by simp
  show ?case
  proof (cases "x = c")
    case True
    with sp ih show ?thesis by (simp add: split_on_Cons)
  next
    case False
    with sp ih show ?thesis by (cases ws) (simp_all add: split_on_Cons)
  qed
qed

lemma starts_with_iff: "starts_with p s \<longleftrightarrow> (\<exists>r. s = p @ r)"
  by (induction p s rule: starts_with.induct) auto

lemma str_includes_iff: "str_includes s p \<longleftrightarrow> (\<exists>a b. s = a @ p @ b)"
proof (induction s)
  case Nil
  then show ?case by simp
next
  case (Cons c cs)
  show ?case
  proof
    assume "str_includes (c # cs) p"
    then consider (here) "starts_with p (c # cs)" | (later) "str_includes cs p"
      by auto
    then show "\<exists>a b. c # cs = a @ p @ b"
    proof cases
      case here
      then show ?thesis by (metis append_Nil starts_with_iff)
    next
      case later
      with Cons.IH obtain a b where "cs = a @ p @ b" by blast
      then have "c # cs = (c # a) @ p @ b" by simp
      then show ?thesis by blast
    qed
  next
    assume "\<exists>a b. c # cs = a @ p @ b"
    then obtain a b where ab: "c # cs = a @ p @ b" by blast
    show "str_includes (c # cs) p"
    proof (cases a)
      case Nil
      with ab have "starts_with p (c # cs)" by (simp add: starts_with_iff)
      then show ?thesis by simp
    next
      case (Cons a' as)
      with ab Cons.IH show ?thesis by auto
    qed
  qed
qed

lemma set_add_distinct [intro]: "distinct xs \<Longrightarrow> distinct (set_add xs x)"
  by (simp add: set_add_def)

lemma set_set_add [simp]: "set (set_add xs x) = insert x (set xs)"
  by (auto simp: set_add_def)

lemma set_add_all_Nil [simp]: "set_add_all xs [] = xs"
  by (simp add: set_add_all_def)

lemma set_add_all_Cons [simp]: "set_add_all xs (y # ys) = set_add_all (set_add xs y) ys"
  by (simp add: set_add_all_def)

lemma set_add_all_append: "set_add_all xs (ys @ zs) = set_add_all (set_add_all xs ys) zs"
  by (simp add: set_add_all_def)

lemma set_set_add_all [simp]: "set (set_add_all xs ys) = set xs \<union> set ys"
  by (induction ys arbitrary: xs) auto

lemma distinct_set_add_all [intro]: "distinct xs \<Longrightarrow> distinct (set_add_all xs ys)"
  by (induction ys arbitrary: xs) auto

text \<open>
  Inserting into a \<open>Set\<close> keeps the first occurrence of each value, where
  \<open>remdups\<close> keeps the last: the two agree up to reversal.
\<close>

lemma set_add_all_prefix: "set_add_all xs ys = xs @ filter (\<lambda>y. y \<notin> set xs) (rev (remdups (rev ys)))"
proof (induction ys arbitrary: xs rule: rev_induct)
  case Nil
  then show ?case by simp
next
  case (snoc y ys)
  show ?case
    by (auto simp: set_add_all_append snoc set_add_def)
qed

lemma set_add_all_first_occurrences: "set_add_all [] ys = rev (remdups (rev ys))"
  by (simp add: set_add_all_prefix)

lemma to_lower_length [simp]: "length (to_lower s) = length s"
  by (simp add: to_lower_def)

lemma digits_value_snoc [simp]: "digits_value (s @ [c]) = 10 * digits_value s + (of_char c - 48)"
  by (simp add: digits_value_def)

lemma of_char_digit_char [simp]: "d < 10 \<Longrightarrow> of_char (digit_char d) = 48 + d"
  by (simp add: digit_char_def)

lemma is_digit_digit_char [simp]: "d < 10 \<Longrightarrow> is_digit (digit_char d)"
  by (simp add: is_digit_def)

text \<open>
  Printing a number and reading it back gives the number.\<close>

lemma digits_value_nat_digits: "digits_value (nat_digits n) = n"
proof (induction n rule: nat_digits.induct)
  case (1 n)
  show ?case
  proof (cases "n < 10")
    case True
    then show ?thesis by (simp add: digits_value_def)
  next
    case False
    with "1.IH" have "digits_value (nat_digits (n div 10)) = n div 10" by simp
    with False show ?thesis by (simp add: nat_digits.simps [of n])
  qed
qed

lemma nat_digits_all_digits: "list_all is_digit (nat_digits n)"
  by (induction n rule: nat_digits.induct) (simp add: nat_digits.simps)

declare nat_digits.simps [simp del]

text \<open>Unfoldings that evaluate the string primitives on literals, for closed instances.\<close>

lemma eq_char_of_iff: "c = char_of n \<longleftrightarrow> take_bit 8 n = of_char c"
  by (metis char_of_eq_iff)

lemmas js_eval = to_lower_def lower_char_def upper_letters_def lower_letters_def to_upper_def upper_char_def
  is_digit_def digits_value_def char_of_eq_iff split_on.simps trim_def js_ws_def
  split_str.simps digit_char_def eq_char_of_iff

end
