(* ===== verification/Types.thy ===== *)
theory Types
  imports Prelude
begin

text \<open>
  The data model of \<open>src/src/types/index.ts\<close>: one record per interface.  Isabelle's
  record fields share one name space, so a field that two interfaces both declare
  (\<open>name\<close>, \<open>title\<close>, \<open>skills\<close>, \<open>startDate\<close>, \<dots>) carries the prefix of its
  interface; every other field keeps its TypeScript name.  An optional field
  (\<open>x?: T\<close>) is a \<open>T option\<close>; \<open>string | null\<close> is a \<open>string option\<close> too.
\<close>

section \<open>Resume\<close>

record education =
  edu_institution :: string
  edu_degree :: string
  edu_field :: string
  edu_startDate :: "string option"
  edu_endDate :: "string option"

record work_experience =
  exp_company :: string
  exp_position :: string
  exp_startDate :: "string option"
  exp_endDate :: "string option"
  exp_description :: "string option"

record contact =
  email :: "string option"
  phone :: "string option"
  location :: "string option"
  linkedin :: "string option"
  website :: "string option"

text \<open>
  The browser \<open>File\<close> the resume slice holds: the attributes the uploader reads
  (\<open>ResumeUploader.tsx\<close>: \<open>name\<close>, \<open>type\<close>, \<open>size\<close>).
\<close>

record file_info =
  file_name :: string
  file_type :: string
  file_size :: nat

record resume_data =
  rd_name :: "string option"
  contact :: contact
  summary :: "string option"
  education :: "education list"
  experience :: "work_experience list"
  rd_skills :: "string list"
  rd_loading :: bool
  rd_error :: "string option"
  rd_file :: "file_info option"

section \<open>Scholar profile\<close>

record publication =
  pub_title :: string
  authors :: string
  journal :: "string option"
  pub_year :: "string option"
  pub_citations :: "js_number option"
  pub_url :: "string option"

record citation_metrics =
  total :: js_number
  h_index :: "js_number option"
  i10_index :: "js_number option"

record scholar_data =
  sd_name :: "string option"
  profileUrl :: string
  publications :: "publication list"
  sd_citations :: "citation_metrics option"
  interests :: "string list"
  sd_loading :: bool
  sd_error :: "string option"

section \<open>Project suggestions\<close>

datatype difficulty = Beginner | Intermediate | Advanced

record project =
  proj_id :: uuid
  proj_title :: string
  description :: string
  category :: string
  proj_skills :: "string list"
  relatedPublications :: "publication list option"
  difficulty :: difficulty

record projects_state =
  suggestions :: "project list"
  ps_loading :: bool
  ps_error :: "string option"

section \<open>Initial states of the store slices\<close>

text \<open>\<open>initialState\<close> of \<open>redux/slices/resumeSlice.ts\<close>, \<open>scholarSlice.ts\<close>, \<open>projectsSlice.ts\<close>.\<close>

definition contact_empty :: contact where
  "contact_empty = \<lparr>email = None, phone = None, location = None, linkedin = None, website = None\<rparr>"

definition resume_initial :: resume_data where
  "resume_initial =
     \<lparr>rd_name = None, contact = contact_empty, summary = None, education = [], experience = [],
      rd_skills = [], rd_loading = False, rd_error = None, rd_file = None\<rparr>"

definition scholar_initial :: scholar_data where
  "scholar_initial =
     \<lparr>sd_name = None, profileUrl = [], publications = [], sd_citations = None, interests = [],
      sd_loading = False, sd_error = None\<rparr>"

definition projects_initial :: projects_state where
  "projects_initial = \<lparr>suggestions = [], ps_loading = False, ps_error = None\<rparr>"

end
