(* ===== verification/Json.thy ===== *)
theory Json
  imports Types
begin

text \<open>
  JSON values and HTTP responses as the API routes produce them.  \<open>res.json(v)\<close>
  serialises with \<open>JSON.stringify\<close>: a field whose value is \<open>undefined\<close> is left
  out, \<open>NaN\<close> becomes \<open>null\<close>.  A route's response is the list of headers it set
  and the list of \<open>res.status(s).json(v)\<close> calls it made, in order; the client
  receives the first of them, and a later one fails because the headers are already
  sent.
\<close>

datatype json =
    JNull
  | JBool bool
  | JNum int
  | JStr string
  | JArr "json list"
  | JObj "(string \<times> json) list"

record http_response =
  resp_headers :: "(string \<times> json) list"
  resp_writes :: "(nat \<times> json) list"

definition empty_response :: http_response where
  "empty_response = \<lparr>resp_headers = [], resp_writes = []\<rparr>"

text \<open>\<open>res.setHeader(name, value)\<close> and \<open>res.status(s).json(v)\<close>.\<close>

definition set_header :: "string \<Rightarrow> json \<Rightarrow> http_response \<Rightarrow> http_response" where
  "set_header n v r = r\<lparr>resp_headers := resp_headers r @ [(n, v)]\<rparr>"

definition send_json :: "nat \<Rightarrow> json \<Rightarrow> http_response \<Rightarrow> http_response" where
  "send_json s v r = r\<lparr>resp_writes := resp_writes r @ [(s, v)]\<rparr>"

text \<open>What the client receives: the first write, if any.\<close>

definition delivered :: "http_response \<Rightarrow> (nat \<times> json) option" where
  "delivered r = (case resp_writes r of [] \<Rightarrow> None | w # _ \<Rightarrow> Some w)"

definition error_body :: "string \<Rightarrow> json" where
  "error_body m = JObj [(''error'', JStr m)]"

text \<open>A JavaScript number serialised: \<open>NaN\<close> is written as \<open>null\<close>.\<close>

fun json_of_number :: "js_number \<Rightarrow> json" where
  "json_of_number (Num i) = JNum i"
| "json_of_number NaN = JNull"

text \<open>An optional field: left out of the object when it is \<open>undefined\<close>.\<close>

definition opt_field :: "string \<Rightarrow> ('a \<Rightarrow> json) \<Rightarrow> 'a option \<Rightarrow> (string \<times> json) list" where
  "opt_field n f v = (case v of None \<Rightarrow> [] | Some x \<Rightarrow> [(n, f x)])"

text \<open>
  The records of \<open>types/index.ts\<close> as \<open>res.json\<close> writes them, fields in declaration
  order of the object literals that build them.
\<close>

definition json_of_publication :: "publication \<Rightarrow> json" where
  "json_of_publication p =
     JObj ([(''title'', JStr (pub_title p))]
           @ opt_field ''url'' JStr (pub_url p)
           @ [(''authors'', JStr (authors p))]
           @ opt_field ''journal'' JStr (journal p)
           @ opt_field ''year'' JStr (pub_year p)
           @ opt_field ''citations'' json_of_number (pub_citations p))"

fun json_of_difficulty :: "difficulty \<Rightarrow> json" where
  "json_of_difficulty Beginner = JStr ''Beginner''"
| "json_of_difficulty Intermediate = JStr ''Intermediate''"
| "json_of_difficulty Advanced = JStr ''Advanced''"

definition json_of_project :: "project \<Rightarrow> json" where
  "json_of_project p =
     JObj ([(''id'', JStr (nat_digits (proj_id p))),
            (''title'', JStr (proj_title p)),
            (''description'', JStr (description p)),
            (''category'', JStr (category p)),
            (''skills'', JArr (map JStr (proj_skills p)))]
           @ opt_field ''relatedPublications'' (\<lambda>ps. JArr (map json_of_publication ps))
               (relatedPublications p)
           @ [(''difficulty'', json_of_difficulty (difficulty p))])"

lemma delivered_send_json [simp]:
  "delivered (send_json s v r) = (case delivered r of None \<Rightarrow> Some (s, v) | Some w \<Rightarrow> Some w)"
  by (simp add: delivered_def send_json_def split: list.splits)

lemma delivered_set_header [simp]: "delivered (set_header n v r) = delivered r"
  by (simp add: delivered_def set_header_def)

lemma resp_writes_set_header [simp]: "resp_writes (set_header n v r) = resp_writes r"
  by (simp add: set_header_def)

lemma resp_writes_send_json [simp]: "resp_writes (send_json s v r) = resp_writes r @ [(s, v)]"
  by (simp add: send_json_def)

lemma delivered_no_writes: "resp_writes r = [] \<Longrightarrow> delivered r = None"
  by (simp add: delivered_def)

end
