(* ===== verification/RateLimit.thy ===== *)
theory RateLimit
  imports Json
begin

text \<open>
  \<open>src/src/utils/rateLimit.ts\<close>: a limiter keeps an \<open>LRUCache<string, number[]>\<close>
  from caller tokens to one-element arrays that count the caller's requests.  The cache
  (package \<open>lru-cache\<close>, typed in \<open>src/src/types/lru-cache.d.ts\<close>, implemented outside
  the repository) is modelled from its documented behaviour: \<open>get\<close> returns a live
  entry and makes it the most recently used, dropping an entry older than \<open>ttl\<close>;
  \<open>set\<close> stores an entry with a fresh start time, evicting the least recently used
  entry when \<open>max\<close> entries are held.

  The counter arrays are mutable and shared: \<open>check\<close> stores the array in the cache and
  then increments it in place, and a later \<open>get\<close> returns the same array.  The model
  keeps the arrays in an explicit heap (\<open>heap\<close>, a map from references to the array's
  element 0) and the cache holds references, so that the aliasing the counting depends
  on is written out.
\<close>

section \<open>The LRU cache\<close>

type_synonym ref = nat

text \<open>Entries from least to most recently used: key, value, start time.\<close>

record ('k, 'v) lru =
  lru_max :: nat
  lru_ttl :: nat
  lru_entries :: "('k \<times> 'v \<times> nat) list"

definition lru_lookup :: "('k \<times> 'v \<times> nat) list \<Rightarrow> 'k \<Rightarrow> ('v \<times> nat) option" where
  "lru_lookup es k = map_of es k"

definition lru_drop :: "('k \<times> 'v \<times> nat) list \<Rightarrow> 'k \<Rightarrow> ('k \<times> 'v \<times> nat) list" where
  "lru_drop es k = filter (\<lambda>e. fst e \<noteq> k) es"

definition lru_stale :: "('k, 'v) lru \<Rightarrow> nat \<Rightarrow> nat \<Rightarrow> bool" where
  "lru_stale c now start \<longleftrightarrow> lru_ttl c \<noteq> 0 \<and> lru_ttl c < now - start"

definition lru_get :: "('k, 'v) lru \<Rightarrow> nat \<Rightarrow> 'k \<Rightarrow> ('k, 'v) lru \<times> 'v option" where
  "lru_get c now k =
     (case lru_lookup (lru_entries c) k of
        None \<Rightarrow> (c, None)
      | Some (v, st) \<Rightarrow>
          if lru_stale c now st then (c\<lparr>lru_entries := lru_drop (lru_entries c) k\<rparr>, None)
          else (c\<lparr>lru_entries := lru_drop (lru_entries c) k @ [(k, v, st)]\<rparr>, Some v))"

definition lru_set :: "('k, 'v) lru \<Rightarrow> nat \<Rightarrow> 'k \<Rightarrow> 'v \<Rightarrow> ('k, 'v) lru" where
  "lru_set c now k v =
     (let es = lru_entries c in
      if lru_lookup es k \<noteq> None then c\<lparr>lru_entries := lru_drop es k @ [(k, v, now)]\<rparr>
      else c\<lparr>lru_entries := (if lru_max c \<le> length es then tl es else es) @ [(k, v, now)]\<rparr>)"

section \<open>The limiter\<close>

record limiter =
  cache :: "(string, ref) lru"
  heap :: "ref \<Rightarrow> nat"
  next_ref :: ref

text \<open>
  \<open>rateLimit({interval, uniqueTokenPerInterval})\<close>: an empty cache with
  \<open>max = uniqueTokenPerInterval || 500\<close> and \<open>ttl = interval || 60000\<close>.
\<close>

definition rate_limit :: "nat \<Rightarrow> nat \<Rightarrow> limiter" where
  "rate_limit interval unique =
     \<lparr>cache = \<lparr>lru_max = (if unique = 0 then 500 else unique),
               lru_ttl = (if interval = 0 then 60000 else interval),
               lru_entries = []\<rparr>,
      heap = (\<lambda>_. 0), next_ref = 0\<rparr>"

text \<open>
  \<open>check(res, limit, token)\<close> at time \<open>now\<close>.  \<open>tokenCache.get(token) || [0]\<close>
  either finds the cached array or allocates a fresh one holding 0; only a fresh array
  (element 0 still 0) is stored with \<open>set\<close>; the array is then incremented in place.
  The two rate-limit headers are set, and a limited request is answered with 429 and
  the promise rejected (\<open>Inl\<close> with the error message).
\<close>

definition check ::
  "limiter \<Rightarrow> nat \<Rightarrow> http_response \<Rightarrow> nat \<Rightarrow> string \<Rightarrow>
   limiter \<times> http_response \<times> (string + unit)" where
  "check st now res limit token =
     (let (c1, found) = lru_get (cache st) now token;
          (r, hp, nr) = (case found of
                           Some r \<Rightarrow> (r, heap st, next_ref st)
                         | None \<Rightarrow> (next_ref st, (heap st)(next_ref st := 0), Suc (next_ref st)));
          c2 = (if hp r = 0 then lru_set c1 now token r else c1);
          hp2 = hp(r := hp r + 1);
          usage = hp2 r;
          limited = limit < usage;
          res1 = set_header ''X-RateLimit-Remaining''
                   (JNum (if limited then 0 else int limit - int usage))
                   (set_header ''X-RateLimit-Limit'' (JNum (int limit)) res)
      in (st\<lparr>cache := c2, heap := hp2, next_ref := nr\<rparr>,
          (if limited then send_json 429 (error_body ''Rate limit exceeded'') res1 else res1),
          (if limited then Inl ''Rate limit exceeded'' else Inr ())))"

text \<open>
  A sequence of requests with one token at the given times, each answered on a fresh
  response: whether each was allowed.
\<close>

fun check_run :: "limiter \<Rightarrow> nat list \<Rightarrow> nat \<Rightarrow> string \<Rightarrow> limiter \<times> bool list" where
  "check_run st [] limit token = (st, [])"
| "check_run st (t # ts) limit token =
     (case check st t empty_response limit token of
        (st', _, r) \<Rightarrow> (case check_run st' ts limit token of
                         (st'', bs) \<Rightarrow> (st'', (r = Inr ()) # bs)))"

section \<open>Lemmas\<close>

subsection \<open>The cache\<close>

lemma lru_lookup_drop_same [simp]: "lru_lookup (lru_drop es k) k = None"
  by (induction es) (auto simp: lru_lookup_def lru_drop_def)

lemma lru_lookup_snoc:
  "lru_lookup (es @ [(k', v, t)]) k =
     (case lru_lookup es k of None \<Rightarrow> (if k = k' then Some (v, t) else None) | Some x \<Rightarrow> Some x)"
  by (simp add: lru_lookup_def map_add_def split: option.split)

lemma lru_lookup_tl_None: "lru_lookup es k = None \<Longrightarrow> lru_lookup (tl es) k = None"
  by (cases es) (auto simp: lru_lookup_def split: if_splits)

lemma lru_get_absent: "lru_lookup (lru_entries c) k = None \<Longrightarrow> lru_get c now k = (c, None)"
  by (simp add: lru_get_def)

lemma lru_get_stale:
  "lru_lookup (lru_entries c) k = Some (v, t0) \<Longrightarrow> lru_stale c now t0 \<Longrightarrow>
   lru_get c now k = (c\<lparr>lru_entries := lru_drop (lru_entries c) k\<rparr>, None)"
  by (simp add: lru_get_def)

lemma lru_get_live:
  "lru_lookup (lru_entries c) k = Some (v, t0) \<Longrightarrow> \<not> lru_stale c now t0 \<Longrightarrow>
   lru_get c now k = (c\<lparr>lru_entries := lru_drop (lru_entries c) k @ [(k, v, t0)]\<rparr>, Some v)"
  by (simp add: lru_get_def)

lemma lru_set_new_lookup:
  "lru_lookup (lru_entries c) k = None \<Longrightarrow> lru_lookup (lru_entries (lru_set c now k v)) k = Some (v, now)"
  by (simp add: lru_set_def Let_def lru_lookup_snoc lru_lookup_tl_None)

lemma lru_set_ttl [simp]: "lru_ttl (lru_set c now k v) = lru_ttl c"
  by (simp add: lru_set_def Let_def)

subsection \<open>One request\<close>

text \<open>
  A request whose token has no live entry starts a new window: a fresh array is cached
  at the current time and its count is 1.
\<close>

lemma check_no_entry:
  assumes get: "lru_get (cache st) now token = (c1, None)"
    and none: "lru_lookup (lru_entries c1) token = None"
    and ttl: "lru_ttl c1 = lru_ttl (cache st)"
  shows "lru_lookup (lru_entries (cache (fst (check st now res limit token)))) token = Some (next_ref st, now)
       \<and> heap (fst (check st now res limit token)) (next_ref st) = 1
       \<and> lru_ttl (cache (fst (check st now res limit token))) = lru_ttl (cache st)
       \<and> snd (snd (check st now res limit token)) = (if limit < 1 then Inl ''Rate limit exceeded'' else Inr ())"
  using assms by (simp add: check_def lru_set_new_lookup)

lemma check_absent:
  assumes "lru_lookup (lru_entries (cache st)) token = None"
  shows "lru_lookup (lru_entries (cache (fst (check st now res limit token)))) token = Some (next_ref st, now)
       \<and> heap (fst (check st now res limit token)) (next_ref st) = 1
       \<and> lru_ttl (cache (fst (check st now res limit token))) = lru_ttl (cache st)
       \<and> snd (snd (check st now res limit token)) = (if limit < 1 then Inl ''Rate limit exceeded'' else Inr ())"
  using assms by (intro check_no_entry) (simp_all add: lru_get_absent)

lemma check_expired:
  assumes "lru_lookup (lru_entries (cache st)) token = Some (r, t0)" "lru_stale (cache st) now t0"
  shows "lru_lookup (lru_entries (cache (fst (check st now res limit token)))) token = Some (next_ref st, now)
       \<and> heap (fst (check st now res limit token)) (next_ref st) = 1
       \<and> lru_ttl (cache (fst (check st now res limit token))) = lru_ttl (cache st)
       \<and> snd (snd (check st now res limit token)) = (if limit < 1 then Inl ''Rate limit exceeded'' else Inr ())"
  using assms by (intro check_no_entry [OF lru_get_stale [OF assms]]) simp_all

text \<open>
  A request whose token has a live entry increments the cached array in place: the entry
  keeps its reference and its start time, and the request is allowed while the new count
  is within the limit.
\<close>

lemma check_live:
  assumes "lru_lookup (lru_entries (cache st)) token = Some (r, t0)" "\<not> lru_stale (cache st) now t0"
    and "0 < heap st r"
  shows "lru_lookup (lru_entries (cache (fst (check st now res limit token)))) token = Some (r, t0)
       \<and> heap (fst (check st now res limit token)) r = Suc (heap st r)
       \<and> lru_ttl (cache (fst (check st now res limit token))) = lru_ttl (cache st)
       \<and> snd (snd (check st now res limit token)) =
           (if limit < Suc (heap st r) then Inl ''Rate limit exceeded'' else Inr ())"
  using assms by (simp add: check_def lru_get_live lru_lookup_snoc)

text \<open>
  What \<open>check\<close> writes: nothing for an allowed request; for a limited one the 429 answer,
  together with the rejection.
\<close>

lemma check_response:
  "(snd (snd (check st now res limit token)) = Inr () \<and>
    resp_writes (fst (snd (check st now res limit token))) = resp_writes res) \<or>
   (snd (snd (check st now res limit token)) = Inl ''Rate limit exceeded'' \<and>
    resp_writes (fst (snd (check st now res limit token))) =
      resp_writes res @ [(429, error_body ''Rate limit exceeded'')])"
  by (simp add: check_def Let_def split: prod.split)

subsection \<open>Windows\<close>

lemma check_run_Cons_snd:
  "snd (check_run st (t # ts) limit token) =
     (snd (snd (check st t empty_response limit token)) = Inr ())
     # snd (check_run (fst (check st t empty_response limit token)) ts limit token)"
  by (simp split: prod.split)

lemma lru_stale_ttl: "lru_ttl c = lru_ttl c' \<Longrightarrow> lru_stale c now t = lru_stale c' now t"
  by (simp add: lru_stale_def)

lemma check_run_live:
  assumes "lru_lookup (lru_entries (cache st)) token = Some (r, t0)" "heap st r = k" "0 < k"
    and "list_all (\<lambda>t. \<not> lru_stale (cache st) t t0) ts"
  shows "snd (check_run st ts limit token) = map (\<lambda>i. k + Suc i \<le> limit) [0..<length ts]"
  using assms
proof (induction ts arbitrary: st k)
  case Nil
  then show ?case by simp
next
  case (Cons t ts)
  obtain st' res' b where c: "check st t empty_response limit token = (st', res', b)"
    by (cases "check st t empty_response limit token")
  from check_live [OF Cons.prems(1) _ , of t empty_response limit] Cons.prems c
  have step: "lru_lookup (lru_entries (cache st')) token = Some (r, t0)" "heap st' r = Suc k"
    "lru_ttl (cache st') = lru_ttl (cache st)"
    "b = (if limit < Suc k then Inl ''Rate limit exceeded'' else Inr ())"
    by auto
  have "list_all (\<lambda>t. \<not> lru_stale (cache st') t t0) ts"
    using Cons.prems(4) step(3) by (simp add: lru_stale_ttl [of "cache st'" "cache st"])
  then have ih: "snd (check_run st' ts limit token) = map (\<lambda>i. Suc k + Suc i \<le> limit) [0..<length ts]"
    using Cons.IH [OF step(1) step(2)] by simp
  have "[0..<length (t # ts)] = 0 # map Suc [0..<length ts]"
    by (simp add: map_Suc_upt upt_conv_Cons del: upt_Suc)
  with ih c step(4) show ?case
    by (simp add: check_run_Cons_snd o_def del: check_run.simps)
qed

text \<open>
  (C6)
  The limiter counts in fixed windows.  For a token with no live entry, a first request
  at \<open>t0\<close> followed by requests no later than \<open>ttl\<close> after it are allowed exactly
  while their running count is at most the limit: the first \<open>limit\<close> requests pass and
  every later one is refused, however the requests are spread over the window.
\<close>

theorem check_run_fixed_window:
  assumes "lru_lookup (lru_entries (cache st)) token = None"
    and "list_all (\<lambda>t. t0 \<le> t \<and> t - t0 \<le> lru_ttl (cache st)) ts"
  shows "snd (check_run st (t0 # ts) limit token) = map (\<lambda>i. Suc i \<le> limit) [0..<Suc (length ts)]"
proof -
  obtain st' res' b where c: "check st t0 empty_response limit token = (st', res', b)"
    by (cases "check st t0 empty_response limit token")
  from check_absent [OF assms(1), of t0 empty_response limit] c
  have s: "lru_lookup (lru_entries (cache st')) token = Some (next_ref st, t0)" "heap st' (next_ref st) = 1"
    "lru_ttl (cache st') = lru_ttl (cache st)"
    "b = (if limit < 1 then Inl ''Rate limit exceeded'' else Inr ())"
    by auto
  have "list_all (\<lambda>t. \<not> lru_stale (cache st') t t0) ts"
    using assms(2) s(3) by (auto simp: lru_stale_def list_all_iff)
  then have "snd (check_run st' ts limit token) = map (\<lambda>i. 1 + Suc i \<le> limit) [0..<length ts]"
    using check_run_live [OF s(1) s(2)] by simp
  moreover have "[0..<Suc (length ts)] = 0 # map Suc [0..<length ts]"
    by (simp add: map_Suc_upt upt_conv_Cons del: upt_Suc)
  ultimately show ?thesis
    using c s(4) by (simp add: check_run_Cons_snd o_def del: check_run.simps)
qed

text \<open>
  (C7)
  Once the window has run out, the next request starts a new one: whatever the old count
  was, the request is allowed (for any positive limit), the cache now maps the token to a
  fresh counter array started at this request's time and holding 1, and a following
  request within the new window counts 2 against the limit.
\<close>

theorem check_window_reset:
  assumes "lru_lookup (lru_entries (cache st)) token = Some (r, t0)" "lru_stale (cache st) now t0"
    and "0 < limit"
  shows "snd (snd (check st now res limit token)) = Inr ()
       \<and> lru_lookup (lru_entries (cache (fst (check st now res limit token)))) token = Some (next_ref st, now)
       \<and> heap (fst (check st now res limit token)) (next_ref st) = 1
       \<and> (\<not> lru_stale (cache st) now' now \<longrightarrow>
            snd (snd (check (fst (check st now res limit token)) now' res' limit token)) =
              (if limit < 2 then Inl ''Rate limit exceeded'' else Inr ()))"
proof -
  let ?st' = "fst (check st now res limit token)"
  have e: "lru_lookup (lru_entries (cache ?st')) token = Some (next_ref st, now)"
          "heap ?st' (next_ref st) = 1" "lru_ttl (cache ?st') = lru_ttl (cache st)"
          "snd (snd (check st now res limit token)) = Inr ()"
    using check_expired [OF assms(1,2), of res limit] assms(3) by simp_all
  have "snd (snd (check ?st' now' res' limit token)) = (if limit < 2 then Inl ''Rate limit exceeded'' else Inr ())"
    if "\<not> lru_stale (cache st) now' now"
  proof -
    have "\<not> lru_stale (cache ?st') now' now"
      using that lru_stale_ttl [OF e(3)] by simp
    then show ?thesis
      using check_live [OF e(1) _, of now' res' limit] e(2) by (simp add: numeral_2_eq_2)
  qed
  then show ?thesis using e by blast
qed

subsection \<open>Witnesses\<close>

theorem check_run_fixed_window_witness:
  "lru_lookup (lru_entries (cache (rate_limit 60000 10))) ''scholar_api'' = None
   \<and> list_all (\<lambda>t. 0 \<le> t \<and> t - 0 \<le> lru_ttl (cache (rate_limit 60000 10))) [10, 20, 59999]
   \<and> snd (check_run (rate_limit 60000 10) [0, 10, 20, 59999] 2 ''scholar_api'') = [True, True, False, False]"
  using check_run_fixed_window [of "rate_limit 60000 10" "''scholar_api''" 0 "[10, 20, 59999]" 2]
  by (simp add: rate_limit_def lru_lookup_def upt_rec)

theorem check_window_reset_witness:
  "lru_lookup (lru_entries (cache \<lparr>cache = \<lparr>lru_max = 10, lru_ttl = 60000,
        lru_entries = [(''scholar_api'', 0, 0)]\<rparr>, heap = (\<lambda>_. 0)(0 := 7), next_ref = 1\<rparr>)) ''scholar_api'' = Some (0, 0)
   \<and> lru_stale (cache \<lparr>cache = \<lparr>lru_max = 10, lru_ttl = 60000,
        lru_entries = [(''scholar_api'', 0, 0)]\<rparr>, heap = (\<lambda>_. 0)(0 := 7), next_ref = 1\<rparr>) 70000 0
   \<and> (0::nat) < 5
   \<and> \<not> lru_stale (cache \<lparr>cache = \<lparr>lru_max = 10, lru_ttl = 60000,
        lru_entries = [(''scholar_api'', 0, 0)]\<rparr>, heap = (\<lambda>_. 0)(0 := 7), next_ref = 1\<rparr>) 70010 70000
   \<and> lru_lookup (lru_entries (cache (fst (check \<lparr>cache = \<lparr>lru_max = 10, lru_ttl = 60000,
        lru_entries = [(''scholar_api'', 0, 0)]\<rparr>, heap = (\<lambda>_. 0)(0 := 7), next_ref = 1\<rparr> 70000 empty_response 5 ''scholar_api'')))) ''scholar_api''
       = Some (1, 70000)
   \<and> snd (snd (check (fst (check \<lparr>cache = \<lparr>lru_max = 10, lru_ttl = 60000,
        lru_entries = [(''scholar_api'', 0, 0)]\<rparr>, heap = (\<lambda>_. 0)(0 := 7), next_ref = 1\<rparr> 70000 empty_response 5 ''scholar_api'')) 70010 empty_response 5
       ''scholar_api'')) = Inr ()"
proof -
  have h1: "lru_lookup (lru_entries (cache \<lparr>cache = \<lparr>lru_max = 10, lru_ttl = 60000,
        lru_entries = [(''scholar_api'', 0, 0)]\<rparr>, heap = (\<lambda>_. 0)(0 := 7), next_ref = 1\<rparr>)) ''scholar_api'' = Some (0, 0)"
    by (simp add: lru_lookup_def)
  have h2: "lru_stale (cache \<lparr>cache = \<lparr>lru_max = 10, lru_ttl = 60000,
        lru_entries = [(''scholar_api'', 0, 0)]\<rparr>, heap = (\<lambda>_. 0)(0 := 7), next_ref = 1\<rparr>) 70000 0" "\<not> lru_stale (cache \<lparr>cache = \<lparr>lru_max = 10, lru_ttl = 60000,
        lru_entries = [(''scholar_api'', 0, 0)]\<rparr>, heap = (\<lambda>_. 0)(0 := 7), next_ref = 1\<rparr>) 70010 70000"
    by (simp_all add: lru_stale_def)
  have "next_ref \<lparr>cache = \<lparr>lru_max = 10, lru_ttl = 60000,
        lru_entries = [(''scholar_api'', 0, 0)]\<rparr>, heap = (\<lambda>_. 0)(0 := 7), next_ref = 1\<rparr> = 1" by simp
  then show ?thesis
    using h1 h2 check_window_reset [OF h1 h2(1), where limit = 5 and now' = 70010 and res = empty_response and res' = empty_response]
    by simp
qed

end
