(* ===== verification/Recommend.thy ===== *)
theory Recommend
  imports RateLimit "HOL-Library.AList"
begin

text \<open>
  The recommendation engine of \<open>src/src/pages/api/generate-suggestions.ts\<close>: three
  strategies behind one interface (\<open>RecommendationStrategy.generateSuggestions\<close>),
  the context class \<open>RecommendationEngine\<close> that holds one of them, and the API
  handler that rate-limits the request, runs the skills-based strategy and tops the list
  up to two suggestions.  Every suggestion object is built with a fresh \<open>uuidv4()\<close>;
  a strategy therefore takes the identifier counter and returns it advanced past the
  identifiers it used.
\<close>

section \<open>Suggestion templates\<close>

text \<open>The object literals the strategies push, each with the identifier it is given.\<close>

definition ml_paper_project :: "uuid \<Rightarrow> project" where
  "ml_paper_project u =
     \<lparr>proj_id = u, proj_title = ''ML Research Paper Implementation'',
      description = ''Implement algorithms from recent machine learning papers in your field of interest'',
      category = ''Machine Learning'', proj_skills = [''Python'', ''TensorFlow'', ''PyTorch''],
      relatedPublications = None, difficulty = Advanced\<rparr>"

definition dashboard_project :: "uuid \<Rightarrow> project" where
  "dashboard_project u =
     \<lparr>proj_id = u, proj_title = ''Interactive Research Visualization Dashboard'',
      description = ''Create a web app to visualize and explore research data from your field'',
      category = ''Web Development'', proj_skills = [''JavaScript'', ''React'', ''D3.js''],
      relatedPublications = None, difficulty = Intermediate\<rparr>"

definition portfolio_project :: "uuid \<Rightarrow> project" where
  "portfolio_project u =
     \<lparr>proj_id = u, proj_title = ''Academic Portfolio Website'',
      description = ''Build a personal academic website to showcase your research, publications and projects'',
      category = ''Web Development'', proj_skills = [''Next.js'', ''React'', ''Tailwind CSS''],
      relatedPublications = None, difficulty = Intermediate\<rparr>"

definition algo_viz_project :: "uuid \<Rightarrow> project" where
  "algo_viz_project u =
     \<lparr>proj_id = u, proj_title = ''Algorithm Visualization Platform'',
      description = ''Create an interactive platform to visualize and explain complex algorithms and data structures'',
      category = ''Educational Tech'',
      proj_skills = [''JavaScript'', ''React'', ''Data Structures'', ''Algorithms''],
      relatedPublications = None, difficulty = Intermediate\<rparr>"

definition cp_tool_project :: "uuid \<Rightarrow> project" where
  "cp_tool_project u =
     \<lparr>proj_id = u, proj_title = ''Competitive Programming Training Tool'',
      description = ''Develop a tool that helps users practice competitive programming with personalized problem recommendations'',
      category = ''Educational Tech'', proj_skills = [''React'', ''Node.js'', ''Algorithms''],
      relatedPublications = None, difficulty = Advanced\<rparr>"

definition tech_blog_project :: "uuid \<Rightarrow> project" where
  "tech_blog_project u =
     \<lparr>proj_id = u, proj_title = ''Personal Technical Blog'',
      description = ''Create a blog to document your technical learnings and projects'',
      category = ''Web Development'',
      proj_skills = [''HTML'', ''CSS'', ''JavaScript'', ''Content Creation''],
      relatedPublications = None, difficulty = Beginner\<rparr>"

definition research_tool_project :: "string list \<Rightarrow> publication list \<Rightarrow> uuid \<Rightarrow> project" where
  "research_tool_project kws pubs u =
     \<lparr>proj_id = u, proj_title = ''Research Data Analysis Tool'',
      description = ''Build a specialized tool for analyzing data in your research area: '' @ join '', '' kws,
      category = ''Research'', proj_skills = [''Data Analysis'', ''Python'', ''Statistics''],
      relatedPublications = Some (take 2 pubs), difficulty = Advanced\<rparr>"

definition academic_website_project :: "uuid \<Rightarrow> project" where
  "academic_website_project u =
     \<lparr>proj_id = u, proj_title = ''Personal Academic Website'',
      description = ''Create a personal website to showcase your research, publications, and CV'',
      category = ''Web Development'', proj_skills = [''HTML'', ''CSS'', ''JavaScript''],
      relatedPublications = None, difficulty = Beginner\<rparr>"

text \<open>\<open>suggestions.push({id: uuidv4(), ...})\<close>: the template receives the next identifier.\<close>

definition push_new :: "project list \<times> uuid \<Rightarrow> (uuid \<Rightarrow> project) \<Rightarrow> project list \<times> uuid" where
  "push_new acc t = (case acc of (ps, u) \<Rightarrow> (ps @ [t u], Suc u))"

section \<open>Skills-based strategy\<close>

definition ml_skills :: "string list" where
  "ml_skills = [''Python'', ''Machine Learning'']"

definition web_skills :: "string list" where
  "web_skills = [''JavaScript'', ''Web Development'', ''React'', ''React.js'']"

definition dsa_skills :: "string list" where
  "dsa_skills = [''Competitive Programming'', ''Data Structures'', ''Algorithms'', ''DSA'',
                 ''LeetCode'', ''Codeforces'']"

text \<open>
  \<open>SkillsBasedStrategy.generateSuggestions\<close>.  The first two rules test
  \<open>skills.includes\<close> for each listed skill, the third \<open>skills.some\<close> over its list,
  all by exact string comparison; the fallback fires when nothing was pushed.  The
  strategy reads \<open>scholarData.interests\<close> into a local it never uses.
\<close>

definition skills_based_strategy ::
  "resume_data \<Rightarrow> scholar_data option \<Rightarrow> uuid \<Rightarrow> project list \<times> uuid" where
  "skills_based_strategy rd sd u =
     (let skills = rd_skills rd;
          s0 = ([], u);
          s1 = (if ''Python'' \<in> set skills \<or> ''Machine Learning'' \<in> set skills
                then push_new s0 ml_paper_project else s0);
          s2 = (if ''JavaScript'' \<in> set skills \<or> ''Web Development'' \<in> set skills \<or>
                   ''React'' \<in> set skills \<or> ''React.js'' \<in> set skills
                then push_new (push_new s1 dashboard_project) portfolio_project else s1);
          s3 = (if list_ex (\<lambda>skill. skill \<in> set dsa_skills) skills
                then push_new (push_new s2 algo_viz_project) cp_tool_project else s2)
      in if fst s3 = [] then push_new s3 tech_blog_project else s3)"

section \<open>Publications-based strategy\<close>

text \<open>
  The words of the titles: each title lower-cased and split at single spaces, words of
  at most four characters dropped.
\<close>

definition title_words :: "publication list \<Rightarrow> string list" where
  "title_words pubs =
     filter (\<lambda>w. 4 < length w) (concat (map (\<lambda>p. split_on CHR '' '' (to_lower (pub_title p))) pubs))"

text \<open>
  The counts are kept in a plain object \<open>acc\<close>: \<open>acc[word] = (acc[word] || 0) + 1\<close>.
  Its own properties are an association list in creation order.  The key
  \<open>__proto__\<close> is not an own property: reading it yields \<open>Object.prototype\<close> and
  assigning a number to it is ignored, so that word is never counted.  The key
  \<open>constructor\<close> reads the inherited \<open>Object\<close> function and the sum becomes a
  string; the model counts it like any other word (see the header).
\<close>

definition count_word :: "(string \<times> nat) list \<Rightarrow> string \<Rightarrow> (string \<times> nat) list" where
  "count_word acc w =
     (if w = ''__proto__'' then acc
      else AList.update w (case map_of acc w of None \<Rightarrow> 1 | Some n \<Rightarrow> Suc n) acc)"

definition count_words :: "string list \<Rightarrow> (string \<times> nat) list" where
  "count_words ws = foldl count_word [] ws"

text \<open>
  \<open>Object.entries\<close> lists the array-index keys first (canonical decimal numerals below
  \<open>2^32 - 1\<close>) in increasing numeric order, then the other keys in creation order.
\<close>

definition is_array_index :: "string \<Rightarrow> bool" where
  "is_array_index k \<longleftrightarrow>
     k \<noteq> [] \<and> list_all is_digit k \<and> (k = ''0'' \<or> take 1 k \<noteq> ''0'') \<and> digits_value k < 4294967295"

definition object_entries :: "(string \<times> 'v) list \<Rightarrow> (string \<times> 'v) list" where
  "object_entries kvs =
     sort_key (\<lambda>kv. digits_value (fst kv)) (filter (\<lambda>kv. is_array_index (fst kv)) kvs)
     @ filter (\<lambda>kv. \<not> is_array_index (fst kv)) kvs"

text \<open>
  \<open>.sort((a, b) => b[1] - a[1]).slice(0, 5).map(entry => entry[0])\<close>:
  \<open>Array.prototype.sort\<close> is stable, so this is a stable sort on the count, largest
  first.
\<close>

definition top_keywords :: "publication list \<Rightarrow> string list" where
  "top_keywords pubs =
     map fst (take 5 (sort_key (\<lambda>kv. - int (snd kv)) (object_entries (count_words (title_words pubs)))))"

definition scholar_publications :: "scholar_data option \<Rightarrow> publication list" where
  "scholar_publications sd = (case sd of None \<Rightarrow> [] | Some s \<Rightarrow> publications s)"

definition publications_based_strategy ::
  "resume_data \<Rightarrow> scholar_data option \<Rightarrow> uuid \<Rightarrow> project list \<times> uuid" where
  "publications_based_strategy rd sd u =
     (let pubs = scholar_publications sd
      in if pubs \<noteq> [] then push_new ([], u) (research_tool_project (top_keywords pubs) pubs)
         else ([], u))"

section \<open>Hybrid strategy, strategy interface and engine\<close>

definition hybrid_strategy ::
  "resume_data \<Rightarrow> scholar_data option \<Rightarrow> uuid \<Rightarrow> project list \<times> uuid" where
  "hybrid_strategy rd sd u =
     (let (ss, u1) = skills_based_strategy rd sd u;
          (ps, u2) = publications_based_strategy rd sd u1
      in (ss @ ps, u2))"

text \<open>The three classes that implement \<open>RecommendationStrategy\<close>.\<close>

datatype strategy = SkillsBasedStrategy | PublicationsBasedStrategy | HybridStrategy

fun generate_suggestions ::
  "strategy \<Rightarrow> resume_data \<Rightarrow> scholar_data option \<Rightarrow> uuid \<Rightarrow> project list \<times> uuid" where
  "generate_suggestions SkillsBasedStrategy = skills_based_strategy"
| "generate_suggestions PublicationsBasedStrategy = publications_based_strategy"
| "generate_suggestions HybridStrategy = hybrid_strategy"

record recommendation_engine =
  engine_strategy :: strategy

definition set_strategy :: "recommendation_engine \<Rightarrow> strategy \<Rightarrow> recommendation_engine" where
  "set_strategy e s = e\<lparr>engine_strategy := s\<rparr>"

definition generate_recommendations ::
  "recommendation_engine \<Rightarrow> resume_data \<Rightarrow> scholar_data option \<Rightarrow> uuid \<Rightarrow> project list \<times> uuid" where
  "generate_recommendations e rd sd u = generate_suggestions (engine_strategy e) rd sd u"

section \<open>The API handler\<close>

text \<open>
  The request: its method and the two body fields; a missing or falsy
  \<open>resumeData\<close> or \<open>scholarData\<close> is \<open>None\<close>.
\<close>

record suggestions_request =
  sreq_method :: string
  sreq_resume :: "resume_data option"
  sreq_scholar :: "scholar_data option"

text \<open>The module-level limiter: \<open>rateLimit({interval: 60 * 1000, uniqueTokenPerInterval: 10})\<close>.\<close>

definition suggestions_limiter :: limiter where
  "suggestions_limiter = rate_limit 60000 10"

text \<open>
  The top-up after the strategy: fewer than two suggestions get the
  \<open>Personal Academic Website\<close> one appended.
\<close>

definition top_up :: "project list \<times> uuid \<Rightarrow> project list \<times> uuid" where
  "top_up acc = (if length (fst acc) < 2 then push_new acc academic_website_project else acc)"

text \<open>
  \<open>handler(req, res)\<close> at time \<open>now\<close>, with the limiter's state and the identifier
  counter threaded through.  A rejection of \<open>limiter.check\<close> lands in the
  \<open>catch\<close> block, which writes a 500 after the 429 the limiter already wrote.
\<close>

definition suggestions_handler ::
  "limiter \<Rightarrow> uuid \<Rightarrow> nat \<Rightarrow> suggestions_request \<Rightarrow> limiter \<times> uuid \<times> http_response" where
  "suggestions_handler lim u now req =
     (if sreq_method req \<noteq> ''POST''
      then (lim, u, send_json 405 (error_body ''Method not allowed'') empty_response)
      else
        (case check lim now empty_response 5 ''suggestions_api'' of
          (lim', res, Inl msg) \<Rightarrow>
            (lim', u, send_json 500
                        (JObj [(''error'', JStr ''Failed to generate suggestions''), (''details'', JStr msg)]) res)
        | (lim', res, Inr _) \<Rightarrow>
            (case sreq_resume req of
              None \<Rightarrow> (lim', u, send_json 400 (error_body ''Resume data is required'') res)
            | Some rd \<Rightarrow>
                (let engine = \<lparr>engine_strategy = SkillsBasedStrategy\<rparr>;
                     (sugs, u') = top_up (generate_recommendations engine rd (sreq_scholar req) u)
                 in (lim', u', send_json 200 (JArr (map json_of_project sugs)) res)))))"

section \<open>The rule table\<close>

text \<open>
  The skills-based strategy as the specification states it: a table of rules, each a set
  of trigger skills and the templates it appends, evaluated in order, with the fallback
  when none fires.  \<open>instantiate\<close> gives consecutive identifiers to a list of
  templates.
\<close>

fun instantiate :: "(uuid \<Rightarrow> project) list \<Rightarrow> uuid \<Rightarrow> project list" where
  "instantiate [] u = []"
| "instantiate (t # ts) u = t u # instantiate ts (Suc u)"

definition skills_rules :: "string list \<Rightarrow> (uuid \<Rightarrow> project) list" where
  "skills_rules skills =
     (let r1 = set skills \<inter> set ml_skills \<noteq> {};
          r2 = set skills \<inter> set web_skills \<noteq> {};
          r3 = set skills \<inter> set dsa_skills \<noteq> {}
      in (if r1 then [ml_paper_project] else [])
         @ (if r2 then [dashboard_project, portfolio_project] else [])
         @ (if r3 then [algo_viz_project, cp_tool_project] else [])
         @ (if r1 \<or> r2 \<or> r3 then [] else [tech_blog_project]))"

text \<open>
  The contract every strategy meets: the templates it appends, which depend on the
  resume and the profile only, instantiated with consecutive fresh identifiers.
\<close>

definition strategy_templates ::
  "strategy \<Rightarrow> resume_data \<Rightarrow> scholar_data option \<Rightarrow> (uuid \<Rightarrow> project) list" where
  "strategy_templates s rd sd =
     (let sk = skills_rules (rd_skills rd);
          pubs = scholar_publications sd;
          pb = (if pubs = [] then [] else [research_tool_project (top_keywords pubs) pubs])
      in case s of
           SkillsBasedStrategy \<Rightarrow> sk
         | PublicationsBasedStrategy \<Rightarrow> pb
         | HybridStrategy \<Rightarrow> sk @ pb)"

lemmas template_defs =
  ml_paper_project_def dashboard_project_def portfolio_project_def algo_viz_project_def
  cp_tool_project_def tech_blog_project_def research_tool_project_def academic_website_project_def

lemma template_ids [simp]:
  "proj_id (ml_paper_project u) = u" "proj_id (dashboard_project u) = u"
  "proj_id (portfolio_project u) = u" "proj_id (algo_viz_project u) = u"
  "proj_id (cp_tool_project u) = u" "proj_id (tech_blog_project u) = u"
  "proj_id (research_tool_project kws pubs u) = u" "proj_id (academic_website_project u) = u"
  by (simp_all add: template_defs)

lemma push_new_pair [simp]: "push_new (ps, u) t = (ps @ [t u], Suc u)"
  by (simp add: push_new_def)

lemma instantiate_append:
  "instantiate (ts @ ts') u = instantiate ts u @ instantiate ts' (u + length ts)"
  by (induction ts arbitrary: u) simp_all

lemma length_instantiate [simp]: "length (instantiate ts u) = length ts"
  by (induction ts arbitrary: u) simp_all

lemma push_new_instantiate:
  "push_new (instantiate ts u, u + length ts) t = (instantiate (ts @ [t]) u, u + length (ts @ [t]))"
  by (simp add: instantiate_append)

text \<open>Every template a strategy uses stamps the identifier it is given.\<close>

definition stamps_id :: "(uuid \<Rightarrow> project) \<Rightarrow> bool" where
  "stamps_id t \<longleftrightarrow> (\<forall>i. proj_id (t i) = i)"

lemma ids_instantiate:
  "list_all stamps_id ts \<Longrightarrow> map proj_id (instantiate ts u) = [u..<u + length ts]"
  by (induction ts arbitrary: u) (simp_all add: stamps_id_def upt_rec)

lemma stamps_id_templates [simp]:
  "stamps_id ml_paper_project" "stamps_id dashboard_project" "stamps_id portfolio_project"
  "stamps_id algo_viz_project" "stamps_id cp_tool_project" "stamps_id tech_blog_project"
  "stamps_id (research_tool_project kws pubs)" "stamps_id academic_website_project"
  by (simp_all add: stamps_id_def)

lemma stamps_id_skills_rules: "list_all stamps_id (skills_rules skills)"
  by (simp add: skills_rules_def Let_def)

lemma rule_triggers:
  "(set skills \<inter> set ml_skills \<noteq> {}) = (''Python'' \<in> set skills \<or> ''Machine Learning'' \<in> set skills)"
  "(set skills \<inter> set web_skills \<noteq> {}) =
     (''JavaScript'' \<in> set skills \<or> ''Web Development'' \<in> set skills \<or>
      ''React'' \<in> set skills \<or> ''React.js'' \<in> set skills)"
  "(set skills \<inter> set dsa_skills \<noteq> {}) = list_ex (\<lambda>skill. skill \<in> set dsa_skills) skills"
  by (auto simp: ml_skills_def web_skills_def list_ex_iff)

text \<open>
  The pushes of \<open>SkillsBasedStrategy\<close> implement the rule table: the suggestions are the
  table's templates in order, with consecutive fresh identifiers.
\<close>

lemma skills_based_eq_rules:
  "skills_based_strategy rd sd u =
     (instantiate (skills_rules (rd_skills rd)) u, u + length (skills_rules (rd_skills rd)))"
  unfolding skills_based_strategy_def skills_rules_def rule_triggers Let_def
  by (simp add: instantiate_append)


lemma publications_based_templates:
  "publications_based_strategy rd sd u =
     (instantiate (strategy_templates PublicationsBasedStrategy rd sd) u,
      u + length (strategy_templates PublicationsBasedStrategy rd sd))"
  by (simp add: publications_based_strategy_def strategy_templates_def Let_def)

text \<open>
  Every strategy behind the \<open>RecommendationStrategy\<close> interface implements the
  contract: its suggestions are its templates with the identifiers
  \<open>u, u + 1, \<dots>\<close>, and the counter ends past the last one.
\<close>

lemma generate_suggestions_eq:
  "generate_suggestions s rd sd u =
     (instantiate (strategy_templates s rd sd) u, u + length (strategy_templates s rd sd))"
proof (cases s)
  case SkillsBasedStrategy
  then show ?thesis
    by (simp add: skills_based_eq_rules strategy_templates_def)
next
  case PublicationsBasedStrategy
  then show ?thesis by (simp add: publications_based_templates)
next
  case HybridStrategy
  then show ?thesis
    by (simp add: hybrid_strategy_def skills_based_eq_rules publications_based_templates
        strategy_templates_def Let_def instantiate_append)
qed

declare generate_suggestions.simps [simp del]

lemma stamps_id_strategy_templates: "list_all stamps_id (strategy_templates s rd sd)"
  by (cases s) (simp_all add: strategy_templates_def stamps_id_skills_rules Let_def)

text \<open>
  (C3)
  The identifiers of a strategy's suggestions are fresh and pairwise distinct: they are
  the counter values \<open>u, u + 1, \<dots>\<close>, and the counter is left past them.
\<close>

theorem generate_suggestions_fresh_ids:
  "map proj_id (fst (generate_suggestions s rd sd u)) =
     [u..<snd (generate_suggestions s rd sd u)]"
  by (simp add: generate_suggestions_eq ids_instantiate stamps_id_strategy_templates)

corollary generate_suggestions_distinct_ids:
  "distinct (map proj_id (fst (generate_suggestions s rd sd u)))"
  by (simp add: generate_suggestions_eq ids_instantiate stamps_id_strategy_templates)

lemma skills_rules_not_Nil: "skills_rules skills \<noteq> []"
  by (simp add: skills_rules_def Let_def)

lemma top_up_length:
  "length (fst (top_up acc)) = (if length (fst acc) < 2 then Suc (length (fst acc)) else length (fst acc))"
  by (cases acc) (simp add: top_up_def)

text \<open>
  (C2)
  The production path (skills-based strategy, then the top-up) never answers with fewer
  than two suggestions, whatever the resume holds.
\<close>

theorem top_up_skills_at_least_two:
  "2 \<le> length (fst (top_up (generate_suggestions SkillsBasedStrategy rd sd u)))"
proof -
  have "skills_rules (rd_skills rd) \<noteq> []" by (rule skills_rules_not_Nil)
  then have "1 \<le> length (fst (generate_suggestions SkillsBasedStrategy rd sd u))"
    by (simp add: generate_suggestions_eq strategy_templates_def Suc_le_eq)
  then show ?thesis by (simp add: top_up_length)
qed


text \<open>
  (C13)
  The skills-based strategy depends on the set of skills only: reordering the skills or
  repeating one changes nothing.
\<close>

theorem skills_based_set_only:
  "set (rd_skills rd) = set (rd_skills rd') \<Longrightarrow>
   skills_based_strategy rd sd u = skills_based_strategy rd' sd' u"
  by (simp add: skills_based_eq_rules skills_rules_def)

text \<open>
  (C14) No rule fires twice: the titles of the skills-based suggestions are pairwise distinct.\<close>

theorem skills_based_distinct_titles:
  "distinct (map proj_title (fst (skills_based_strategy rd sd u)))"
  by (simp add: skills_based_eq_rules skills_rules_def Let_def template_defs)


subsection \<open>Keyword counting\<close>

lemma count_word_keys:
  "map fst (count_word acc w) = (if w = ''__proto__'' then map fst acc else set_add (map fst acc) w)"
  by (simp add: count_word_def AList.update_keys set_add_def)

lemma foldl_count_word_keys:
  "map fst (foldl count_word acc ws) = set_add_all (map fst acc) (filter (\<lambda>w. w \<noteq> ''__proto__'') ws)"
  by (induction ws arbitrary: acc) (simp_all add: count_word_keys)

lemma map_of_count_word:
  "map_of (count_word acc x) w =
     (if x = ''__proto__'' \<or> x \<noteq> w then map_of acc w
      else Some (case map_of acc w of None \<Rightarrow> 1 | Some n \<Rightarrow> Suc n))"
  by (auto simp: count_word_def AList.update_conv')

lemma foldl_count_word_counts:
  "map_of (foldl count_word acc ws) w =
     (if w = ''__proto__'' then map_of acc w
      else case map_of acc w of
             None \<Rightarrow> (if count_list ws w = 0 then None else Some (count_list ws w))
           | Some n \<Rightarrow> Some (n + count_list ws w))"
proof (induction ws arbitrary: acc)
  case Nil
  then show ?case by (simp split: option.split)
next
  case (Cons x ws)
  then show ?case
    by (simp add: map_of_count_word split: option.split)
qed

lemma count_words_keys:
  "map fst (count_words ws) = rev (remdups (rev (filter (\<lambda>w. w \<noteq> ''__proto__'') ws)))"
  by (simp add: count_words_def foldl_count_word_keys set_add_all_first_occurrences)

text \<open>
  The counting object holds, for every word of the titles but \<open>__proto__\<close>, the number of
  its occurrences, and nothing else.
\<close>

lemma count_words_map_of:
  "map_of (count_words ws) w =
     (if w = ''__proto__'' \<or> count_list ws w = 0 then None else Some (count_list ws w))"
  by (simp add: count_words_def foldl_count_word_counts)

lemma alist_by_keys:
  "distinct (map fst al) \<Longrightarrow> al = map (\<lambda>k. (k, the (map_of al k))) (map fst al)"
proof (induction al)
  case Nil
  then show ?case by simp
next
  case (Cons p al)
  obtain a b where p: "p = (a, b)" by (cases p)
  from Cons.prems p have a: "a \<notin> set (map fst al)" and d: "distinct (map fst al)" by auto
  have "map (\<lambda>k. (k, the (map_of ((a, b) # al) k))) (map fst al) =
        map (\<lambda>k. (k, the (map_of al k))) (map fst al)"
    using a by (intro map_cong) auto
  with Cons.IH [OF d] p show ?case by simp
qed

lemma count_words_eq:
  "count_words ws =
     map (\<lambda>w. (w, count_list ws w)) (rev (remdups (rev (filter (\<lambda>w. w \<noteq> ''__proto__'') ws))))"
proof -
  let ?ks = "rev (remdups (rev (filter (\<lambda>w. w \<noteq> ''__proto__'') ws)))"
  have d: "distinct (map fst (count_words ws))" by (simp add: count_words_keys)
  have "count_words ws = map (\<lambda>k. (k, the (map_of (count_words ws) k))) ?ks"
    using alist_by_keys [OF d] by (simp add: count_words_keys)
  also have "\<dots> = map (\<lambda>w. (w, count_list ws w)) ?ks"
    by (rule map_cong) (auto simp: count_words_map_of count_list_0_iff)
  finally show ?thesis .
qed

lemma map_insort_key:
  "map f (insort_key (\<lambda>x. g (f x)) x xs) = insort_key g (f x) (map f xs)"
  by (induction xs) auto

lemma map_sort_key: "map f (sort_key (\<lambda>x. g (f x)) xs) = sort_key g (map f xs)"
  by (induction xs) (simp_all add: map_insort_key)

lemma object_entries_no_index:
  "\<not> list_ex (\<lambda>kv. is_array_index (fst kv)) kvs \<Longrightarrow> object_entries kvs = kvs"
  by (simp add: object_entries_def list_ex_iff filter_id_conv)

text \<open>
  (C9)
  Where no title word is an array index, the keywords are what the specification says:
  the words (\<open>__proto__\<close> apart) in order of first occurrence, stably sorted by
  frequency, the first five.
\<close>

theorem top_keywords_spec:
  assumes "\<not> list_ex is_array_index (title_words pubs)"
  shows "top_keywords pubs =
           take 5 (sort_key (\<lambda>w. - int (count_list (title_words pubs) w))
                     (rev (remdups (rev (filter (\<lambda>w. w \<noteq> ''__proto__'') (title_words pubs))))))"
proof -
  let ?ws = "title_words pubs"
  have "\<not> list_ex (\<lambda>kv. is_array_index (fst kv)) (count_words ?ws)"
    using assms by (auto simp: count_words_eq list_ex_iff)
  then have "top_keywords pubs = map fst (take 5 (sort_key (\<lambda>kv. - int (snd kv)) (count_words ?ws)))"
    by (simp add: top_keywords_def object_entries_no_index)
  also have "\<dots> = map fst (take 5 (map (\<lambda>w. (w, count_list ?ws w))
                    (sort_key (\<lambda>w. - int (count_list ?ws w))
                       (rev (remdups (rev (filter (\<lambda>w. w \<noteq> ''__proto__'') ?ws)))))))"
    by (simp add: count_words_eq map_sort_key [symmetric, where f = "\<lambda>w. (w, count_list ?ws w)"])
  finally show ?thesis
    by (simp add: take_map comp_def)
qed


subsection \<open>The handler\<close>

lemma check_cases:
  obtains (allowed) lim' res where "check lim now empty_response 5 ''suggestions_api'' = (lim', res, Inr ())"
      "resp_writes res = []"
  | (limited) lim' res where
      "check lim now empty_response 5 ''suggestions_api'' = (lim', res, Inl ''Rate limit exceeded'')"
      "resp_writes res = [(429, error_body ''Rate limit exceeded'')]"
  using check_response [of lim now empty_response 5 "''suggestions_api''"]
  by (cases "check lim now empty_response 5 ''suggestions_api''") (auto simp: empty_response_def)

text \<open>
  (C5)
  What the client of \<open>/api/generate-suggestions\<close> receives, on every branch: 405 for
  a method other than POST, 429 when the limiter refuses, 400 without resume data, and
  otherwise 200 with the skills-based suggestions topped up.
\<close>

theorem suggestions_handler_delivered:
  "delivered (snd (snd (suggestions_handler lim u now req))) =
     (if sreq_method req \<noteq> ''POST'' then Some (405, error_body ''Method not allowed'')
      else case snd (snd (check lim now empty_response 5 ''suggestions_api'')) of
             Inl _ \<Rightarrow> Some (429, error_body ''Rate limit exceeded'')
           | Inr _ \<Rightarrow>
               (case sreq_resume req of
                  None \<Rightarrow> Some (400, error_body ''Resume data is required'')
                | Some rd \<Rightarrow> Some (200, JArr (map json_of_project
                    (fst (top_up (generate_suggestions SkillsBasedStrategy rd (sreq_scholar req) u)))))))"
proof (cases "sreq_method req = ''POST''")
  case False
  then show ?thesis by (simp add: suggestions_handler_def empty_response_def delivered_def)
next
  case True
  show ?thesis
  proof (cases lim now rule: check_cases)
    case (allowed lim' res)
    then show ?thesis
      using True
      by (simp add: suggestions_handler_def generate_recommendations_def delivered_no_writes
          split: option.split prod.split)
  next
    case (limited lim' res)
    then show ?thesis
      using True by (simp add: suggestions_handler_def delivered_def)
  qed
qed

text \<open>
  (C8)
  A refused request is answered twice: the limiter writes the 429, the rejection lands in
  the \<open>catch\<close> block, and the handler writes a 500 on the response already sent.
\<close>

theorem suggestions_handler_limited_writes_twice:
  assumes "sreq_method req = ''POST''"
    and "snd (snd (check lim now empty_response 5 ''suggestions_api'')) = Inl m"
  shows "resp_writes (snd (snd (suggestions_handler lim u now req))) =
           [(429, error_body ''Rate limit exceeded''),
            (500, JObj [(''error'', JStr ''Failed to generate suggestions''),
                        (''details'', JStr ''Rate limit exceeded'')])]"
proof (cases lim now rule: check_cases)
  case (allowed lim' res)
  with assms(2) show ?thesis by simp
next
  case (limited lim' res)
  with assms(1) show ?thesis by (simp add: suggestions_handler_def)
qed

text \<open>
  (C17) A request with another method is refused before the limiter counts it.\<close>

theorem suggestions_handler_not_post:
  "sreq_method req \<noteq> ''POST'' \<Longrightarrow>
   suggestions_handler lim u now req = (lim, u, send_json 405 (error_body ''Method not allowed'') empty_response)"
  by (simp add: suggestions_handler_def)


subsection \<open>Properties of the engine\<close>

text \<open>
  (C1)
  The pushes of \<open>SkillsBasedStrategy.generateSuggestions\<close> implement the rule table of
  the specification: the suggestions are the table's templates for the resume's skills, in
  rule order, with consecutive fresh identifiers, and the counter ends past them.
\<close>

theorem skills_based_refines_rules:
  "skills_based_strategy rd sd u =
     (instantiate (skills_rules (rd_skills rd)) u, u + length (skills_rules (rd_skills rd)))"
  unfolding skills_based_strategy_def skills_rules_def rule_triggers Let_def
  by (simp add: instantiate_append)

text \<open>
  (C10)
  The counting object holds, for every title word other than \<open>__proto__\<close>, the number
  of its occurrences, and no other key.
\<close>

theorem count_words_counts:
  "map_of (count_words ws) w =
     (if w = ''__proto__'' \<or> count_list ws w = 0 then None else Some (count_list ws w))"
  by (simp add: count_words_def foldl_count_word_counts)

text \<open>
  (C11)
  The keywords on every list of publications: the title words (\<open>__proto__\<close> apart) in
  the order \<open>Object.entries\<close> gives them, the array-index words first in increasing numeric
  order and the others in order of first occurrence, then stably sorted by frequency, the
  first five.  A numeric word therefore precedes an equally frequent earlier word, against
  the first-occurrence tie-break of the specification.
\<close>

theorem top_keywords_object_order:
  "top_keywords pubs =
     take 5 (sort_key (\<lambda>w. - int (count_list (title_words pubs) w))
       (sort_key digits_value (filter is_array_index (rev (remdups (rev (filter (\<lambda>w. w \<noteq> ''__proto__'') (title_words pubs))))))
        @ filter (\<lambda>w. \<not> is_array_index w) (rev (remdups (rev (filter (\<lambda>w. w \<noteq> ''__proto__'') (title_words pubs)))))))"
proof -
  let ?ws = "title_words pubs"
  let ?ks = "rev (remdups (rev (filter (\<lambda>w. w \<noteq> ''__proto__'') ?ws)))"
  let ?p = "\<lambda>w. (w, count_list ?ws w)"
  let ?l = "sort_key digits_value (filter is_array_index ?ks) @ filter (\<lambda>w. \<not> is_array_index w) ?ks"
  have "object_entries (count_words ?ws) = map ?p ?l"
    by (simp add: count_words_eq object_entries_def filter_map comp_def
        map_sort_key [symmetric, where f = ?p and g = "\<lambda>kv. digits_value (fst kv)"])
  then have "top_keywords pubs = map fst (take 5 (sort_key (\<lambda>kv. - int (snd kv)) (map ?p ?l)))"
    by (simp add: top_keywords_def)
  also have "\<dots> = map fst (take 5 (map ?p (sort_key (\<lambda>w. - int (count_list ?ws w)) ?l)))"
    by (subst map_sort_key [where f = ?p and g = "\<lambda>kv. - int (snd kv)", symmetric]) simp
  finally show ?thesis
    by (simp add: take_map comp_def)
qed

text \<open>
  Scenario of the specification: a resume whose only skill is \<open>Python\<close> fires the
  machine-learning rule alone, and the top-up adds the academic website; the handler
  answers 200 with these two suggestions, identifiers 0 and 1.
\<close>

theorem scenario_python_handler:
  "delivered (snd (snd (suggestions_handler suggestions_limiter 0 1000
     \<lparr>sreq_method = ''POST'', sreq_resume = Some (resume_initial\<lparr>rd_skills := [''Python'']\<rparr>),
      sreq_scholar = None\<rparr>))) =
   Some (200, JArr (map json_of_project [ml_paper_project 0, academic_website_project 1]))"
proof -
  have "lru_lookup (lru_entries (cache suggestions_limiter)) ''suggestions_api'' = None"
    by (simp add: suggestions_limiter_def rate_limit_def lru_lookup_def)
  from check_absent [OF this, of 1000 empty_response 5]
  have "snd (snd (check suggestions_limiter 1000 empty_response 5 ''suggestions_api'')) = Inr ()"
    by simp
  then show ?thesis
    by (simp add: suggestions_handler_delivered generate_suggestions_eq strategy_templates_def
        skills_rules_def ml_skills_def web_skills_def dsa_skills_def resume_initial_def top_up_def)
qed

text \<open>
  Scenario of the specification: skills \<open>JavaScript\<close> and \<open>React\<close> fire the web rule
  only: exactly the dashboard and the portfolio site, both intermediate.
\<close>

theorem scenario_js_react:
  "fst (skills_based_strategy (rd\<lparr>rd_skills := [''JavaScript'', ''React'']\<rparr>) sd u) =
     [dashboard_project u, portfolio_project (Suc u)]
   \<and> map difficulty (fst (skills_based_strategy (rd\<lparr>rd_skills := [''JavaScript'', ''React'']\<rparr>) sd u)) =
     [Intermediate, Intermediate]"
  by (simp add: skills_based_strategy_def dsa_skills_def template_defs)

subsection \<open>Witnesses\<close>

theorem skills_based_set_only_witness:
  "set (rd_skills (resume_initial\<lparr>rd_skills := [''Python'', ''Python'']\<rparr>)) =
     set (rd_skills (resume_initial\<lparr>rd_skills := [''Python'']\<rparr>))
   \<and> skills_based_strategy (resume_initial\<lparr>rd_skills := [''Python'', ''Python'']\<rparr>) None 3 =
     skills_based_strategy (resume_initial\<lparr>rd_skills := [''Python'']\<rparr>) None 3"
  using skills_based_set_only [of "resume_initial\<lparr>rd_skills := [''Python'', ''Python'']\<rparr>"
      "resume_initial\<lparr>rd_skills := [''Python'']\<rparr>" None 3 None]
  by simp

theorem suggestions_handler_not_post_witness:
  "''GET'' \<noteq> ''POST''
   \<and> suggestions_handler suggestions_limiter 0 5
       \<lparr>sreq_method = ''GET'', sreq_resume = None, sreq_scholar = None\<rparr> =
     (suggestions_limiter, 0, send_json 405 (error_body ''Method not allowed'') empty_response)"
  using suggestions_handler_not_post [of "\<lparr>sreq_method = ''GET'', sreq_resume = None, sreq_scholar = None\<rparr>"
      suggestions_limiter 0 5]
  by simp

definition exhausted_limiter :: limiter where
  "exhausted_limiter =
     \<lparr>cache = \<lparr>lru_max = 10, lru_ttl = 60000, lru_entries = [(''suggestions_api'', 0, 0)]\<rparr>,
      heap = (\<lambda>_. 0)(0 := 5), next_ref = 1\<rparr>"

lemma exhausted_limiter_check:
  "snd (snd (check exhausted_limiter 10 empty_response 5 ''suggestions_api'')) = Inl ''Rate limit exceeded''"
  by (simp add: check_def exhausted_limiter_def lru_get_def lru_lookup_def lru_stale_def lru_drop_def Let_def)

theorem suggestions_handler_limited_writes_twice_witness:
  "''POST'' = ''POST''
   \<and> snd (snd (check exhausted_limiter 10 empty_response 5 ''suggestions_api'')) = Inl ''Rate limit exceeded''
   \<and> resp_writes (snd (snd (suggestions_handler exhausted_limiter 0 10
       \<lparr>sreq_method = ''POST'', sreq_resume = None, sreq_scholar = None\<rparr>))) =
       [(429, error_body ''Rate limit exceeded''),
        (500, JObj [(''error'', JStr ''Failed to generate suggestions''),
                    (''details'', JStr ''Rate limit exceeded'')])]"
  using suggestions_handler_limited_writes_twice
      [of "\<lparr>sreq_method = ''POST'', sreq_resume = None, sreq_scholar = None\<rparr>" exhausted_limiter 10
        "''Rate limit exceeded''" 0] exhausted_limiter_check
  by simp

theorem top_keywords_spec_witness:
  "\<not> list_ex is_array_index (title_words [\<lparr>pub_title = ''Deep Learning for learning'', authors = [],
        journal = None, pub_year = None, pub_citations = None, pub_url = None\<rparr>])
   \<and> top_keywords [\<lparr>pub_title = ''Deep Learning for learning'', authors = [],
        journal = None, pub_year = None, pub_citations = None, pub_url = None\<rparr>] = [''learning'']"
  using top_keywords_spec [of "[\<lparr>pub_title = ''Deep Learning for learning'', authors = [],
        journal = None, pub_year = None, pub_citations = None, pub_url = None\<rparr>]"]
  by (simp add: title_words_def js_eval is_array_index_def)

end
