(* ===== verification/Scholar.thy ===== *)
theory Scholar
  imports RateLimit
begin

text \<open>
  The profile extractor of \<open>src/src/pages/api/fetch-scholar-data.ts\<close>:
  \<open>ScholarScraper.scrapeProfile\<close> and the route handler.  The HTTP fetch
  (\<open>axios\<close>) and the HTML parser (\<open>cheerio\<close>) are libraries; the extractor
  receives them as parameters: \<open>fetch\<close> maps a URL to the body or an error message,
  \<open>load\<close> maps the body to the element selections the code queries
  (\<open>profile_page\<close>: for each CSS class the code selects, the texts of the matched
  elements in document order).  What the code does with those selections is modelled
  in full: \<open>.first()\<close>, \<open>.last()\<close>, \<open>.text()\<close> (the texts of all matched
  elements, concatenated), \<open>.attr('href')\<close> (the first element's attribute), the
  positional citation metrics, the fallback path and the error paths.
\<close>

section \<open>parseInt\<close>

text \<open>
  \<open>parseInt(s, 10)\<close>: leading white space skipped, an optional sign, then the longest
  run of decimal digits; \<open>NaN\<close> when there is none.  (The source's values are counts far
  below \<open>2^53\<close>, where a double is exact.)
\<close>

definition parse_int :: "string \<Rightarrow> js_number" where
  "parse_int s =
     (let s1 = dropWhile js_ws s;
          (neg, s2) = (if take 1 s1 = ''-'' then (True, drop 1 s1)
                       else if take 1 s1 = ''+'' then (False, drop 1 s1) else (False, s1));
          ds = takeWhile is_digit s2
      in if ds = [] then NaN
         else Num (if neg then - int (digits_value ds) else int (digits_value ds)))"

section \<open>The page\<close>

record anchor =
  a_href :: "string option"
  a_text :: string

text \<open>A publication row (\<open>.gsc_a_tr\<close>) and what the code selects inside it.\<close>

record pub_row =
  row_at :: "anchor list"
  row_gray :: "string list"
  row_ac :: "string list"

record profile_page =
  prf_in :: "string list"
  a_tr :: "pub_row list"
  rsb_std :: "string list"
  prf_ila :: "string list"
  page_title :: "string list"
  anchors :: "anchor list"

text \<open>\<open>.first().text()\<close>, \<open>.last().text()\<close>: the empty string on an empty selection.\<close>

definition first_text :: "string list \<Rightarrow> string" where
  "first_text ts = (case ts of [] \<Rightarrow> [] | t # _ \<Rightarrow> t)"

definition last_text :: "string list \<Rightarrow> string" where
  "last_text ts = (case rev ts of [] \<Rightarrow> [] | t # _ \<Rightarrow> t)"

text \<open>\<open>.attr('href')\<close> of a selection: the first element's attribute.\<close>

definition first_href :: "anchor list \<Rightarrow> string option" where
  "first_href as = (case as of [] \<Rightarrow> None | a # _ \<Rightarrow> a_href a)"

section \<open>Primary extraction\<close>

definition scholar_base :: string where
  "scholar_base = ''https://scholar.google.com''"

text \<open>
  One row of \<open>$('.gsc_a_tr').each(...)\<close>: \<open>None\<close> for a row without a title (the
  early \<open>return\<close>).  An empty \<open>href\<close> is falsy and gives no URL; a venue line without
  \<open>, \<close> gives no year; a present citation text goes through \<open>parseInt\<close>.
\<close>

definition extract_row :: "pub_row \<Rightarrow> publication option" where
  "extract_row r =
     (let title = trim (concat (map a_text (row_at r)));
          url = (case first_href (row_at r) of
                   None \<Rightarrow> None
                 | Some h \<Rightarrow> if h = [] then None else Some (scholar_base @ h));
          auths = trim (first_text (row_gray r));
          venueYear = trim (last_text (row_gray r));
          journalYear = split_str '', '' venueYear;
          jrnl = (case journalYear of [] \<Rightarrow> None | j # _ \<Rightarrow> if j = [] then None else Some j);
          yr = (case journalYear of _ # y # _ \<Rightarrow> Some y | _ \<Rightarrow> None);
          citationsText = trim (concat (row_ac r));
          cites = (if citationsText \<noteq> [] then parse_int citationsText else Num 0)
      in if title = [] then None
         else Some \<lparr>pub_title = title, authors = auths, journal = jrnl, pub_year = yr,
                    pub_citations = Some cites, pub_url = url\<rparr>)"

definition extract_publications :: "profile_page \<Rightarrow> publication list" where
  "extract_publications p = List.map_filter extract_row (a_tr p)"

text \<open>
  \<open>$('.gsc_rsb_std').each((idx, element) => ...)\<close>: the value of element 0 is the total
  (\<open>NaN\<close> becomes 0), of element 2 the h-index and of element 4 the i10-index
  (\<open>NaN\<close> leaves them undefined).
\<close>

definition no_metrics :: citation_metrics where
  "no_metrics = \<lparr>total = Num 0, h_index = None, i10_index = None\<rparr>"

definition metric_step :: "citation_metrics \<Rightarrow> nat \<times> string \<Rightarrow> citation_metrics" where
  "metric_step c ie =
     (case ie of (idx, txt) \<Rightarrow>
       (let value = parse_int (trim txt);
            c1 = (if idx = 0 then c\<lparr>total := (if is_nan value then Num 0 else value)\<rparr> else c);
            c2 = (if idx = 2 then c1\<lparr>h_index := (if is_nan value then None else Some value)\<rparr> else c1)
        in if idx = 4 then c2\<lparr>i10_index := (if is_nan value then None else Some value)\<rparr> else c2))"

definition extract_metrics :: "string list \<Rightarrow> citation_metrics" where
  "extract_metrics els = foldl metric_step no_metrics (enumerate 0 els)"

definition extract_interests :: "profile_page \<Rightarrow> string list" where
  "extract_interests p = filter (\<lambda>i. i \<noteq> []) (map trim (prf_ila p))"

section \<open>Fallback extraction\<close>

definition citation_marker :: string where
  "citation_marker = ''/citations?view_op=view_citation''"

text \<open>\<open>$('a').each(...)\<close> of the fallback: anchors to a citation page with a text.\<close>

definition fallback_anchor :: "anchor \<Rightarrow> publication option" where
  "fallback_anchor a =
     (let txt = trim (a_text a) in
      case a_href a of
        None \<Rightarrow> None
      | Some h \<Rightarrow> if str_includes h citation_marker \<and> txt \<noteq> []
                 then Some \<lparr>pub_title = txt, authors = [], journal = None, pub_year = None,
                            pub_citations = None, pub_url = Some (scholar_base @ h)\<rparr>
                 else None)"

definition fallback_name :: "profile_page \<Rightarrow> string" where
  "fallback_name p = trim (replace_first '' - Google Scholar'' [] (concat (page_title p)))"

text \<open>
  \<open>Partial<ScholarData>\<close> as the scraper returns it: a field that is \<open>undefined\<close> is
  \<open>None\<close>.
\<close>

record scholar_partial =
  sp_name :: "string option"
  sp_profileUrl :: "string option"
  sp_publications :: "publication list option"
  sp_citations :: "citation_metrics option"
  sp_interests :: "string list option"

text \<open>
  The extraction part of \<open>scrapeProfile\<close>, on a loaded page: the primary selectors,
  the fallback when name, publications and interests are all empty, then the result
  object (\<open>name || 'Scholar Profile'\<close>, citations only with a positive total).
\<close>

definition extract_profile :: "string \<Rightarrow> profile_page \<Rightarrow> scholar_partial" where
  "extract_profile profile_url p =
     (let name0 = trim (first_text (prf_in p));
          pubs0 = extract_publications p;
          cites = extract_metrics (rsb_std p);
          ints = extract_interests p;
          (name, pubs) = (if name0 = [] \<and> pubs0 = [] \<and> ints = []
                          then (fallback_name p, pubs0 @ List.map_filter fallback_anchor (anchors p))
                          else (name0, pubs0))
      in \<lparr>sp_name = Some (if name = [] then ''Scholar Profile'' else name),
          sp_profileUrl = Some profile_url, sp_publications = Some pubs,
          sp_citations = (case total cites of Num t \<Rightarrow> if 0 < t then Some cites else None
                                            | NaN \<Rightarrow> None),
          sp_interests = Some ints\<rparr>)"

section \<open>Fetching\<close>

datatype fetch_result = FetchError string | Fetched string

definition captcha_marker :: string where
  "captcha_marker = ''Our systems have detected unusual traffic''"

text \<open>
  \<open>url.searchParams.has('hl')\<close> and \<open>set('hl', 'en')\<close> on the query of the URL: the
  part after the first \<open>?\<close> and before the fragment, split at \<open>&\<close>.
\<close>

definition query_has_param :: "string \<Rightarrow> string \<Rightarrow> bool" where
  "query_has_param q n = list_ex (\<lambda>kv. takeWhile (\<lambda>c. c \<noteq> CHR ''='') kv = n) (split_on CHR ''&'' q)"

definition url_with_hl :: "string \<Rightarrow> string" where
  "url_with_hl u =
     (let base = takeWhile (\<lambda>c. c \<noteq> CHR ''#'') u;
          frag = dropWhile (\<lambda>c. c \<noteq> CHR ''#'') u;
          path = takeWhile (\<lambda>c. c \<noteq> CHR ''?'') base;
          query = drop 1 (dropWhile (\<lambda>c. c \<noteq> CHR ''?'') base)
      in if CHR ''?'' \<in> set base \<and> query_has_param query ''hl'' then u
         else if CHR ''?'' \<in> set base \<and> query \<noteq> [] then path @ ''?'' @ query @ ''&hl=en'' @ frag
         else path @ ''?hl=en'' @ frag)"

text \<open>
  \<open>scrapeProfile(profileUrl)\<close>: every failure is rethrown as
  \<open>Failed to scrape profile: \<dots>\<close> (\<open>Inl\<close>).
\<close>

definition scrape_fail :: "string \<Rightarrow> string + scholar_partial" where
  "scrape_fail m = Inl (''Failed to scrape profile: '' @ m)"

definition scrape_profile ::
  "(string \<Rightarrow> fetch_result) \<Rightarrow> (string \<Rightarrow> profile_page) \<Rightarrow> string \<Rightarrow> string + scholar_partial" where
  "scrape_profile fetch load profile_url =
     (case fetch (url_with_hl profile_url) of
        FetchError m \<Rightarrow> scrape_fail m
      | Fetched html \<Rightarrow>
          if html = [] then scrape_fail ''No HTML content returned from Google Scholar''
          else if str_includes html captcha_marker
          then scrape_fail ''Blocked by Google Scholar (CAPTCHA triggered)''
          else Inr (extract_profile profile_url (load html)))"

section \<open>The API handler\<close>

text \<open>
  The URL check \<open>/^https:\/\/scholar\.google\.(com|co\.[a-z]{2})\/(citations|scholar).*/i\<close>:
  anchored at the start only; under the \<open>i\<close> flag letters match in either case.
\<close>

definition scholar_path_ok :: "string \<Rightarrow> bool" where
  "scholar_path_ok r \<longleftrightarrow> starts_with ''citations'' r \<or> starts_with ''scholar'' r"

definition valid_scholar_url :: "string \<Rightarrow> bool" where
  "valid_scholar_url u =
     (let l = to_lower u; p = ''https://scholar.google.''; r = drop (length p) l
      in starts_with p l \<and>
         ((starts_with ''com/'' r \<and> scholar_path_ok (drop 4 r)) \<or>
          (starts_with ''co.'' r \<and> 6 \<le> length r \<and> is_lower (r ! 3) \<and> is_lower (r ! 4) \<and>
           r ! 5 = CHR ''/'' \<and> scholar_path_ok (drop 6 r))))"

record scholar_request =
  qreq_method :: string
  qreq_profileUrl :: "string option"

definition scholar_limiter :: limiter where
  "scholar_limiter = rate_limit 60000 10"

definition json_of_metrics :: "citation_metrics \<Rightarrow> json" where
  "json_of_metrics c =
     JObj ([(''total'', json_of_number (total c))]
           @ opt_field ''h_index'' json_of_number (h_index c)
           @ opt_field ''i10_index'' json_of_number (i10_index c))"

definition json_of_scholar :: "scholar_partial \<Rightarrow> json" where
  "json_of_scholar s =
     JObj (opt_field ''name'' JStr (sp_name s)
           @ opt_field ''profileUrl'' JStr (sp_profileUrl s)
           @ opt_field ''publications'' (\<lambda>ps. JArr (map json_of_publication ps)) (sp_publications s)
           @ opt_field ''citations'' json_of_metrics (sp_citations s)
           @ opt_field ''interests'' (\<lambda>is. JArr (map JStr is)) (sp_interests s))"

definition scrape_error_body :: "string \<Rightarrow> json" where
  "scrape_error_body m =
     JObj [(''error'', JStr ''Failed to fetch scholar data''), (''details'', JStr m),
           (''tip'', JStr ''Google Scholar may be blocking automated access. Try again later or with a different profile.'')]"

text \<open>
  \<open>handler(req, res)\<close> of the route.  The \<open>catch\<close> block answers 429 when the error is
  the limiter's, on the response the limiter has already answered.
\<close>

definition scholar_handler ::
  "limiter \<Rightarrow> (string \<Rightarrow> fetch_result) \<Rightarrow> (string \<Rightarrow> profile_page) \<Rightarrow> nat \<Rightarrow> scholar_request \<Rightarrow>
   limiter \<times> http_response" where
  "scholar_handler lim fetch load now req =
     (if qreq_method req \<noteq> ''POST''
      then (lim, send_json 405 (error_body ''Method not allowed'') empty_response)
      else
        (case check lim now empty_response 5 ''scholar_api'' of
          (lim', res, Inl msg) \<Rightarrow>
            (lim', if msg = ''Rate limit exceeded''
                   then send_json 429 (error_body ''Too many requests. Please try again later.'') res
                   else send_json 500 (scrape_error_body msg) res)
        | (lim', res, Inr _) \<Rightarrow>
            (case qreq_profileUrl req of
              None \<Rightarrow> (lim', send_json 400 (error_body ''Profile URL is required'') res)
            | Some url \<Rightarrow>
                if url = [] then (lim', send_json 400 (error_body ''Profile URL is required'') res)
                else if \<not> valid_scholar_url url
                then (lim', send_json 400 (error_body ''Invalid Google Scholar profile URL'') res)
                else
                  (case scrape_profile fetch load url of
                    Inl msg \<Rightarrow> (lim', send_json 500 (scrape_error_body msg) res)
                  | Inr sd \<Rightarrow>
                      if sp_name sd = None \<or> sp_name sd = Some [] \<or>
                         (sp_publications sd \<in> {None, Some []} \<and> sp_interests sd \<in> {None, Some []})
                      then (lim', send_json 200
                              (JObj [(''name'', JStr (case sp_name sd of Some n \<Rightarrow> if n = [] then ''Scholar Profile'' else n
                                                                   | None \<Rightarrow> ''Scholar Profile'')),
                                     (''profileUrl'', JStr url), (''publications'', JArr []),
                                     (''interests'', JArr []),
                                     (''message'', JStr ''Limited data could be retrieved'')]) res)
                      else (lim', send_json 200 (json_of_scholar sd) res)))))"

section \<open>Specifications\<close>

text \<open>
  The positional metrics contract of the specification, behind a named accessor: element
  \<open>i\<close> of the matched sequence read with \<open>parseInt\<close>, absent when out of range; a
  non-numeric total reads as 0, a non-numeric index as absent.
\<close>

definition metric_at :: "string list \<Rightarrow> nat \<Rightarrow> js_number option" where
  "metric_at els i = (if i < length els then Some (parse_int (trim (els ! i))) else None)"

definition total_of :: "js_number option \<Rightarrow> js_number" where
  "total_of v = (case v of Some (Num t) \<Rightarrow> Num t | _ \<Rightarrow> Num 0)"

definition index_of :: "js_number option \<Rightarrow> js_number option" where
  "index_of v = (case v of Some (Num t) \<Rightarrow> Some (Num t) | _ \<Rightarrow> None)"

definition metrics_spec :: "string list \<Rightarrow> citation_metrics" where
  "metrics_spec els =
     \<lparr>total = total_of (metric_at els 0), h_index = index_of (metric_at els 2),
      i10_index = index_of (metric_at els 4)\<rparr>"

text \<open>
  Well-formedness of a scraped profile (\<open>ScholarRecord\<close> of the specification): a
  non-empty name, every publication titled, citations only with a positive total, no empty
  interest.
\<close>

definition citations_ok :: "citation_metrics option \<Rightarrow> bool" where
  "citations_ok c = (case c of None \<Rightarrow> True | Some m \<Rightarrow> (case total m of Num t \<Rightarrow> 0 < t | NaN \<Rightarrow> False))"

definition scholar_wf :: "scholar_partial \<Rightarrow> bool" where
  "scholar_wf s \<longleftrightarrow>
     (case sp_name s of None \<Rightarrow> False | Some n \<Rightarrow> n \<noteq> []) \<and>
     (case sp_publications s of None \<Rightarrow> False | Some ps \<Rightarrow> list_all (\<lambda>p. pub_title p \<noteq> []) ps) \<and>
     citations_ok (sp_citations s) \<and>
     (case sp_interests s of None \<Rightarrow> False | Some is \<Rightarrow> list_all (\<lambda>i. i \<noteq> []) is)"

text \<open>A limiter whose \<open>scholar_api\<close> window is used up.\<close>

definition scholar_exhausted :: limiter where
  "scholar_exhausted =
     \<lparr>cache = \<lparr>lru_max = 10, lru_ttl = 60000, lru_entries = [(''scholar_api'', 0, 0)]\<rparr>,
      heap = (\<lambda>_. 0)(0 := 5), next_ref = 1\<rparr>"

text \<open>A page on which no selector matches.\<close>

definition scholar_blank :: profile_page where
  "scholar_blank = \<lparr>prf_in = [], a_tr = [], rsb_std = [], prf_ila = [], page_title = [], anchors = []\<rparr>"


section \<open>Lemmas\<close>

subsection \<open>parseInt\<close>

lemma trim_head_not_ws:
  assumes "trim s = c # cs"
  shows "\<not> js_ws c"
proof -
  let ?t = "dropWhile js_ws s"
  have "rev (dropWhile js_ws (rev ?t)) @ rev (takeWhile js_ws (rev ?t)) = ?t"
    by (metis rev_append rev_rev_ident takeWhile_dropWhile_id)
  then have "?t = c # cs @ rev (takeWhile js_ws (rev ?t))"
    using assms by (simp add: trim_def)
  then show ?thesis
    by (metis hd_dropWhile list.distinct(1) list.sel(1))
qed

lemma is_digit_not_ws: "is_digit c \<Longrightarrow> \<not> js_ws c"
  by (auto simp: is_digit_def js_ws_def)

lemma is_digit_not_sign: "is_digit c \<Longrightarrow> c \<noteq> CHR ''-'' \<and> c \<noteq> CHR ''+''"
  by (auto simp: is_digit_def)

lemma nat_digits_Cons: "\<exists>d ds. nat_digits n = d # ds \<and> is_digit d"
proof -
  have "nat_digits n \<noteq> []" by (subst nat_digits.simps) simp
  with nat_digits_all_digits [of n] show ?thesis
    by (cases "nat_digits n") auto
qed

lemma takeWhile_digits_append:
  "list_all is_digit ds \<Longrightarrow> list_all (\<lambda>c. \<not> is_digit c) (take 1 r) \<Longrightarrow>
   takeWhile is_digit (ds @ r) = ds"
  by (induction ds) (cases r, auto)

lemma parse_int_nat_digits:
  assumes "list_all (\<lambda>c. \<not> is_digit c) (take 1 r)"
  shows "parse_int (nat_digits n @ r) = Num (int n)"
proof -
  obtain d ds where nd: "nat_digits n = d # ds" "is_digit d"
    using nat_digits_Cons by blast
  have tw: "takeWhile is_digit (nat_digits n @ r) = nat_digits n"
    using takeWhile_digits_append [OF nat_digits_all_digits assms] .
  show ?thesis
    using nd tw is_digit_not_ws [of d] is_digit_not_sign [of d] digits_value_nat_digits [of n]
    by (simp add: parse_int_def)
qed

lemma trim_digits: "list_all is_digit ds \<Longrightarrow> trim ds = ds"
proof -
  assume d: "list_all is_digit ds"
  have "dropWhile js_ws xs = xs" if "list_all is_digit xs" for xs
    using that by (cases xs) (auto simp: is_digit_not_ws)
  with d show ?thesis by (simp add: trim_def)
qed

subsection \<open>Metrics\<close>

lemma enumerate_snoc: "enumerate n (xs @ [x]) = enumerate n xs @ [(n + length xs, x)]"
  by (simp add: enumerate_append_eq)

lemma metric_at_snoc:
  "metric_at (xs @ [x]) i =
     (if i < length xs then metric_at xs i else if i = length xs then Some (parse_int (trim x)) else None)"
  by (auto simp: metric_at_def nth_append)

lemma metric_at_beyond: "length xs \<le> i \<Longrightarrow> metric_at xs i = None"
  by (simp add: metric_at_def)

lemma total_of_Some: "total_of (Some v) = (if is_nan v then Num 0 else v)"
  by (cases v) (simp_all add: total_of_def)

lemma index_of_Some: "index_of (Some v) = (if is_nan v then None else Some v)"
  by (cases v) (simp_all add: index_of_def)

lemma metric_step_fields:
  "total (metric_step c (n, x)) = (if n = 0 then total_of (Some (parse_int (trim x))) else total c)"
  "h_index (metric_step c (n, x)) = (if n = 2 then index_of (Some (parse_int (trim x))) else h_index c)"
  "i10_index (metric_step c (n, x)) = (if n = 4 then index_of (Some (parse_int (trim x))) else i10_index c)"
  by (simp_all add: metric_step_def Let_def total_of_Some index_of_Some)

lemma extract_metrics_snoc:
  "extract_metrics (xs @ [x]) = metric_step (extract_metrics xs) (length xs, x)"
  by (simp add: extract_metrics_def enumerate_snoc)

subsection \<open>Extraction\<close>

lemma extract_row_title:
  "extract_row r = Some p \<Longrightarrow> pub_title p \<noteq> []"
  by (auto simp: extract_row_def Let_def split: if_splits)

lemma fallback_anchor_title:
  "fallback_anchor a = Some p \<Longrightarrow> pub_title p \<noteq> []"
  by (auto simp: fallback_anchor_def Let_def split: option.splits if_splits)

lemma map_filter_all:
  "(\<And>x y. f x = Some y \<Longrightarrow> P y) \<Longrightarrow> list_all P (List.map_filter f xs)"
  by (induction xs) (auto simp: map_filter_simps split: option.split)

lemma citations_ok_extract:
  "citations_ok (case total c of Num t \<Rightarrow> if 0 < t then Some c else None | NaN \<Rightarrow> None)"
  by (auto simp: citations_ok_def split: js_number.split)

lemma extract_profile_wf: "scholar_wf (extract_profile u p)"
proof -
  have pubs: "list_all (\<lambda>p. pub_title p \<noteq> []) (extract_publications p)"
    unfolding extract_publications_def by (rule map_filter_all) (rule extract_row_title)
  have fb: "list_all (\<lambda>p. pub_title p \<noteq> []) (List.map_filter fallback_anchor (anchors p))"
    by (rule map_filter_all) (rule fallback_anchor_title)
  have ints: "list_all (\<lambda>i. i \<noteq> []) (extract_interests p)"
    by (simp add: extract_interests_def list_all_iff)
  show ?thesis
    using pubs fb ints citations_ok_extract
    by (simp add: extract_profile_def scholar_wf_def Let_def split: prod.split)
qed

lemma scrape_profile_Inr:
  "scrape_profile fetch load u = Inr sd \<Longrightarrow> sd = extract_profile u (load (case fetch (url_with_hl u) of Fetched h \<Rightarrow> h))"
  by (auto simp: scrape_profile_def scrape_fail_def split: fetch_result.splits if_splits)

lemma scrape_profile_Inr_wf: "scrape_profile fetch load u = Inr sd \<Longrightarrow> scholar_wf sd"
  using scrape_profile_Inr extract_profile_wf by metis

lemma scholar_wf_fields:
  assumes "scholar_wf sd"
  obtains n ps ints where "sp_name sd = Some n" "n \<noteq> []" "sp_publications sd = Some ps"
    "sp_interests sd = Some ints"
  using assms by (auto simp: scholar_wf_def split: option.splits)

subsection \<open>The handler\<close>

lemma scholar_check_cases:
  obtains (allowed) lim' res where "check lim now empty_response 5 ''scholar_api'' = (lim', res, Inr ())"
      "resp_writes res = []"
  | (limited) lim' res where
      "check lim now empty_response 5 ''scholar_api'' = (lim', res, Inl ''Rate limit exceeded'')"
      "resp_writes res = [(429, error_body ''Rate limit exceeded'')]"
  using check_response [of lim now empty_response 5 "''scholar_api''"]
  by (cases "check lim now empty_response 5 ''scholar_api''") (auto simp: empty_response_def)

lemma scholar_exhausted_check:
  "snd (snd (check scholar_exhausted 10 empty_response 5 ''scholar_api'')) = Inl ''Rate limit exceeded''"
  by (simp add: check_def scholar_exhausted_def lru_get_def lru_lookup_def lru_stale_def lru_drop_def Let_def)

section \<open>Properties\<close>

text \<open>
  (C18)
  Every profile the scraper returns is well formed: a non-empty name, a title on every
  publication, citation metrics only with a positive total, and no empty interest.
\<close>

theorem scrape_profile_wf:
  "case scrape_profile fetch load u of Inl _ \<Rightarrow> True | Inr sd \<Rightarrow> scholar_wf sd"
  by (cases "scrape_profile fetch load u") (auto intro: scrape_profile_Inr_wf)

text \<open>
  (C19)
  The positional loop over \<open>.gsc_rsb_std\<close> computes the metrics of the named accessor:
  the total is element 0 (0 when not numeric), the h-index element 2 and the i10-index
  element 4 (absent when not numeric or out of range).
\<close>

theorem extract_metrics_spec: "extract_metrics els = metrics_spec els"
proof (induction els rule: rev_induct)
  case Nil
  show ?case by (simp add: extract_metrics_def no_metrics_def metrics_spec_def metric_at_def
                   total_of_def index_of_def)
next
  case (snoc x xs)
  show ?case
    by (rule citation_metrics.equality)
       (simp_all add: extract_metrics_snoc metric_step_fields snoc metrics_spec_def metric_at_snoc
          metric_at_beyond)
qed

text \<open>
  The metrics scenario of the specification: values \<open>[120, "x", 12, "y", 5]\<close> give a total
  of 120, an h-index of 12 and an i10-index of 5.
\<close>

theorem extract_metrics_scenario:
  "extract_metrics [''120'', ''x'', ''12'', ''y'', ''5''] =
     \<lparr>total = Num 120, h_index = Some (Num 12), i10_index = Some (Num 5)\<rparr>"
  by (simp add: extract_metrics_def metric_step_def no_metrics_def parse_int_def js_eval
        enumerate_eq_zip upt_rec)


text \<open>
  (C21)
  The fallback path runs only when name, publications and interests are all empty: when
  one of them is found, the publications and the name are those of the primary selectors.
\<close>

theorem extract_profile_primary:
  assumes "trim (first_text (prf_in p)) \<noteq> [] \<or> extract_publications p \<noteq> [] \<or> extract_interests p \<noteq> []"
  shows "sp_publications (extract_profile u p) = Some (extract_publications p) \<and>
         sp_name (extract_profile u p) =
           Some (if trim (first_text (prf_in p)) = [] then ''Scholar Profile'' else trim (first_text (prf_in p)))"
  using assms by (auto simp: extract_profile_def Let_def)

theorem extract_profile_primary_witness:
  "trim (first_text (prf_in \<lparr>prf_in = [''Ada''], a_tr = [], rsb_std = [], prf_ila = [], page_title = [], anchors = []\<rparr>)) = ''Ada''
   \<and> sp_publications (extract_profile ''u'' \<lparr>prf_in = [''Ada''], a_tr = [], rsb_std = [], prf_ila = [], page_title = [], anchors = []\<rparr>) = Some []
   \<and> sp_name (extract_profile ''u'' \<lparr>prf_in = [''Ada''], a_tr = [], rsb_std = [], prf_ila = [], page_title = [], anchors = []\<rparr>) = Some ''Ada''"
  using extract_profile_primary [of "\<lparr>prf_in = [''Ada''], a_tr = [], rsb_std = [], prf_ila = [], page_title = [], anchors = []\<rparr>" "''u''"]
  by (simp add: first_text_def extract_publications_def js_eval)

text \<open>
  The fallback scenario of the specification: a page on which no primary selector matches,
  titled \<open>Jane Roe - Google Scholar\<close>, gives the name \<open>Jane Roe\<close>.
\<close>

theorem extract_profile_fallback_scenario:
  "sp_name (extract_profile u \<lparr>prf_in = [], a_tr = [], rsb_std = [], prf_ila = [],
      page_title = [''Jane Roe - Google Scholar''], anchors = []\<rparr>) = Some ''Jane Roe''"
  by (simp add: extract_profile_def Let_def fallback_name_def extract_publications_def
        extract_interests_def first_text_def js_eval map_filter_simps)

text \<open>
  (C23)
  A citation count printed in the cell is read back: a row whose \<open>.gsc_a_ac\<close> text is
  the decimal numeral of \<open>n\<close> gets the citation count \<open>n\<close>.
\<close>

theorem extract_row_citations_roundtrip:
  assumes "extract_row r = Some p" and "concat (row_ac r) = nat_digits n"
  shows "pub_citations p = Some (Num (int n))"
proof -
  have "trim (nat_digits n) = nat_digits n" "nat_digits n \<noteq> []"
    using trim_digits [OF nat_digits_all_digits] nat_digits_Cons [of n] by auto
  then show ?thesis
    using assms parse_int_nat_digits [of "[]" n]
    by (auto simp: extract_row_def Let_def split: if_splits)
qed

theorem extract_row_citations_roundtrip_witness:
  "extract_row \<lparr>row_at = [\<lparr>a_href = None, a_text = ''Paper''\<rparr>], row_gray = [], row_ac = [''42'']\<rparr> =
     Some \<lparr>pub_title = ''Paper'', authors = [], journal = None, pub_year = None,
           pub_citations = Some (Num 42), pub_url = None\<rparr>
   \<and> concat (row_ac \<lparr>row_at = [\<lparr>a_href = None, a_text = ''Paper''\<rparr>], row_gray = [], row_ac = [''42'']\<rparr>) =
       nat_digits 42
   \<and> pub_citations \<lparr>pub_title = ''Paper'', authors = [], journal = None, pub_year = None,
           pub_citations = Some (Num 42), pub_url = None\<rparr> = Some (Num (int 42))"
  using extract_row_citations_roundtrip
      [of "\<lparr>row_at = [\<lparr>a_href = None, a_text = ''Paper''\<rparr>], row_gray = [], row_ac = [''42'']\<rparr>"
        "\<lparr>pub_title = ''Paper'', authors = [], journal = None, pub_year = None,
           pub_citations = Some (Num 42), pub_url = None\<rparr>" 42]
  by (simp add: extract_row_def Let_def parse_int_def first_href_def first_text_def last_text_def
        js_eval nat_digits.simps split_str.simps)

text \<open>
  (C24)
  A citation cell whose text is not a number gives the count \<open>NaN\<close> (serialised as
  \<open>null\<close>), where the specification asks for 0: for every row with a non-empty cell
  whose first character is neither a digit nor a sign, \<open>parseInt\<close> finds no digits.
\<close>

theorem extract_row_nonnumeric_citations:
  assumes "extract_row r = Some p" and "trim (concat (row_ac r)) = c # cs"
    and "\<not> is_digit c" and "c \<noteq> CHR ''-''" and "c \<noteq> CHR ''+''"
  shows "pub_citations p = Some NaN"
proof -
  have "\<not> js_ws c" using trim_head_not_ws [OF assms(2)] .
  then have "parse_int (c # cs) = NaN"
    using assms(3-5) by (simp add: parse_int_def)
  then show ?thesis
    using assms(1,2) by (auto simp: extract_row_def Let_def split: if_splits)
qed

theorem extract_row_nonnumeric_citations_witness:
  "extract_row \<lparr>row_at = [\<lparr>a_href = Some ''/p'', a_text = ''Paper''\<rparr>], row_gray = [], row_ac = [''n/a'']\<rparr> = Some \<lparr>pub_title = ''Paper'', authors = [], journal = None, pub_year = None,
           pub_citations = Some NaN, pub_url = Some (scholar_base @ ''/p'')\<rparr>
   \<and> trim (concat (row_ac \<lparr>row_at = [\<lparr>a_href = Some ''/p'', a_text = ''Paper''\<rparr>], row_gray = [], row_ac = [''n/a'']\<rparr>)) = CHR ''n'' # ''/a''
   \<and> \<not> is_digit (CHR ''n'') \<and> CHR ''n'' \<noteq> CHR ''-'' \<and> CHR ''n'' \<noteq> CHR ''+''
   \<and> pub_citations \<lparr>pub_title = ''Paper'', authors = [], journal = None, pub_year = None,
           pub_citations = Some NaN, pub_url = Some (scholar_base @ ''/p'')\<rparr> = Some NaN"
proof -
  have r: "extract_row \<lparr>row_at = [\<lparr>a_href = Some ''/p'', a_text = ''Paper''\<rparr>], row_gray = [], row_ac = [''n/a'']\<rparr> = Some \<lparr>pub_title = ''Paper'', authors = [], journal = None, pub_year = None,
           pub_citations = Some NaN, pub_url = Some (scholar_base @ ''/p'')\<rparr>"
    by (simp add: extract_row_def Let_def parse_int_def first_href_def first_text_def last_text_def
        js_eval split_str.simps)
  have t: "trim (concat (row_ac \<lparr>row_at = [\<lparr>a_href = Some ''/p'', a_text = ''Paper''\<rparr>], row_gray = [], row_ac = [''n/a'']\<rparr>)) = CHR ''n'' # ''/a''"
    by (simp add: js_eval)
  have d: "\<not> is_digit (CHR ''n'')" by (simp add: is_digit_def)
  show ?thesis
    using extract_row_nonnumeric_citations [OF r t d] r t d by simp
qed

text \<open>
  (C26)
  A fetched page carrying the bot-detection marker is an error, whatever else it holds.
\<close>

theorem scrape_profile_blocked:
  assumes "fetch (url_with_hl u) = Fetched html" and "str_includes html captcha_marker"
  shows "scrape_profile fetch load u =
           Inl ''Failed to scrape profile: Blocked by Google Scholar (CAPTCHA triggered)''"
  using assms by (auto simp: scrape_profile_def scrape_fail_def captcha_marker_def)

theorem scrape_profile_blocked_witness:
  "(\<lambda>_. Fetched ''Our systems have detected unusual traffic'') (url_with_hl ''u'') =
     Fetched ''Our systems have detected unusual traffic''
   \<and> str_includes ''Our systems have detected unusual traffic'' captcha_marker
   \<and> scrape_profile (\<lambda>_. Fetched ''Our systems have detected unusual traffic'') (\<lambda>_. scholar_blank) ''u'' =
       Inl ''Failed to scrape profile: Blocked by Google Scholar (CAPTCHA triggered)''"
  using scrape_profile_blocked [of "\<lambda>_. Fetched ''Our systems have detected unusual traffic''"
      "''u''" "''Our systems have detected unusual traffic''" "\<lambda>_. scholar_blank"]
  by (simp add: captcha_marker_def)


text \<open>
  (C27)
  What the client of \<open>/api/fetch-scholar-data\<close> receives, on every branch: 405 for a
  method other than POST, 429 when the limiter refuses, 400 without a URL or with one the
  pattern rejects, 500 when scraping fails, and otherwise 200: the profile, or the
  limited-data answer when it has neither publications nor interests.  The handler's test
  of a missing name never decides: every scraped profile has one.
\<close>

theorem scholar_handler_delivered:
  "delivered (snd (scholar_handler lim fetch load now req)) =
     (if qreq_method req \<noteq> ''POST'' then Some (405, error_body ''Method not allowed'')
      else case snd (snd (check lim now empty_response 5 ''scholar_api'')) of
        Inl _ \<Rightarrow> Some (429, error_body ''Rate limit exceeded'')
      | Inr _ \<Rightarrow>
          (case qreq_profileUrl req of
            None \<Rightarrow> Some (400, error_body ''Profile URL is required'')
          | Some url \<Rightarrow>
              if url = [] then Some (400, error_body ''Profile URL is required'')
              else if \<not> valid_scholar_url url
              then Some (400, error_body ''Invalid Google Scholar profile URL'')
              else (case scrape_profile fetch load url of
                      Inl m \<Rightarrow> Some (500, scrape_error_body m)
                    | Inr sd \<Rightarrow>
                        if sp_publications sd = Some [] \<and> sp_interests sd = Some []
                        then Some (200, JObj [(''name'', JStr (the (sp_name sd))),
                                              (''profileUrl'', JStr url), (''publications'', JArr []),
                                              (''interests'', JArr []),
                                              (''message'', JStr ''Limited data could be retrieved'')])
                        else Some (200, json_of_scholar sd))))"
proof (cases "qreq_method req = ''POST''")
  case False
  then show ?thesis by (simp add: scholar_handler_def empty_response_def delivered_def)
next
  case True
  show ?thesis
  proof (cases lim now rule: scholar_check_cases)
    case (limited lim' res)
    then show ?thesis using True by (simp add: scholar_handler_def delivered_def)
  next
    case (allowed lim' res)
    note ok = True allowed
    show ?thesis
    proof (cases "qreq_profileUrl req")
      case None
      with ok show ?thesis by (simp add: scholar_handler_def delivered_no_writes)
    next
      case (Some url)
      show ?thesis
      proof (cases "url = [] \<or> \<not> valid_scholar_url url")
        case True
        with ok Some show ?thesis by (auto simp: scholar_handler_def delivered_no_writes)
      next
        case False
        show ?thesis
        proof (cases "scrape_profile fetch load url")
          case (Inl m)
          with ok Some False show ?thesis by (simp add: scholar_handler_def delivered_no_writes)
        next
          case (Inr sd)
          obtain n ps ints where "sp_name sd = Some n" "n \<noteq> []" "sp_publications sd = Some ps"
              "sp_interests sd = Some ints"
            using scholar_wf_fields [OF scrape_profile_Inr_wf [OF Inr]] .
          with ok Some False Inr show ?thesis
            by (simp add: scholar_handler_def delivered_no_writes)
        qed
      qed
    qed
  qed
qed


text \<open>
  (C28)
  A refused request is answered twice with 429, by the limiter and again by the
  \<open>catch\<close> block, and short-circuits before any scraping: the answer and the next
  limiter state do not depend on the fetcher or the page loader.
\<close>

theorem scholar_handler_limited:
  assumes "qreq_method req = ''POST''"
    and "snd (snd (check lim now empty_response 5 ''scholar_api'')) = Inl m"
  shows "resp_writes (snd (scholar_handler lim fetch load now req)) =
           [(429, error_body ''Rate limit exceeded''),
            (429, error_body ''Too many requests. Please try again later.'')] \<and>
         scholar_handler lim fetch load now req = scholar_handler lim fetch' load' now req"
proof (cases lim now rule: scholar_check_cases)
  case (allowed lim' res)
  with assms(2) show ?thesis by simp
next
  case (limited lim' res)
  with assms show ?thesis by (simp add: scholar_handler_def)
qed

theorem scholar_handler_limited_witness:
  "qreq_method \<lparr>qreq_method = ''POST'', qreq_profileUrl = Some ''https://scholar.google.com/citations?user=A''\<rparr> = ''POST''
   \<and> snd (snd (check scholar_exhausted 10 empty_response 5 ''scholar_api'')) = Inl ''Rate limit exceeded''
   \<and> resp_writes (snd (scholar_handler scholar_exhausted (\<lambda>_. FetchError ''down'') (\<lambda>_. scholar_blank) 10
        \<lparr>qreq_method = ''POST'', qreq_profileUrl = Some ''https://scholar.google.com/citations?user=A''\<rparr>)) =
       [(429, error_body ''Rate limit exceeded''),
        (429, error_body ''Too many requests. Please try again later.'')]"
proof -
  have post: "qreq_method \<lparr>qreq_method = ''POST'',
      qreq_profileUrl = Some ''https://scholar.google.com/citations?user=A''\<rparr> = ''POST''" by simp
  show ?thesis
    using post scholar_exhausted_check
      scholar_handler_limited [OF post scholar_exhausted_check, of "\<lambda>_. FetchError ''down''"
        "\<lambda>_. scholar_blank" "\<lambda>_. Fetched ''<html/>''" "\<lambda>_. scholar_blank"]
    by blast
qed

end
