(* ===== verification/Regex.thy ===== *)
theory Regex
  imports Prelude "HOL-Library.AList"
begin

text \<open>
  The JavaScript regular expressions the sources use, as terms of a datatype, and a
  backtracking matcher with the semantics of the ECMAScript pattern matcher.  The matcher
  returns every way to match, in the order in which the ECMAScript backtracking tries them
  (a list of successes); the first element is the one \<open>exec\<close> returns.  A position in
  the subject is a cursor: the character before it (\<open>None\<close> at the start, for \<open>^\<close> and
  \<open>\b\<close>) and the remaining text.
\<close>

section \<open>Patterns\<close>

text \<open>
  \<open>RClass neg ranges\<close> is a character class (\<open>neg\<close> for \<open>[^\<dots>]\<close>), \<open>RRep r min max
  greedy\<close> a quantifier (\<open>None\<close>: no upper bound), \<open>RGroup n r\<close> the capture group
  \<open>n\<close>, \<open>RLook r\<close> a positive lookahead.
\<close>

datatype rx =
    REmpty
  | RLit char
  | RClass bool "(char \<times> char) list"
  | RSeq rx rx
  | RAlt rx rx
  | RRep rx nat "nat option" bool
  | RGroup nat rx
  | RLook rx
  | RBegin
  | REnd
  | RWordB

type_synonym cursor = "char option \<times> string"
type_synonym caps = "(nat \<times> string) list"

definition in_ranges :: "char \<Rightarrow> (char \<times> char) list \<Rightarrow> bool" where
  "in_ranges c rs = list_ex (\<lambda>(a, b). of_char a \<le> (of_char c :: nat) \<and> of_char c \<le> (of_char b :: nat)) rs"

text \<open>
  Under the \<open>i\<close> flag two characters match when their canonical (upper-case) forms agree;
  a class matches when a member does, that is when the character, its lower-case or its
  upper-case form lies in a range.
\<close>

definition lit_match :: "bool \<Rightarrow> char \<Rightarrow> char \<Rightarrow> bool" where
  "lit_match ic c d \<longleftrightarrow> c = d \<or> (ic \<and> upper_char c = upper_char d)"

definition class_match :: "bool \<Rightarrow> bool \<Rightarrow> (char \<times> char) list \<Rightarrow> char \<Rightarrow> bool" where
  "class_match ic neg rs d \<longleftrightarrow>
     (in_ranges d rs \<or> (ic \<and> (in_ranges (lower_char d) rs \<or> in_ranges (upper_char d) rs))) \<noteq> neg"

definition is_word :: "char \<Rightarrow> bool" where
  "is_word c \<longleftrightarrow> is_upper c \<or> is_lower c \<or> is_digit c \<or> c = CHR ''_''"

definition word_before :: "char option \<Rightarrow> bool" where
  "word_before p = (case p of None \<Rightarrow> False | Some c \<Rightarrow> is_word c)"

definition word_after :: "string \<Rightarrow> bool" where
  "word_after s = (case s of [] \<Rightarrow> False | c # _ \<Rightarrow> is_word c)"

text \<open>The capture groups of a pattern, cleared at each iteration of a quantifier.\<close>

fun groups :: "rx \<Rightarrow> nat list" where
  "groups (RSeq r1 r2) = groups r1 @ groups r2"
| "groups (RAlt r1 r2) = groups r1 @ groups r2"
| "groups (RRep r _ _ _) = groups r"
| "groups (RGroup n r) = n # groups r"
| "groups (RLook r) = groups r"
| "groups _ = []"

definition clear_groups :: "rx \<Rightarrow> caps \<Rightarrow> caps" where
  "clear_groups r cs = filter (\<lambda>(n, _). n \<notin> set (groups r)) cs"

fun rep_min :: "rx \<Rightarrow> nat" where
  "rep_min (RRep _ lo _ _) = lo"
| "rep_min _ = 0"

section \<open>The matcher\<close>

text \<open>
  \<open>ms ic r cur cs\<close>: the cursors and captures after matching \<open>r\<close> at \<open>cur\<close>, in
  backtracking order.  A quantifier follows \<open>RepeatMatcher\<close>: at most \<open>max\<close>
  iterations, an iteration that matched the empty string fails once \<open>min\<close> is reached,
  the greedy form tries one more iteration before stopping and the lazy form the other way
  round.  A lookahead keeps its first match only and does not consume.
\<close>

function ms :: "bool \<Rightarrow> rx \<Rightarrow> cursor \<Rightarrow> caps \<Rightarrow> (cursor \<times> caps) list" where
  "ms ic REmpty cur cs = [(cur, cs)]"
| "ms ic (RLit c) cur cs =
     (case snd cur of [] \<Rightarrow> [] | d # s' \<Rightarrow> if lit_match ic c d then [((Some d, s'), cs)] else [])"
| "ms ic (RClass neg rs) cur cs =
     (case snd cur of [] \<Rightarrow> [] | d # s' \<Rightarrow> if class_match ic neg rs d then [((Some d, s'), cs)] else [])"
| "ms ic (RSeq r1 r2) cur cs = concat (map (\<lambda>(c', cs'). ms ic r2 c' cs') (ms ic r1 cur cs))"
| "ms ic (RAlt r1 r2) cur cs = ms ic r1 cur cs @ ms ic r2 cur cs"
| "ms ic (RRep r lo hi g) cur cs =
     (if hi = Some 0 then [(cur, cs)]
      else
        (let more = concat (map (\<lambda>(c', cs'). ms ic (RRep r (lo - 1) (map_option (\<lambda>h. h - 1) hi) g) c' cs')
                      (filter (\<lambda>(c', _). 0 < lo \<or> length (snd c') < length (snd cur))
                         (ms ic r cur (clear_groups r cs))))
         in if 0 < lo then more else if g then more @ [(cur, cs)] else (cur, cs) # more))"
| "ms ic (RGroup n r) cur cs =
     map (\<lambda>(c', cs'). (c', AList.update n (take (length (snd cur) - length (snd c')) (snd cur)) cs'))
       (ms ic r cur cs)"
| "ms ic (RLook r) cur cs = (case ms ic r cur cs of [] \<Rightarrow> [] | (_, cs') # _ \<Rightarrow> [(cur, cs')])"
| "ms ic RBegin cur cs = (if fst cur = None then [(cur, cs)] else [])"
| "ms ic REnd cur cs = (if snd cur = [] then [(cur, cs)] else [])"
| "ms ic RWordB cur cs = (if word_before (fst cur) \<noteq> word_after (snd cur) then [(cur, cs)] else [])"
  by pat_completeness auto
termination
  by (relation "(\<lambda>(ic, r, cur, cs). size r) <*mlex*> (\<lambda>(ic, r, cur, cs). rep_min r)
                <*mlex*> (\<lambda>(ic, r, cur, cs). length (snd cur)) <*mlex*> {}")
     (auto simp: mlex_iff wf_mlex)

declare ms.simps(4,6) [simp del]

text \<open>
  The continuation of a sequence and of a quantifier applied to a list of states, unfolded
  one state at a time: the equations below, in this form, evaluate without unfolding the
  recursive calls under the binder.
\<close>

fun ms_all :: "bool \<Rightarrow> rx \<Rightarrow> (cursor \<times> caps) list \<Rightarrow> (cursor \<times> caps) list" where
  "ms_all ic r [] = []"
| "ms_all ic r ((c, cs) # ys) = ms ic r c cs @ ms_all ic r ys"

lemma ms_all_concat: "concat (map (\<lambda>(c', cs'). ms ic r c' cs') ys) = ms_all ic r ys"
  by (induction ys) auto

lemma set_ms_all: "set (ms_all ic r ys) = (\<Union>(c, cs) \<in> set ys. set (ms ic r c cs))"
  by (induction ys) auto

lemma ms_RSeq: "ms ic (RSeq r1 r2) cur cs = ms_all ic r2 (ms ic r1 cur cs)"
  by (subst ms.simps(4)) (rule ms_all_concat)

lemma ms_RRep:
  "ms ic (RRep r lo hi g) cur cs =
     (if hi = Some 0 then [(cur, cs)]
      else
        (let more = ms_all ic (RRep r (lo - 1) (map_option (\<lambda>h. h - 1) hi) g)
                      (filter (\<lambda>(c', _). 0 < lo \<or> length (snd c') < length (snd cur))
                         (ms ic r cur (clear_groups r cs)))
         in if 0 < lo then more else if g then more @ [(cur, cs)] else (cur, cs) # more))"
  by (subst ms.simps(6)) (simp only: ms_all_concat)

declare ms_RSeq [simp] ms_RRep [simp]

text \<open>
  \<open>RegExp.prototype.exec\<close> from index 0 without the \<open>g\<close> or \<open>y\<close> flag: the first
  start position, left to right (the end of the subject included), at which the pattern
  matches; its first match.  Result: the start index, the cursor after the match and the
  captures.
\<close>

fun search :: "bool \<Rightarrow> rx \<Rightarrow> char option \<Rightarrow> string \<Rightarrow> nat \<Rightarrow> (nat \<times> cursor \<times> caps) option" where
  "search ic r p [] i = (case ms ic r (p, []) [] of (c', cs) # _ \<Rightarrow> Some (i, c', cs) | [] \<Rightarrow> None)"
| "search ic r p (d # s) i =
     (case ms ic r (p, d # s) [] of
        (c', cs) # _ \<Rightarrow> Some (i, c', cs)
      | [] \<Rightarrow> search ic r (Some d) s (Suc i))"

text \<open>The text a match consumed: from its start index to its end cursor.\<close>

definition matched :: "string \<Rightarrow> nat \<Rightarrow> cursor \<Rightarrow> string" where
  "matched s i c' = take (length (drop i s) - length (snd c')) (drop i s)"

text \<open>
  \<open>s.match(re)\<close> without \<open>g\<close>: \<open>match[0]\<close> and the captures (a group that did not
  participate is absent).
\<close>

definition rx_match :: "bool \<Rightarrow> rx \<Rightarrow> string \<Rightarrow> (string \<times> caps) option" where
  "rx_match ic r s = map_option (\<lambda>(i, c', cs). (matched s i c', cs)) (search ic r None s 0)"

definition rx_test :: "bool \<Rightarrow> rx \<Rightarrow> string \<Rightarrow> bool" where
  "rx_test ic r s \<longleftrightarrow> search ic r None s 0 \<noteq> None"

definition group_of :: "(string \<times> caps) \<Rightarrow> nat \<Rightarrow> string option" where
  "group_of m n = map_of (snd m) n"

section \<open>Consumption\<close>

text \<open>
  A match consumes a prefix of the remaining text, every character of which some atom of
  the pattern accepts (a lookahead consumes nothing), and the cursor's previous character
  is the last character consumed.
\<close>

fun accepts :: "bool \<Rightarrow> rx \<Rightarrow> char \<Rightarrow> bool" where
  "accepts ic (RLit c) d = lit_match ic c d"
| "accepts ic (RClass neg rs) d = class_match ic neg rs d"
| "accepts ic (RSeq r1 r2) d = (accepts ic r1 d \<or> accepts ic r2 d)"
| "accepts ic (RAlt r1 r2) d = (accepts ic r1 d \<or> accepts ic r2 d)"
| "accepts ic (RRep r _ _ _) d = accepts ic r d"
| "accepts ic (RGroup _ r) d = accepts ic r d"
| "accepts ic _ d = False"

definition consumes_with :: "(char \<Rightarrow> bool) \<Rightarrow> cursor \<Rightarrow> cursor \<Rightarrow> bool" where
  "consumes_with P cur c' \<longleftrightarrow>
     (\<exists>t. snd cur = t @ snd c' \<and> fst c' = (if t = [] then fst cur else Some (last t)) \<and> list_all P t)"

definition consumes :: "cursor \<Rightarrow> cursor \<Rightarrow> bool" where
  "consumes = consumes_with (\<lambda>_. True)"

lemma consumes_with_refl [simp]: "consumes_with P cur cur"
  by (auto simp: consumes_with_def)

lemma consumes_with_Cons: "snd cur = d # s \<Longrightarrow> P d \<Longrightarrow> consumes_with P cur (Some d, s)"
  unfolding consumes_with_def by (rule exI [of _ "[d]"]) simp

lemma consumes_with_trans:
  assumes "consumes_with P a b" and "consumes_with P b c"
  shows "consumes_with P a c"
proof -
  obtain t u where "snd a = t @ snd b" "fst b = (if t = [] then fst a else Some (last t))" "list_all P t"
      "snd b = u @ snd c" "fst c = (if u = [] then fst b else Some (last u))" "list_all P u"
    using assms by (auto simp: consumes_with_def)
  then show ?thesis
    unfolding consumes_with_def by (intro exI [of _ "t @ u"]) auto
qed

lemma consumes_with_mono: "consumes_with P a b \<Longrightarrow> (\<And>x. P x \<Longrightarrow> Q x) \<Longrightarrow> consumes_with Q a b"
  by (auto simp: consumes_with_def list_all_iff)

lemma consumes_with_length: "consumes_with P a b \<Longrightarrow> length (snd b) \<le> length (snd a)"
  by (auto simp: consumes_with_def)

lemma consumes_length: "consumes a b \<Longrightarrow> length (snd b) \<le> length (snd a)"
  unfolding consumes_def by (rule consumes_with_length)

lemma ms_consumes_with: "(c', cs') \<in> set (ms ic r cur cs) \<Longrightarrow> consumes_with (accepts ic r) cur c'"
proof (induction ic r cur cs arbitrary: c' cs' rule: ms.induct)
  case (2 ic c cur cs)
  then show ?case by (auto intro: consumes_with_Cons split: list.splits if_splits)
next
  case (3 ic neg rs cur cs)
  then show ?case by (auto intro: consumes_with_Cons split: list.splits if_splits)
next
  case (4 ic r1 r2 cur cs)
  from "4.prems" obtain c1 cs1 where m1: "(c1, cs1) \<in> set (ms ic r1 cur cs)"
    and m2: "(c', cs') \<in> set (ms ic r2 c1 cs1)"
    by (auto simp: set_ms_all)
  have "consumes_with (accepts ic (RSeq r1 r2)) cur c1"
    using "4.IH"(1) [OF m1] by (rule consumes_with_mono) simp
  moreover have "consumes_with (accepts ic (RSeq r1 r2)) c1 c'"
    using "4.IH"(2) [OF m1 refl m2] by (rule consumes_with_mono) simp
  ultimately show ?case by (rule consumes_with_trans)
next
  case (5 ic r1 r2 cur cs)
  from "5.prems" consider "(c', cs') \<in> set (ms ic r1 cur cs)" | "(c', cs') \<in> set (ms ic r2 cur cs)"
    by auto
  then show ?case
  proof cases
    case 1
    show ?thesis using "5.IH"(1) [OF 1] by (rule consumes_with_mono) simp
  next
    case 2
    show ?thesis using "5.IH"(2) [OF 2] by (rule consumes_with_mono) simp
  qed
next
  case (6 ic r lo hi g cur cs)
  show ?case
  proof (cases "hi = Some 0")
    case True
    with "6.prems" show ?thesis by simp
  next
    case False
    let ?xs = "filter (\<lambda>(c', _). 0 < lo \<or> length (snd c') < length (snd cur))
                 (ms ic r cur (clear_groups r cs))"
    let ?r' = "RRep r (lo - 1) (map_option (\<lambda>h. h - 1) hi) g"
    have "c' = cur \<or> (c', cs') \<in> set (ms_all ic ?r' ?xs)"
      using "6.prems" False by (auto simp: Let_def split: if_splits)
    then show ?thesis
    proof
      assume "c' = cur"
      then show ?thesis by simp
    next
      assume "(c', cs') \<in> set (ms_all ic ?r' ?xs)"
      then obtain c1 cs1 where m1: "(c1, cs1) \<in> set ?xs" and m2: "(c', cs') \<in> set (ms ic ?r' c1 cs1)"
        unfolding set_ms_all by blast
      have "(c1, cs1) \<in> set (ms ic r cur (clear_groups r cs))"
        using m1 by simp
      then have "consumes_with (accepts ic r) cur c1"
        by (rule "6.IH"(1) [OF False])
      moreover have "consumes_with (accepts ic r) c1 c'"
        using "6.IH"(2) [OF False m1 refl m2] by simp
      ultimately show ?thesis by simp (rule consumes_with_trans)
    qed
  qed
next
  case (7 ic n r cur cs)
  then show ?case by auto
next
  case (8 ic r cur cs)
  then show ?case by (auto split: list.splits)
next
  case (1 ic cur cs)
  then show ?case by simp
next
  case (9 ic cur cs)
  then show ?case by (simp split: if_splits)
next
  case (10 ic cur cs)
  then show ?case by (simp split: if_splits)
next
  case (11 ic cur cs)
  then show ?case by (simp split: if_splits)
qed

lemma ms_consumes:
  assumes "(c', cs') \<in> set (ms ic r cur cs)"
  shows "consumes cur c'"
proof -
  have "consumes_with (accepts ic r) cur c'" using assms by (rule ms_consumes_with)
  then show ?thesis unfolding consumes_def by (rule consumes_with_mono) simp
qed

lemma ms_head_length:
  "ms ic r cur cs = ((a, b), x) # xs \<Longrightarrow> length b \<le> length (snd cur)"
  using ms_consumes [of "(a, b)" x ic r cur cs] consumes_length by fastforce

text \<open>A search result is the first match at its start position.\<close>

lemma search_Some:
  "search ic r p s i = Some (j, c', cs) \<Longrightarrow>
   i \<le> j \<and> (\<exists>q xs. ms ic r (q, drop (j - i) s) [] = (c', cs) # xs)"
proof (induction s arbitrary: p i)
  case Nil
  then show ?case by (auto split: list.splits prod.splits)
next
  case (Cons d s)
  show ?case
  proof (cases "ms ic r (p, d # s) []")
    case Nil
    with Cons.prems have "search ic r (Some d) s (Suc i) = Some (j, c', cs)" by simp
    from Cons.IH [OF this] obtain q xs where "Suc i \<le> j" "ms ic r (q, drop (j - Suc i) s) [] = (c', cs) # xs"
      by blast
    then show ?thesis by (intro conjI exI [of _ q]) (auto simp: Suc_diff_Suc [symmetric])
  next
    case (Cons x xs)
    with Cons.prems show ?thesis by (auto split: prod.splits)
  qed
qed

lemma head_consumes_with:
  assumes "ms ic r cur cs = (c', cs') # xs"
  shows "consumes_with (accepts ic r) cur c'"
proof -
  have "(c', cs') \<in> set (ms ic r cur cs)" using assms by simp
  then show ?thesis by (rule ms_consumes_with)
qed

lemma search_consumes_with:
  assumes "search ic r p s 0 = Some (i, c', cs)"
  shows "\<exists>q. consumes_with (accepts ic r) (q, drop i s) c'"
  using search_Some [OF assms] by (auto dest: head_consumes_with)

lemma search_shorter:
  assumes "search ic r p s 0 = Some (i, c', cs)" and "matched s i c' \<noteq> []"
  shows "length (snd c') < length s"
proof -
  obtain q where "consumes_with (accepts ic r) (q, drop i s) c'" using search_consumes_with [OF assms(1)] by blast
  then have "length (snd c') \<le> length (drop i s)" by (auto dest: consumes_with_length)
  with assms(2) show ?thesis by (auto simp: matched_def)
qed

text \<open>
  \<open>s.match(re)\<close> with the \<open>g\<close> flag: the texts of the successive matches, each search
  starting where the last match ended, one character further after an empty match.
\<close>

function match_all :: "bool \<Rightarrow> rx \<Rightarrow> char option \<Rightarrow> string \<Rightarrow> string list" where
  "match_all ic r p s =
     (case search ic r p s 0 of
        None \<Rightarrow> []
      | Some (i, c', cs) \<Rightarrow>
          (if matched s i c' = []
           then (case drop i s of [] \<Rightarrow> [[]] | d # s' \<Rightarrow> [] # match_all ic r (Some d) s')
           else matched s i c' # match_all ic r (fst c') (snd c')))"
  by pat_completeness auto
termination
  by (relation "measure (\<lambda>(ic, r, p, s). length s)")
     (auto dest: search_shorter arg_cong [of "drop _ _" _ length])

declare match_all.simps [simp del]

definition rx_match_all :: "bool \<Rightarrow> rx \<Rightarrow> string \<Rightarrow> string list" where
  "rx_match_all ic r s = match_all ic r None s"

text \<open>\<open>s.replace(re, t)\<close> without \<open>g\<close>: the first match replaced by \<open>t\<close>.\<close>

definition rx_replace :: "bool \<Rightarrow> rx \<Rightarrow> string \<Rightarrow> string \<Rightarrow> string" where
  "rx_replace ic r t s = (case search ic r None s 0 of None \<Rightarrow> s | Some (i, c', _) \<Rightarrow> take i s @ t @ snd c')"

text \<open>
  \<open>s.split(re)\<close> (\<open>RegExp.prototype[@@split]\<close>): the separator is tried at each index
  \<open>q\<close> in turn; a match ending at \<open>e \<noteq> p\<close> closes the piece from \<open>p\<close> to \<open>q\<close>.  The
  separators the sources split with have no capture groups, whose values would be spliced
  into the result.
\<close>

definition prev_at :: "string \<Rightarrow> nat \<Rightarrow> char option" where
  "prev_at s q = (if q = 0 then None else Some (s ! (q - 1)))"

function rsplit_go :: "bool \<Rightarrow> rx \<Rightarrow> string \<Rightarrow> nat \<Rightarrow> nat \<Rightarrow> string list" where
  "rsplit_go ic r s p q =
     (if q < length s then
        (case ms ic r (prev_at s q, drop q s) [] of
           [] \<Rightarrow> rsplit_go ic r s p (Suc q)
         | (c', _) # _ \<Rightarrow>
             (if length s - length (snd c') = p then rsplit_go ic r s p (Suc q)
              else take (q - p) (drop p s) # rsplit_go ic r s (length s - length (snd c'))
                                               (length s - length (snd c'))))
      else [drop p s])"
  by pat_completeness auto
termination
  by (relation "measures [\<lambda>(ic, r, s, p, q). length s - q, \<lambda>(ic, r, s, p, q). if p = q then 0 else 1]")
     (auto dest!: ms_head_length)

declare rsplit_go.simps [simp del]

definition rx_split :: "bool \<Rightarrow> rx \<Rightarrow> string \<Rightarrow> string list" where
  "rx_split ic r s =
     (if s = [] then (if ms ic r (None, []) [] = [] then [[]] else []) else rsplit_go ic r s 0 0)"

section \<open>Building patterns\<close>

definition rstr :: "string \<Rightarrow> rx" where
  "rstr s = foldr (\<lambda>c r. RSeq (RLit c) r) s REmpty"

fun ralts :: "rx list \<Rightarrow> rx" where
  "ralts [] = RClass False []"
| "ralts [r] = r"
| "ralts (r # rs) = RAlt r (ralts rs)"

fun rseqs :: "rx list \<Rightarrow> rx" where
  "rseqs [] = REmpty"
| "rseqs [r] = r"
| "rseqs (r # rs) = RSeq r (rseqs rs)"

definition rstar :: "rx \<Rightarrow> rx" where "rstar r = RRep r 0 None True"
definition rplus :: "rx \<Rightarrow> rx" where "rplus r = RRep r 1 None True"
definition rlazy :: "rx \<Rightarrow> rx" where "rlazy r = RRep r 0 None False"
definition ropt :: "rx \<Rightarrow> rx" where "ropt r = RRep r 0 (Some 1) True"

text \<open>\<open>\s\<close>, \<open>\d\<close>, \<open>\w\<close> and \<open>[\s\S]\<close> on bytes.\<close>

definition space_ranges :: "(char \<times> char) list" where
  "space_ranges = [(CHR 0x09, CHR 0x0D), (CHR '' '', CHR '' '')]"

definition digit_ranges :: "(char \<times> char) list" where
  "digit_ranges = [(CHR ''0'', CHR ''9'')]"

definition word_ranges :: "(char \<times> char) list" where
  "word_ranges = [(CHR ''A'', CHR ''Z''), (CHR ''a'', CHR ''z''), (CHR ''0'', CHR ''9''), (CHR ''_'', CHR ''_'')]"

definition r_space :: rx where "r_space = RClass False space_ranges"
definition r_digit :: rx where "r_digit = RClass False digit_ranges"
definition r_wordc :: rx where "r_wordc = RClass False word_ranges"
definition r_anychar :: rx where "r_anychar = RClass True []"

text \<open>The non-ASCII characters of the patterns, as their UTF-8 bytes.\<close>

definition bullet :: string where "bullet = [CHR 0xE2, CHR 0x80, CHR 0xA2]"
definition middot :: string where "middot = [CHR 0xC2, CHR 0xB7]"
definition endash :: string where "endash = [CHR 0xE2, CHR 0x80, CHR 0x93]"

text \<open>The unfoldings that evaluate a match on a literal subject.\<close>

lemmas rx_eval = rx_match_def rx_test_def matched_def rstr_def rstar_def ropt_def rlazy_def rplus_def
  r_space_def r_anychar_def r_digit_def r_wordc_def space_ranges_def digit_ranges_def word_ranges_def
  lit_match_def class_match_def in_ranges_def bullet_def middot_def endash_def group_of_def
  word_before_def word_after_def is_word_def clear_groups_def rx_split_def prev_at_def rx_replace_def
  rx_match_all_def match_all.simps rsplit_go.simps

section \<open>What the matching functions return\<close>

lemma take_consumed:
  assumes "consumes_with P (q, u) c'"
  shows "list_all P (take (length u - length (snd c')) u)"
    and "take (length u - length (snd c')) u @ snd c' = u"
  using assms by (auto simp: consumes_with_def)

text \<open>Every element of a global match is the first match at some position.\<close>

lemma match_all_heads:
  "w \<in> set (match_all ic r p s) \<Longrightarrow>
   \<exists>q u c' cs xs. ms ic r (q, u) [] = (c', cs) # xs \<and> w = take (length u - length (snd c')) u"
proof (induction ic r p s rule: match_all.induct)
  case (1 ic r p s)
  show ?case
  proof (cases "search ic r p s 0")
    case None
    with "1.prems" show ?thesis by (simp add: match_all.simps [of ic r p s])
  next
    case (Some x)
    then obtain i c' cs where x: "search ic r p s 0 = Some (i, c', cs)" by (cases x) auto
    then obtain q xs where hd: "ms ic r (q, drop i s) [] = (c', cs) # xs"
      using search_Some [OF x] by auto
    have here: "\<exists>q' u c'' cs' xs'. ms ic r (q', u) [] = (c'', cs') # xs' \<and>
                  matched s i c' = take (length u - length (snd c'')) u"
      by (rule exI [of _ q], rule exI [of _ "drop i s"], rule exI [of _ c'], rule exI [of _ cs],
          rule exI [of _ xs]) (simp add: hd matched_def)
    show ?thesis
    proof (cases "matched s i c' = []")
      case True
      show ?thesis
      proof (cases "drop i s")
        case Nil
        with "1.prems" x True have "w = matched s i c'" by (simp add: match_all.simps [of ic r p s])
        with here show ?thesis by simp
      next
        case (Cons d s')
        with "1.prems" x True have "w = matched s i c' \<or> w \<in> set (match_all ic r (Some d) s')"
          by (auto simp: match_all.simps [of ic r p s])
        then show ?thesis using here "1.IH"(1) [OF x refl refl True Cons] by metis
      qed
    next
      case False
      with "1.prems" x have "w = matched s i c' \<or> w \<in> set (match_all ic r (fst c') (snd c'))"
        by (auto simp: match_all.simps [of ic r p s])
      then show ?thesis using here "1.IH"(2) [OF x refl refl False] by metis
    qed
  qed
qed

lemma match_all_accepts:
  assumes "w \<in> set (match_all ic r p s)"
  shows "list_all (accepts ic r) w"
proof -
  obtain q u c' cs xs where "ms ic r (q, u) [] = (c', cs) # xs" "w = take (length u - length (snd c')) u"
    using match_all_heads [OF assms] by blast
  then show ?thesis by (metis head_consumes_with take_consumed(1))
qed

lemma rx_replace_chars: "set (rx_replace ic r t s) \<subseteq> set s \<union> set t"
proof (cases "search ic r None s 0")
  case None
  then show ?thesis by (simp add: rx_replace_def)
next
  case (Some x)
  then obtain i c' cs where x: "search ic r None s 0 = Some (i, c', cs)" by (cases x) auto
  then obtain q where "consumes_with (accepts ic r) (q, drop i s) c'" using search_consumes_with by blast
  then have "set (snd c') \<subseteq> set (drop i s)" by (auto simp: consumes_with_def)
  with x show ?thesis
    using set_take_subset [of i s] set_drop_subset [of i s] by (auto simp: rx_replace_def)
qed

lemma rsplit_go_chars: "w \<in> set (rsplit_go ic r s p q) \<Longrightarrow> set w \<subseteq> set s"
proof (induction ic r s p q rule: rsplit_go.induct)
  case (1 ic r s p q)
  have piece: "set (take n (drop p s)) \<subseteq> set s" for n
    using set_take_subset [of n "drop p s"] set_drop_subset [of p s] by blast
  show ?case
  proof (cases "q < length s")
    case False
    with "1.prems" show ?thesis using set_drop_subset [of p s] by (simp add: rsplit_go.simps [of ic r s p q])
  next
    case q: True
    show ?thesis
    proof (cases "ms ic r (prev_at s q, drop q s) []")
      case Nil
      with "1.prems" q "1.IH"(1) [OF q Nil] show ?thesis by (simp add: rsplit_go.simps [of ic r s p q])
    next
      case (Cons x xs)
      obtain c' y where x: "x = (c', y)" by (cases x)
      show ?thesis
      proof (cases "length s - length (snd c') = p")
        case True
        with "1.prems" q Cons x "1.IH"(2) [OF q Cons x [symmetric] True] show ?thesis
          by (simp add: rsplit_go.simps [of ic r s p q])
      next
        case False
        have "w = take (q - p) (drop p s) \<or> w \<in> set (rsplit_go ic r s (length s - length (snd c')) (length s - length (snd c')))"
          using "1.prems" q Cons x False by (simp add: rsplit_go.simps [of ic r s p q])
        then show ?thesis using "1.IH"(3) [OF q Cons x [symmetric] False] piece by blast
      qed
    qed
  qed
qed

lemma rx_split_chars: "w \<in> set (rx_split ic r s) \<Longrightarrow> set w \<subseteq> set s"
  by (auto simp: rx_split_def dest: rsplit_go_chars split: if_splits)

lemma rx_match_infix:
  assumes "rx_match ic r s = Some (m, cs)"
  shows "\<exists>u v. s = u @ m @ v"
proof -
  obtain i c' where x: "search ic r None s 0 = Some (i, c', cs)" "m = matched s i c'"
    using assms by (auto simp: rx_match_def)
  then obtain q where cw: "consumes_with (accepts ic r) (q, drop i s) c'" using search_consumes_with by blast
  have "m @ snd c' = drop i s" unfolding x(2) matched_def by (rule take_consumed(2) [OF cw])
  then have "s = take i s @ m @ snd c'" by simp
  then show ?thesis by blast
qed

text \<open>A global match whose matches are all non-empty has at most one per character.\<close>

lemma match_all_nonempty_length:
  "(\<And>w. w \<in> set (match_all ic r p s) \<Longrightarrow> w \<noteq> []) \<Longrightarrow> length (match_all ic r p s) \<le> length s"
proof (induction ic r p s rule: match_all.induct)
  case (1 ic r p s)
  show ?case
  proof (cases "search ic r p s 0")
    case None
    then show ?thesis by (simp add: match_all.simps [of ic r p s])
  next
    case (Some x)
    then obtain i c' cs where x: "search ic r p s 0 = Some (i, c', cs)" by (cases x) auto
    show ?thesis
    proof (cases "matched s i c' = []")
      case True
      then have "[] \<in> set (match_all ic r p s)"
        using x by (simp add: match_all.simps [of ic r p s] split: list.splits)
      with "1.prems" show ?thesis by blast
    next
      case False
      have eq: "match_all ic r p s = matched s i c' # match_all ic r (fst c') (snd c')"
        using x False by (simp add: match_all.simps [of ic r p s])
      have "length (match_all ic r (fst c') (snd c')) \<le> length (snd c')"
        using "1.IH"(2) [OF x refl refl False] "1.prems" eq by simp
      moreover have "length (snd c') < length s" using search_shorter [OF x False] .
      ultimately show ?thesis using eq by simp
    qed
  qed
qed

text \<open>
  The well-founded orders above, as theorems: the domains of the matcher and of the
  global-match loop are everything, and the loop runs at most once per character, plus
  one for a final empty match.
\<close>

lemma ms_total: "ms_dom x"
proof -
  let ?R = "(\<lambda>(ic, r, cur, cs). size r) <*mlex*> (\<lambda>(ic, r, cur, cs). rep_min r)
              <*mlex*> (\<lambda>(ic, r, cur, cs). length (snd cur)) <*mlex*> {}"
  have "{(y, z). ms_rel y z} \<subseteq> ?R"
    by (auto elim!: ms_rel.cases simp: mlex_iff)
  then have "wf {(y, z). ms_rel y z}"
    by (rule wf_subset [rotated]) (auto simp: wf_mlex)
  then show ?thesis
    by (simp add: accp_wfpD wfp_def)
qed

lemma match_all_total: "match_all_dom x"
proof -
  have "{(y, z). match_all_rel y z} \<subseteq> measure (\<lambda>(ic, r, p, s). length s)"
    by (auto elim!: match_all_rel.cases dest: search_shorter arg_cong [of "drop _ _" _ length])
  then have "wf {(y, z). match_all_rel y z}"
    by (rule wf_subset [rotated]) simp
  then show ?thesis
    by (simp add: accp_wfpD wfp_def)
qed

lemma match_all_length: "length (match_all ic r p s) \<le> Suc (length s)"
proof (induction ic r p s rule: match_all.induct)
  case (1 ic r p s)
  show ?case
  proof (cases "search ic r p s 0")
    case None
    then show ?thesis by (simp add: match_all.simps [of ic r p s])
  next
    case (Some a)
    obtain i c' cs where a: "a = (i, c', cs)" by (cases a) auto
    show ?thesis
    proof (cases "matched s i c' = []")
      case True
      show ?thesis
      proof (cases "drop i s")
        case Nil
        then show ?thesis by (simp add: match_all.simps [of ic r p s] Some a True)
      next
        case (Cons d s')
        have "Suc (length s') \<le> length s"
          using arg_cong [OF Cons, of length] by simp
        moreover have "length (match_all ic r (Some d) s') \<le> Suc (length s')"
          using 1(1) [OF Some [unfolded a] refl refl True Cons] by simp
        ultimately show ?thesis by (simp add: match_all.simps [of ic r p s] Some a True Cons)
      qed
    next
      case False
      have "length (snd c') < length s"
        using search_shorter Some a False by blast
      then show ?thesis
        using 1(2) [OF Some [unfolded a] refl refl False] Some a False
        by (simp add: match_all.simps [of ic r p s])
    qed
  qed
qed
section \<open>Greedy loops over a character class\<close>

text \<open>The cursor after the first \<open>k\<close> characters of \<open>s\<close>.\<close>

definition adv :: "char option \<Rightarrow> string \<Rightarrow> nat \<Rightarrow> cursor" where
  "adv p s k = (if k = 0 then p else Some (s ! (k - 1)), drop k s)"

lemma adv_Suc: "adv p (c # s) (Suc k) = adv (Some c) s k"
  by (cases k) (simp_all add: adv_def)

lemma clear_groups_RClass [simp]: "clear_groups (RClass neg rs) cs = cs"
  by (simp add: clear_groups_def)

lemma rev_upt_Suc_map:
  "lo \<le> 1 \<Longrightarrow> rev [lo..<Suc (Suc n)] = map Suc (rev [lo - 1..<Suc n]) @ (if lo = 0 then [0] else [])"
  by (cases lo) (auto simp: upt_conv_Cons map_Suc_upt [symmetric] rev_map simp del: upt_Suc)

text \<open>
  A greedy loop \<open>[X]*\<close> or \<open>[X]+\<close> tries the longest run of class characters first,
  then each shorter one down to its minimum.
\<close>

lemma ms_class_rep:
  assumes "lo \<le> 1"
  shows "ms ic (RRep (RClass neg rs) lo None True) (p, s) cs =
           map (\<lambda>k. (adv p s k, cs)) (rev [lo..<Suc (length (takeWhile (class_match ic neg rs) s))])"
  using assms
proof (induction s arbitrary: p lo)
  case Nil
  then show ?case by (cases lo) (auto simp: Let_def adv_def)
next
  case (Cons c s)
  show ?case
  proof (cases "class_match ic neg rs c")
    case True
    have ih: "ms ic (RRep (RClass neg rs) (lo - 1) None True) (Some c, s) cs =
                map (\<lambda>k. (adv (Some c) s k, cs)) (rev [lo - 1..<Suc (length (takeWhile (class_match ic neg rs) s))])"
      using Cons.IH [of "lo - 1" "Some c"] Cons.prems by simp
    have "ms ic (RRep (RClass neg rs) lo None True) (p, c # s) cs =
            ms ic (RRep (RClass neg rs) (lo - 1) None True) (Some c, s) cs @ (if lo = 0 then [((p, c # s), cs)] else [])"
      using True by (subst ms_RRep) (simp add: Let_def del: ms_RRep)
    also have "\<dots> = map (\<lambda>k. (adv p (c # s) k, cs))
                        (map Suc (rev [lo - 1..<Suc (length (takeWhile (class_match ic neg rs) s))])
                         @ (if lo = 0 then [0] else []))"
      unfolding ih by (simp add: adv_Suc comp_def adv_def del: ms_RRep upt_Suc)
    also have "\<dots> = map (\<lambda>k. (adv p (c # s) k, cs))
                        (rev [lo..<Suc (length (takeWhile (class_match ic neg rs) (c # s)))])"
      using True Cons.prems by (simp only: rev_upt_Suc_map takeWhile.simps if_True length_Cons)
    finally show ?thesis .
  next
    case False
    with Cons.prems show ?thesis by (cases lo) (auto simp: Let_def adv_def)
  qed
qed

lemma ms_all_RWordB:
  "ms_all ic RWordB (map (\<lambda>k. (f k, cs)) ks) =
     map (\<lambda>k. (f k, cs)) (filter (\<lambda>k. word_before (fst (f k)) \<noteq> word_after (snd (f k))) ks)"
  by (induction ks) auto

lemma filter_rev_upt_Cons:
  assumes "filter P (rev [a..<b]) = k # ks"
  shows "a \<le> k" "k < b" "P k" "\<And>j. k < j \<Longrightarrow> j < b \<Longrightarrow> \<not> P j"
proof -
  obtain us vs where split: "rev [a..<b] = us @ k # vs" and us: "\<forall>u\<in>set us. \<not> P u" and "P k"
    using filter_eq_ConsD [OF assms] by blast
  then show "P k" by simp
  have kin: "k \<in> set (rev [a..<b])" using split by simp
  then show "a \<le> k" "k < b" by auto
  have sorted: "sorted_wrt (>) (us @ k # vs)"
    using split [symmetric] by (simp add: sorted_wrt_rev sorted_wrt_upt)
  fix j assume "k < j" "j < b"
  moreover have "a \<le> j" using \<open>a \<le> k\<close> \<open>k < j\<close> by simp
  ultimately have "j \<in> set (us @ k # vs)" using split [symmetric] by auto
  moreover have "j \<notin> set (k # vs)" using sorted \<open>k < j\<close> by (auto simp: sorted_wrt_append)
  ultimately show "\<not> P j" using us by auto
qed

lemma takeWhile_lengthI:
  "(\<And>j. j < m \<Longrightarrow> P (xs ! j)) \<Longrightarrow> m \<le> length xs \<Longrightarrow> m \<le> length (takeWhile P xs)"
proof (induction xs arbitrary: m)
  case Nil
  then show ?case by simp
next
  case (Cons x xs)
  show ?case
  proof (cases m)
    case (Suc m')
    have "P x" using Cons.prems(1) [of 0] Suc by simp
    moreover have "m' \<le> length (takeWhile P xs)"
      using Cons.IH [of m'] Cons.prems Suc by force
    ultimately show ?thesis using Suc by simp
  qed simp
qed

lemma takeWhile_nth_holds: "j < length (takeWhile P xs) \<Longrightarrow> P (xs ! j)"
  by (metis nth_mem set_takeWhileD takeWhile_nth)

lemma word_after_drop: "word_after (drop k s) \<longleftrightarrow> k < length s \<and> is_word (s ! k)"
proof (cases "k < length s")
  case True
  then have "drop k s = s ! k # drop (Suc k) s" by (rule Cons_nth_drop_Suc [symmetric])
  with True show ?thesis by (simp add: word_after_def)
next
  case False
  then show ?thesis by (simp add: word_after_def)
qed

text \<open>
  The first match of \<open>\b[X]+\b\<close>, for a class \<open>X\<close> holding every word character,
  ends on a word character: a match that ended on another character would be followed by
  a word character of the same run, and the longer match up to the run's last word
  character, which the greedy loop tries first, would succeed.
\<close>

lemma wordb_plus_first:
  assumes cls: "\<And>c. is_word c \<Longrightarrow> class_match ic neg rs c"
    and hd: "ms ic (RSeq RWordB (RSeq (RRep (RClass neg rs) 1 None True) RWordB)) (p, s) [] = (c', cs') # xs"
  shows "\<exists>k. 0 < k \<and> k \<le> length s \<and> c' = adv p s k \<and> is_word (s ! (k - 1))"
proof -
  let ?X = "class_match ic neg rs"
  define n where "n = length (takeWhile ?X s)"
  define P where "P = (\<lambda>k. word_before (fst (adv p s k)) \<noteq> word_after (snd (adv p s k)))"
  have "ms ic (RSeq RWordB (RSeq (RRep (RClass neg rs) 1 None True) RWordB)) (p, s) [] =
          (if word_before p \<noteq> word_after s then map (\<lambda>k. (adv p s k, [])) (filter P (rev [1..<Suc n])) else [])"
    by (simp add: ms_class_rep n_def P_def ms_all_RWordB del: ms_RRep upt_Suc)
  with hd obtain k ks where f: "filter P (rev [1..<Suc n]) = k # ks" and c': "c' = adv p s k"
    by (auto split: if_splits simp: map_eq_Cons_conv)
  note kf = filter_rev_upt_Cons [OF f]
  have nlen: "n \<le> length s" by (simp add: n_def length_takeWhile_le)
  have inX: "?X (s ! j)" if "j < n" for j
    using that takeWhile_nth_holds by (auto simp: n_def)
  have "is_word (s ! (k - 1))"
  proof (rule ccontr)
    assume nw: "\<not> is_word (s ! (k - 1))"
    have "word_after (drop k s)"
      using kf(1,3) nw by (auto simp: P_def adv_def word_before_def)
    then have kl: "k < length s" and wk: "is_word (s ! k)" by (simp_all add: word_after_drop)
    have "Suc k \<le> n"
      unfolding n_def
    proof (rule takeWhile_lengthI)
      fix j assume "j < Suc k"
      then show "?X (s ! j)" using inX [of j] kf(2) cls [OF wk] by (cases "j = k") auto
    qed (use kl in simp)
    have allw: "is_word (s ! (j - 1))" if "k < j" "j \<le> n" for j
      using that
    proof (induction j)
      case (Suc i)
      show ?case
      proof (cases "i = k")
        case True
        with wk show ?thesis by simp
      next
        case False
        with Suc.prems have ki: "k < i" "i < n" by auto
        have "is_word (s ! (i - 1))" using Suc.IH ki by simp
        moreover have "\<not> P i" using kf(4) [of i] ki by simp
        ultimately have "word_after (drop i s)"
          using ki kf(1) by (auto simp: P_def adv_def word_before_def)
        then show ?thesis by (simp add: word_after_drop)
      qed
    qed simp
    have "\<not> word_after (drop n s)"
    proof
      assume "word_after (drop n s)"
      then have "n < length s" "is_word (s ! n)" by (simp_all add: word_after_drop)
      then show False using cls nth_length_takeWhile [of ?X s] by (simp add: n_def)
    qed
    moreover have "word_before (fst (adv p s n))"
      using allw [of n] \<open>Suc k \<le> n\<close> by (auto simp: adv_def word_before_def)
    ultimately have "P n" by (simp add: P_def adv_def)
    with kf(4) [of n] \<open>Suc k \<le> n\<close> show False by simp
  qed
  with kf(1,2) c' nlen show ?thesis by (intro exI [of _ k]) auto
qed

end
