(* ===== verification/Resume.thy ===== *)
theory Resume
  imports Regex Json
begin

text \<open>
  The resume parser of \<open>src/src/pages/api/parse-resume.ts\<close>:
  \<open>PdfParser.extractResumeData\<close> (which \<open>DocxParser\<close> reuses), the parser factory and
  the route handler.  The regular expressions of the source are terms of \<open>Regex.rx\<close>;
  \<open>text.match\<close>, \<open>.test\<close>, \<open>.split\<close> and \<open>.replace\<close> with them are the functions of
  \<open>Regex\<close>.  Byte decoding (\<open>pdf-parse\<close>, \<open>mammoth\<close>) and the multipart parser
  (\<open>formidable\<close>) are parameters.
\<close>

section \<open>JavaScript helpers\<close>

text \<open>\<open>x || d\<close> for \<open>x : string | undefined\<close>: the empty string is falsy.\<close>

definition js_or :: "string option \<Rightarrow> string \<Rightarrow> string" where
  "js_or x d = (case x of Some v \<Rightarrow> if v = [] then d else v | None \<Rightarrow> d)"

text \<open>\<open>xs[i]\<close>: \<open>undefined\<close> out of range.\<close>

definition nth_opt :: "'a list \<Rightarrow> nat \<Rightarrow> 'a option" where
  "nth_opt xs i = (if i < length xs then Some (xs ! i) else None)"

text \<open>\<open>xs.findIndex(p)\<close>, with \<open>None\<close> for its \<open>-1\<close>.\<close>

fun find_index :: "('a \<Rightarrow> bool) \<Rightarrow> 'a list \<Rightarrow> nat option" where
  "find_index p [] = None"
| "find_index p (x # xs) = (if p x then Some 0 else map_option Suc (find_index p xs))"

definition chr_set :: "string \<Rightarrow> (char \<times> char) list" where
  "chr_set s = map (\<lambda>c. (c, c)) s"

definition lines_of :: "string \<Rightarrow> string list" where
  "lines_of s = map trim (split_on (CHR 0x0A) s)"

definition nonempty_trimmed :: "string list \<Rightarrow> string list" where
  "nonempty_trimmed xs = filter (\<lambda>x. x \<noteq> []) (map trim xs)"

section \<open>The patterns\<close>

definition alpha_ranges :: "(char \<times> char) list" where
  "alpha_ranges = [(CHR ''a'', CHR ''z''), (CHR ''A'', CHR ''Z'')]"

definition alnum_ranges :: "(char \<times> char) list" where
  "alnum_ranges = alpha_ranges @ [(CHR ''0'', CHR ''9'')]"

text \<open>\<open>/[a-zA-Z0-9._%+-]+@[a-zA-Z0-9.-]+\.[a-zA-Z]{2,}/\<close>\<close>

definition email_rx :: rx where
  "email_rx = rseqs [rplus (RClass False (alnum_ranges @ chr_set ''._%+-'')), RLit CHR ''@'',
                     rplus (RClass False (alnum_ranges @ chr_set ''.-'')), RLit CHR ''.'',
                     RRep (RClass False alpha_ranges) 2 None True]"

text \<open>\<open>/(\+\d{1,3}[-.\s]?)?(\(?\d{3}\)?[-.\s]?){1,2}\d{3,4}(-?\d{3,4})?/\<close>\<close>

definition phone_sep :: rx where
  "phone_sep = ropt (RClass False (chr_set ''-.'' @ space_ranges))"

definition phone_rx :: rx where
  "phone_rx = rseqs [ropt (RGroup 1 (rseqs [RLit CHR ''+'', RRep r_digit 1 (Some 3) True, phone_sep])),
                     RRep (RGroup 2 (rseqs [ropt (RLit CHR ''(''), RRep r_digit 3 (Some 3) True,
                                            ropt (RLit CHR '')''), phone_sep])) 1 (Some 2) True,
                     RRep r_digit 3 (Some 4) True,
                     ropt (RGroup 3 (rseqs [ropt (RLit CHR ''-''), RRep r_digit 3 (Some 4) True]))]"

text \<open>
  \<open>/HEAD[\s\n]*SEP?([\s\S]*?)(?=STOP|\<dots>)/i\<close>: a section header, white space, an optional
  separator, then the shortest text up to the first stop word.  \<open>[:\<bullet>]\<close> is one code point
  out of two; on bytes, one of two encodings.
\<close>

definition section_rx :: "string \<Rightarrow> rx \<Rightarrow> rx list \<Rightarrow> rx" where
  "section_rx head sep stops =
     rseqs [rstr head, rstar r_space, ropt sep, RGroup 1 (rlazy r_anychar), RLook (ralts stops)]"

definition nl :: rx where "nl = RLit (CHR 0x0A)"

definition skills_stops :: "rx list" where
  "skills_stops = map rstr [''EDUCATION'', ''EXPERIENCE'', ''PROJECTS'', ''ACHIEVEMENTS'', ''LANGUAGES'']
                  @ [rseqs [nl, nl]]"

definition skills_patterns :: "rx list" where
  "skills_patterns =
     map (\<lambda>h. section_rx h (RAlt (RLit CHR '':'') (rstr bullet)) skills_stops)
       [''SKILLS'', ''TECHNICAL'', ''TECHNICAL SKILLS'']"

text \<open>\<open>/[\<bullet>\<middot>\-]/\<close>, the bullet separator of a skills section.\<close>

definition bullet_rx :: rx where
  "bullet_rx = ralts [rstr bullet, rstr middot, RLit CHR ''-'']"

definition tech_keywords :: "string list" where
  "tech_keywords =
     [''JavaScript'', ''TypeScript'', ''React'', ''React.js'', ''Node.js'', ''HTML'', ''CSS'', ''Python'',
      ''Java'', ''C++'', ''C#'', ''Ruby'', ''PHP'', ''SQL'', ''NoSQL'', ''MongoDB'', ''Express'',
      ''Angular'', ''Vue'', ''AWS'', ''Azure'', ''Docker'', ''Kubernetes'', ''Git'', ''REST'', ''RESTful'',
      ''API'', ''APIs'', ''Redux'', ''Context API'', ''Tailwind'', ''Bootstrap'', ''Material UI'',
      ''Next.js'', ''Gatsby'', ''Webpack'', ''Babel'', ''SASS'', ''SCSS'', ''jQuery'', ''GraphQL'',
      ''Firebase'', ''Heroku'', ''Netlify'', ''Vercel'', ''TensorFlow'', ''PyTorch'', ''Flask'', ''Django'']"

text \<open>\<open>/\b[A-Za-z0-9.+_-]+\b/g\<close>\<close>

definition word_class :: "(char \<times> char) list" where
  "word_class = alnum_ranges @ chr_set ''.+_-''"

definition word_rx :: rx where
  "word_rx = rseqs [RWordB, rplus (RClass False word_class), RWordB]"

definition tech_phrases :: "string list" where
  "tech_phrases =
     [''React.js'', ''Node.js'', ''Machine Learning'', ''Deep Learning'', ''Data Science'',
      ''Computer Vision'', ''Natural Language Processing'', ''Context API'', ''Material UI'',
      ''REST API'', ''RESTful API'', ''Front End'', ''Back End'', ''Full Stack'', ''Web Development'']"

text \<open>\<open>/EXPERIENCE[\s\S]*?(?=EDUCATION|SKILLS|PROJECTS|ACHIEVEMENTS|$)/i\<close>\<close>

definition exp_section_rx :: rx where
  "exp_section_rx =
     rseqs [rstr ''EXPERIENCE'', rlazy r_anychar,
            RLook (ralts (map rstr [''EDUCATION'', ''SKILLS'', ''PROJECTS'', ''ACHIEVEMENTS''] @ [REnd]))]"

text \<open>
  \<open>/using\s+([A-ZaZ0-9,.\s]+)(?=\s+to|\s*,|\s*\.)/ig\<close>; the class is written \<open>A-Z\<close>,
  \<open>a\<close>, \<open>Z\<close> in the source, which under the \<open>i\<close> flag covers the lower-case letters too.
\<close>

definition using_class :: "(char \<times> char) list" where
  "using_class = [(CHR ''A'', CHR ''Z'')] @ chr_set ''aZ'' @ [(CHR ''0'', CHR ''9'')] @ chr_set '',.'' @ space_ranges"

definition using_rx :: rx where
  "using_rx =
     rseqs [rstr ''using'', rplus r_space, RGroup 1 (rplus (RClass False using_class)),
            RLook (ralts [rseqs [rplus r_space, rstr ''to''], rseqs [rstar r_space, RLit CHR '',''],
                          rseqs [rstar r_space, RLit CHR ''.'']])]"

definition using_prefix_rx :: rx where
  "using_prefix_rx = rseqs [rstr ''using'', rplus r_space]"

definition skill_sep_rx :: rx where
  "skill_sep_rx = rplus (RClass False (chr_set '','' @ space_ranges))"

definition section_stops :: "string list \<Rightarrow> rx list" where
  "section_stops ws = map rstr ws @ [rseqs [nl, nl, nl]]"

definition edu_patterns :: "rx list" where
  "edu_patterns =
     map (\<lambda>h. section_rx h (RLit CHR '':'')
                (section_stops [''EXPERIENCE'', ''SKILLS'', ''PROJECTS'', ''ACHIEVEMENTS'', ''LANGUAGES'']))
       [''EDUCATION'', ''ACADEMIC'']"

definition exp_patterns :: "rx list" where
  "exp_patterns =
     map (\<lambda>h. section_rx h (RLit CHR '':'')
                (section_stops [''EDUCATION'', ''SKILLS'', ''PROJECTS'', ''ACHIEVEMENTS'', ''LANGUAGES'']))
       [''EXPERIENCE'', ''WORK EXPERIENCE'', ''PROFESSIONAL EXPERIENCE'']"

text \<open>\<open>/\n\s*\n|\n\s*\<bullet>/\<close>, the separator of section entries.\<close>

definition entry_sep_rx :: rx where
  "entry_sep_rx = RAlt (rseqs [nl, rstar r_space, nl]) (rseqs [nl, rstar r_space, rstr bullet])"

definition institution_rx :: rx where
  "institution_rx = RGroup 1 (ralts (map rstr [''University'', ''College'', ''Institute'', ''School'', ''Academy'', ''IIT'']))"

text \<open>\<open>/(Bachelor|Master|PhD|B\.?Tech|M\.?Tech|B\.?E|M\.?E|B\.?S|M\.?S|B\.?A|M\.?A)/i\<close>\<close>

definition dotted :: "char \<Rightarrow> string \<Rightarrow> rx" where
  "dotted c rest = rseqs [RLit c, ropt (RLit CHR ''.''), rstr rest]"

definition degree_rx :: rx where
  "degree_rx = RGroup 1 (ralts [rstr ''Bachelor'', rstr ''Master'', rstr ''PhD'',
     dotted CHR ''B'' ''Tech'', dotted CHR ''M'' ''Tech'', dotted CHR ''B'' ''E'', dotted CHR ''M'' ''E'',
     dotted CHR ''B'' ''S'', dotted CHR ''M'' ''S'', dotted CHR ''B'' ''A'', dotted CHR ''M'' ''A''])"

definition dash_rx :: rx where
  "dash_rx = RGroup 2 (ralts [RLit CHR ''-'', rstr endash, rstr ''to''])"

text \<open>\<open>/(\d{4})\s*(-|\<endash>|to)\s*(\d{4}|Present|Current)/i\<close>\<close>

definition edu_date_rx :: rx where
  "edu_date_rx = rseqs [RGroup 1 (RRep r_digit 4 (Some 4) True), rstar r_space, dash_rx, rstar r_space,
                        RGroup 3 (ralts [RRep r_digit 4 (Some 4) True, rstr ''Present'', rstr ''Current''])]"

text \<open>\<open>/(\w+\s*\d{4})\s*(-|\<endash>|to)\s*(\w+\s*\d{4}|Present|Current)/i\<close>\<close>

definition month_year_rx :: rx where
  "month_year_rx = rseqs [rplus r_wordc, rstar r_space, RRep r_digit 4 (Some 4) True]"

definition exp_date_rx :: rx where
  "exp_date_rx = rseqs [RGroup 1 month_year_rx, rstar r_space, dash_rx, rstar r_space,
                        RGroup 3 (ralts [month_year_rx, rstr ''Present'', rstr ''Current''])]"

section \<open>Extraction\<close>

text \<open>
  The loop over a pattern list: the first pattern whose match has a non-empty group 1
  (\<open>if (match && match[1])\<close>), with that group.
\<close>

fun first_section :: "rx list \<Rightarrow> string \<Rightarrow> string option" where
  "first_section [] text = None"
| "first_section (r # rs) text =
     (case rx_match True r text of
        Some m \<Rightarrow> (case group_of m 1 of
                     Some g \<Rightarrow> if g \<noteq> [] then Some g else first_section rs text
                   | None \<Rightarrow> first_section rs text)
      | None \<Rightarrow> first_section rs text)"

definition extract_name :: "string \<Rightarrow> string option" where
  "extract_name text = map_option trim (nth_opt (filter (\<lambda>l. trim l \<noteq> []) (split_on (CHR 0x0A) text)) 0)"

definition extract_email :: "string \<Rightarrow> string option" where
  "extract_email text = map_option fst (rx_match False email_rx text)"

definition extract_phone :: "string \<Rightarrow> string option" where
  "extract_phone text = map_option fst (rx_match False phone_rx text)"

text \<open>The splitting of a skills section: bullets first, then commas, then lines.\<close>

definition split_skills :: "string \<Rightarrow> string list" where
  "split_skills t =
     (if str_includes t bullet \<or> str_includes t middot \<or> str_includes t ''-''
      then nonempty_trimmed (rx_split False bullet_rx t)
      else if str_includes t '','' then nonempty_trimmed (split_on CHR '','' t)
      else nonempty_trimmed (split_on (CHR 0x0A) t))"

definition section_skills :: "string \<Rightarrow> string list" where
  "section_skills text =
     (let skillsText = (case first_section skills_patterns text of None \<Rightarrow> [] | Some g \<Rightarrow> trim g)
      in if skillsText \<noteq> [] then split_skills skillsText else [])"

definition degenerate_skills :: "string list \<Rightarrow> bool" where
  "degenerate_skills sk \<longleftrightarrow> sk = [] \<or> (length sk = 1 \<and> to_upper (hd sk) = ''SKILLS'')"

text \<open>
  The keyword fallback, adding to one \<open>Set\<close> in the order of the source: keywords per
  word, then phrases, then the \<open>using X\<close> phrases of the experience section.
\<close>

definition keyword_hits :: "string \<Rightarrow> string list" where
  "keyword_hits w = filter (\<lambda>k. w = k \<or> to_lower w = to_lower k) tech_keywords"

definition using_skills :: "string \<Rightarrow> string list" where
  "using_skills m =
     filter (\<lambda>s. s \<noteq> [] \<and> to_lower s \<notin> set [''to'', ''and'', ''the'', ''with''])
       (filter (\<lambda>s. 2 < length s) (map trim (rx_split False skill_sep_rx (rx_replace True using_prefix_rx [] m))))"

definition experience_skills :: "string \<Rightarrow> string list" where
  "experience_skills text =
     (case rx_match True exp_section_rx text of
        None \<Rightarrow> []
      | Some m \<Rightarrow> if fst m = [] then [] else concat (map using_skills (rx_match_all True using_rx (fst m))))"

definition fallback_skills :: "string \<Rightarrow> string list" where
  "fallback_skills text =
     (let s1 = foldl (\<lambda>acc w. set_add_all acc (keyword_hits w)) [] (rx_match_all False word_rx text);
          s2 = set_add_all s1 (filter (\<lambda>p. str_includes text p) tech_phrases)
      in set_add_all s2 (experience_skills text))"

definition extract_skills :: "string \<Rightarrow> string list" where
  "extract_skills text =
     (let sk = section_skills text in if degenerate_skills sk then fallback_skills text else sk)"

text \<open>One entry of the education section.\<close>

definition date_groups :: "rx \<Rightarrow> string option \<Rightarrow> string \<times> string" where
  "date_groups r dateLine =
     (case dateLine of
        Some l \<Rightarrow> if l = [] then ([], [])
                  else (case rx_match True r l of
                          Some m \<Rightarrow> (js_or (group_of m 1) [], js_or (group_of m 3) [])
                        | None \<Rightarrow> ([], []))
      | None \<Rightarrow> ([], []))"

definition education_entry :: "string \<Rightarrow> education" where
  "education_entry entry =
     (let lines = lines_of entry;
          institutionLine = js_or (find (rx_test True institution_rx) lines) (hd lines);
          degreeLine = find (rx_test True degree_rx) lines;
          dateLine = find (rx_test True edu_date_rx) lines;
          (startDate, endDate) = date_groups edu_date_rx dateLine
      in \<lparr>edu_institution = js_or (Some institutionLine) ''Unknown Institution'',
          edu_degree = js_or degreeLine (js_or (nth_opt lines 1) ''Degree''),
          edu_field = js_or (find (\<lambda>line. \<not> str_includes line (js_or (Some institutionLine) []) \<and>
                                         \<not> str_includes line (js_or degreeLine [])) lines)
                        ''Unknown Field'',
          edu_startDate = Some startDate, edu_endDate = Some endDate\<rparr>)"

definition section_entries :: "rx list \<Rightarrow> string \<Rightarrow> string list option" where
  "section_entries pats text =
     map_option (\<lambda>g. filter (\<lambda>e. trim e \<noteq> []) (rx_split False entry_sep_rx (trim g))) (first_section pats text)"

definition extract_education :: "string \<Rightarrow> education list" where
  "extract_education text =
     (case section_entries edu_patterns text of None \<Rightarrow> [] | Some es \<Rightarrow> map education_entry es)"

text \<open>One entry of the experience section; an entry of fewer than two lines is skipped.\<close>

definition experience_entry :: "string \<Rightarrow> work_experience option" where
  "experience_entry entry =
     (let lines = lines_of entry in
      if length lines < 2 then None
      else
        (let company = lines ! 0; position = lines ! 1;
             dateLine = find (rx_test True exp_date_rx) lines;
             (startDate, endDate) = date_groups exp_date_rx dateLine;
             idx = find_index (\<lambda>line. line \<noteq> company \<and> line \<noteq> position \<and>
                                      (case dateLine of None \<Rightarrow> True | Some d \<Rightarrow> line \<noteq> d)) lines;
             description = (case idx of Some i \<Rightarrow> if 0 < i then join '' '' (drop i lines) else []
                                     | None \<Rightarrow> [])
         in Some \<lparr>exp_company = company, exp_position = position, exp_startDate = Some startDate,
                  exp_endDate = Some endDate, exp_description = Some description\<rparr>))"

definition extract_experience :: "string \<Rightarrow> work_experience list" where
  "extract_experience text =
     (case section_entries exp_patterns text of None \<Rightarrow> [] | Some es \<Rightarrow> List.map_filter experience_entry es)"

text \<open>\<open>Partial<ResumeData>\<close> as \<open>extractResumeData\<close> returns it.\<close>

record resume_partial =
  rp_name :: "string option"
  rp_contact :: contact
  rp_skills :: "string list"
  rp_education :: "education list"
  rp_experience :: "work_experience list"

definition extract_resume_data :: "string \<Rightarrow> resume_partial" where
  "extract_resume_data text =
     \<lparr>rp_name = extract_name text,
      rp_contact = contact_empty\<lparr>email := extract_email text, phone := extract_phone text\<rparr>,
      rp_skills = extract_skills text, rp_education = extract_education text,
      rp_experience = extract_experience text\<rparr>"

section \<open>Serialisation\<close>

text \<open>\<open>res.json\<close> of the extracted records: keys in the order the code builds them.\<close>

definition json_of_education :: "education \<Rightarrow> json" where
  "json_of_education e =
     JObj ([(''institution'', JStr (edu_institution e)), (''degree'', JStr (edu_degree e)),
            (''field'', JStr (edu_field e))]
           @ opt_field ''startDate'' JStr (edu_startDate e) @ opt_field ''endDate'' JStr (edu_endDate e))"

definition json_of_experience :: "work_experience \<Rightarrow> json" where
  "json_of_experience x =
     JObj ([(''company'', JStr (exp_company x)), (''position'', JStr (exp_position x))]
           @ opt_field ''startDate'' JStr (exp_startDate x) @ opt_field ''endDate'' JStr (exp_endDate x)
           @ opt_field ''description'' JStr (exp_description x))"

definition json_of_resume_partial :: "resume_partial \<Rightarrow> json" where
  "json_of_resume_partial r =
     JObj (opt_field ''name'' JStr (rp_name r)
           @ [(''contact'', JObj (opt_field ''email'' JStr (email (rp_contact r))
                                  @ opt_field ''phone'' JStr (phone (rp_contact r)))),
              (''skills'', JArr (map JStr (rp_skills r))),
              (''education'', JArr (map json_of_education (rp_education r))),
              (''experience'', JArr (map json_of_experience (rp_experience r)))])"

section \<open>Parsers and the route\<close>

definition pdf_mime :: string where "pdf_mime = ''application/pdf''"

definition docx_mime :: string where
  "docx_mime = ''application/vnd.openxmlformats-officedocument.wordprocessingml.document''"

datatype parser = PdfParser | DocxParser

text \<open>\<open>ResumeParserFactory.createParser\<close>.\<close>

definition create_parser :: "string \<Rightarrow> string + parser" where
  "create_parser t =
     (if t = pdf_mime then Inr PdfParser else if t = docx_mime then Inr DocxParser
      else Inl (''Unsupported file type: '' @ t))"

text \<open>
  The decoders: \<open>pdfParse(buffer).text\<close> and \<open>mammoth.extractRawText({buffer}).value\<close>,
  each failing with a message.
\<close>

record decoders =
  pdf_text :: "string \<Rightarrow> string + string"
  docx_text :: "string \<Rightarrow> string + string"

text \<open>\<open>parser.parse(buffer)\<close>: both parsers run \<open>PdfParser.extractResumeData\<close> on the text.\<close>

definition parse_buffer :: "decoders \<Rightarrow> parser \<Rightarrow> string \<Rightarrow> string + resume_partial" where
  "parse_buffer d p buf =
     (case (case p of PdfParser \<Rightarrow> pdf_text d buf | DocxParser \<Rightarrow> docx_text d buf) of
        Inl m \<Rightarrow> Inl m
      | Inr t \<Rightarrow> Inr (extract_resume_data t))"

record uploaded_file =
  uf_mimetype :: "string option"
  uf_contents :: string

text \<open>
  The request: its method and the outcome of \<open>form.parse(req)\<close> (an error, or the
  \<open>resumeFile\<close> entry if any).
\<close>

record resume_request =
  rreq_method :: string
  rreq_form :: "string + uploaded_file option"

definition parse_fail :: "string \<Rightarrow> http_response" where
  "parse_fail m = send_json 500 (error_body (''Failed to parse resume: '' @ m)) empty_response"

definition resume_handler :: "decoders \<Rightarrow> resume_request \<Rightarrow> http_response" where
  "resume_handler d req =
     (if rreq_method req \<noteq> ''POST'' then send_json 405 (error_body ''Method not allowed'') empty_response
      else
        (case rreq_form req of
           Inl m \<Rightarrow> parse_fail m
         | Inr None \<Rightarrow> send_json 400 (error_body ''No file uploaded'') empty_response
         | Inr (Some f) \<Rightarrow>
             (let mt = js_or (uf_mimetype f) [] in
              if mt \<notin> set [pdf_mime, docx_mime]
              then send_json 400 (error_body ''Invalid file type. Please upload PDF or DOCX files only.'')
                     empty_response
              else
                (case create_parser mt of
                   Inl m \<Rightarrow> parse_fail m
                 | Inr p \<Rightarrow>
                     (case parse_buffer d p (uf_contents f) of
                        Inl m \<Rightarrow> parse_fail m
                      | Inr rd \<Rightarrow> send_json 200 (json_of_resume_partial rd) empty_response)))))"

section \<open>Lemmas\<close>

subsection \<open>Characters\<close>

lemma set_trim: "set (trim s) \<subseteq> set s"
  unfolding trim_def by (auto dest!: set_dropWhileD)

lemma lower_char_fixed: "lower_char d = c \<Longrightarrow> c \<notin> set lower_letters \<Longrightarrow> d = c"
  by (auto simp: lower_char_def dest: map_of_SomeD set_zip_rightD split: option.splits)

lemma last_to_lower: "w \<noteq> [] \<Longrightarrow> last (to_lower w) = lower_char (last w)"
  by (simp add: to_lower_def last_map)

lemma word_class_words: "is_word c \<Longrightarrow> class_match False False word_class c"
  by (auto simp: is_word_def is_upper_def is_lower_def is_digit_def class_match_def in_ranges_def
      word_class_def alnum_ranges_def alpha_ranges_def chr_set_def)

lemma str_includes_Nil [simp]: "str_includes s []"
  by (cases s) simp_all

subsection \<open>The keyword fallback\<close>

lemma word_rx_unfold: "word_rx = RSeq RWordB (RSeq (RRep (RClass False word_class) 1 None True) RWordB)"
  by (simp add: word_rx_def rplus_def)

text \<open>Every word the global word match returns ends on a word character.\<close>

lemma words_end_in_word_char:
  assumes "w \<in> set (rx_match_all False word_rx t)"
  shows "w \<noteq> [] \<and> is_word (last w)"
proof -
  obtain q u c' cs xs where hd: "ms False word_rx (q, u) [] = (c', cs) # xs"
      and w: "w = take (length u - length (snd c')) u"
    using match_all_heads assms unfolding rx_match_all_def by blast
  obtain k where k: "0 < k" "k \<le> length u" "c' = adv q u k" "is_word (u ! (k - 1))"
    using wordb_plus_first [OF word_class_words hd [unfolded word_rx_unfold]] by blast
  then have w': "w = take k u" using w by (simp add: adv_def)
  with k have ne: "w \<noteq> []" by auto
  with k w' have "last w = u ! (k - 1)" by (simp add: last_conv_nth min_def)
  with ne k show ?thesis by simp
qed

lemma keyword_hits_no_cpp:
  assumes "k \<in> set (keyword_hits w)" and "w \<noteq> []" and "is_word (last w)"
  shows "k \<noteq> ''C++'' \<and> k \<noteq> ''C#''"
proof -
  have nw: "\<not> is_word CHR ''+''" "\<not> is_word CHR ''#''" by (simp_all add: is_word_def js_eval is_upper_def is_lower_def)
  have nl: "CHR ''+'' \<notin> set lower_letters" "CHR ''#'' \<notin> set lower_letters" by (simp_all add: lower_letters_def)
  have "w = k \<or> to_lower w = to_lower k" using assms(1) by (simp add: keyword_hits_def)
  then show ?thesis
  proof
    assume "w = k" with assms(3) nw show ?thesis by auto
  next
    assume eq: "to_lower w = to_lower k"
    have lw: "last (to_lower w) = lower_char (last w)" using assms(2) by (rule last_to_lower)
    have l1: "to_lower ''C++'' = ''c++''" "to_lower ''C#'' = ''c#''" by (simp_all add: js_eval)
    show ?thesis
    proof (intro conjI notI)
      assume "k = ''C++''"
      with eq l1 lw have "lower_char (last w) = CHR ''+''" by simp
      then have "last w = CHR ''+''" using nl(1) by (rule lower_char_fixed)
      with assms(3) nw(1) show False by simp
    next
      assume "k = ''C#''"
      with eq l1 lw have "lower_char (last w) = CHR ''#''" by simp
      then have "last w = CHR ''#''" using nl(2) by (rule lower_char_fixed)
      with assms(3) nw(2) show False by simp
    qed
  qed
qed

lemma using_prefix_chars: "s \<in> set (using_skills m) \<Longrightarrow> set s \<subseteq> set m"
  unfolding using_skills_def
  using rx_split_chars rx_replace_chars [of True using_prefix_rx "[]" m] set_trim by fastforce

lemma using_rx_rejects: "\<not> accepts True using_rx CHR ''+''" "\<not> accepts True using_rx CHR ''#''"
  by (simp_all add: using_rx_def using_class_def chr_set_def rx_eval js_eval is_upper_def is_lower_def)

lemma experience_skills_chars:
  assumes "s \<in> set (experience_skills text)"
  shows "CHR ''+'' \<notin> set s \<and> CHR ''#'' \<notin> set s"
proof -
  obtain mm m where "rx_match True exp_section_rx text = Some mm" "m \<in> set (rx_match_all True using_rx (fst mm))"
      "s \<in> set (using_skills m)"
    using assms by (cases "rx_match True exp_section_rx text") (auto simp: experience_skills_def split: if_splits)
  then have "list_all (accepts True using_rx) m" "set s \<subseteq> set m"
    by (auto simp: rx_match_all_def intro: match_all_accepts dest: using_prefix_chars)
  then show ?thesis using using_rx_rejects by (auto simp: list_all_iff)
qed

lemma foldl_set_add_all_set:
  "set (foldl (\<lambda>acc w. set_add_all acc (f w)) a ws) = set a \<union> (\<Union>w \<in> set ws. set (f w))"
  by (induction ws arbitrary: a) (auto simp: set_set_add_all)

lemma set_fallback_skills:
  "set (fallback_skills text) =
     (\<Union>w \<in> set (rx_match_all False word_rx text). set (keyword_hits w))
     \<union> set (filter (\<lambda>p. str_includes text p) tech_phrases) \<union> set (experience_skills text)"
  by (simp add: fallback_skills_def set_set_add_all foldl_set_add_all_set)

section \<open>Properties\<close>

text \<open>
  (C29)
  When the resume has no usable skills section, the keyword fallback never reports
  \<open>C++\<close> or \<open>C#\<close>, although both are in its keyword list: the word pattern
  \<open>\b[A-Za-z0-9.+_-]+\b\<close> ends every word on a word character (so \<open>C++\<close> is read as
  \<open>C\<close>), no phrase contains them, and the \<open>using X\<close> class admits neither \<open>+\<close> nor
  \<open>#\<close>.
\<close>

theorem extract_skills_no_cpp_csharp:
  assumes "degenerate_skills (section_skills text)"
  shows "''C++'' \<notin> set (extract_skills text) \<and> ''C#'' \<notin> set (extract_skills text)"
proof -
  have sk: "extract_skills text = fallback_skills text"
    using assms by (simp add: extract_skills_def)
  have words: "k \<noteq> ''C++'' \<and> k \<noteq> ''C#''"
    if "w \<in> set (rx_match_all False word_rx text)" "k \<in> set (keyword_hits w)" for w k
    using keyword_hits_no_cpp [OF that(2)] words_end_in_word_char [OF that(1)] by blast
  have phrases: "''C++'' \<notin> set tech_phrases" "''C#'' \<notin> set tech_phrases"
    by (simp_all add: tech_phrases_def)
  have exp: "''C++'' \<notin> set (experience_skills text)" "''C#'' \<notin> set (experience_skills text)"
    using experience_skills_chars by fastforce+
  show ?thesis
    unfolding sk set_fallback_skills using words phrases exp by auto
qed

theorem extract_skills_no_cpp_csharp_witness:
  "degenerate_skills (section_skills ''Bob\<newline>Knows C++ and C#.'')
   \<and> ''C++'' \<notin> set (extract_skills ''Bob\<newline>Knows C++ and C#.'')
   \<and> ''C#'' \<notin> set (extract_skills ''Bob\<newline>Knows C++ and C#.'')"
proof -
  have d: "degenerate_skills (section_skills ''Bob\<newline>Knows C++ and C#.'')"
    by (simp add: degenerate_skills_def section_skills_def skills_patterns_def section_rx_def
        skills_stops_def nl_def rx_eval js_eval)
  show ?thesis using d extract_skills_no_cpp_csharp [OF d] by blast
qed

text \<open>
  (C30)
  What the client of \<open>/api/parse-resume\<close> receives, on every branch: 405 for a method
  other than POST, 500 when the upload cannot be parsed or decoding fails, 400 without a
  file or with a type other than PDF and DOCX, and otherwise 200 with the extracted record
  of the decoded text.  The factory's unsupported-type error is never reached, since the
  handler checks the type first.
\<close>

theorem resume_handler_delivered:
  "delivered (resume_handler d req) =
     (if rreq_method req \<noteq> ''POST'' then Some (405, error_body ''Method not allowed'')
      else case rreq_form req of
        Inl m \<Rightarrow> Some (500, error_body (''Failed to parse resume: '' @ m))
      | Inr None \<Rightarrow> Some (400, error_body ''No file uploaded'')
      | Inr (Some f) \<Rightarrow>
          (let mt = js_or (uf_mimetype f) [] in
           if mt \<noteq> pdf_mime \<and> mt \<noteq> docx_mime
           then Some (400, error_body ''Invalid file type. Please upload PDF or DOCX files only.'')
           else case (if mt = pdf_mime then pdf_text d else docx_text d) (uf_contents f) of
                  Inl m \<Rightarrow> Some (500, error_body (''Failed to parse resume: '' @ m))
                | Inr t \<Rightarrow> Some (200, json_of_resume_partial (extract_resume_data t))))"
  by (auto simp: resume_handler_def parse_fail_def create_parser_def parse_buffer_def Let_def
        empty_response_def delivered_def send_json_def pdf_mime_def docx_mime_def
        split: sum.split option.split)

text \<open>
  (C36)
  An education entry without a degree line always gets the field \<open>Unknown Field\<close>: the
  field is the first line that includes neither the institution line nor \<open>degreeLine
  || ''\<close>, and every line includes the empty string.
\<close>

theorem education_entry_unknown_field:
  assumes "find (rx_test True degree_rx) (lines_of e) = None"
  shows "edu_field (education_entry e) = ''Unknown Field''"
proof -
  have "find (\<lambda>line. \<not> str_includes line x \<and> \<not> str_includes line (js_or None [])) ls = None" for x ls
    by (simp add: js_or_def find_None_iff)
  then show ?thesis
    using assms by (simp add: education_entry_def Let_def js_or_def split: prod.split)
qed

theorem education_entry_unknown_field_witness:
  "find (rx_test True degree_rx) (lines_of ''Stanford University\<newline>Computer Science'') = None
   \<and> edu_field (education_entry ''Stanford University\<newline>Computer Science'') = ''Unknown Field''"
proof -
  have f: "find (rx_test True degree_rx) (lines_of ''Stanford University\<newline>Computer Science'') = None"
    by code_simp
  show ?thesis using f education_entry_unknown_field [OF f] by blast
qed

text \<open>
  (C38)
  The keyword fallback examines at most one word per character of the text: every word of
  the global word match is non-empty.
\<close>

theorem word_count_bound: "length (rx_match_all False word_rx text) \<le> length text"
  unfolding rx_match_all_def
  by (rule match_all_nonempty_length) (use words_end_in_word_char in \<open>auto simp: rx_match_all_def\<close>)

end
