(* ===== verification/Store.thy ===== *)
theory Store
  imports Resume Scholar
begin

text \<open>
  The Redux store of \<open>src/src/redux\<close>: the three slices (\<open>resumeSlice\<close>,
  \<open>scholarSlice\<close>, \<open>projectsSlice\<close>) as reducers over the records of \<open>Types\<close>, the
  store that hands every action to every slice (\<open>store.ts\<close>), and the three thunks as
  the actions they dispatch.  A thunk's request is answered by the route it calls; the
  answer is a parameter (an error message, or the payload the route serialised).  The
  reachable states are those of any sequence of actions from the initial state: thunks run
  concurrently, so their actions interleave arbitrarily.
\<close>

section \<open>Actions\<close>

datatype action =
    SetFile "file_info option"
  | ClearResumeData
  | ParsePending
  | ParseFulfilled resume_partial
  | ParseRejected "string option"
  | SetProfileUrl string
  | ClearScholarData
  | FetchPending
  | FetchFulfilled scholar_partial
  | FetchRejected "string option"
  | ClearSuggestions
  | GeneratePending
  | GenerateFulfilled "project list"
  | GenerateRejected "string option"

section \<open>The slices\<close>

text \<open>
  \<open>{...state, ...action.payload}\<close>: a key the payload carries replaces the field, a key
  it leaves out (an \<open>undefined\<close> field is not serialised) keeps the old value.
\<close>

definition keep :: "'a option \<Rightarrow> 'a \<Rightarrow> 'a" where
  "keep x old = (case x of Some v \<Rightarrow> v | None \<Rightarrow> old)"

fun resume_reducer :: "resume_data \<Rightarrow> action \<Rightarrow> resume_data" where
  "resume_reducer s (SetFile f) = s\<lparr>rd_file := f\<rparr>"
| "resume_reducer s ClearResumeData = resume_initial"
| "resume_reducer s ParsePending = s\<lparr>rd_loading := True, rd_error := None\<rparr>"
| "resume_reducer s (ParseFulfilled p) =
     s\<lparr>rd_name := (case rp_name p of Some n \<Rightarrow> Some n | None \<Rightarrow> rd_name s),
       contact := rp_contact p, rd_skills := rp_skills p, education := rp_education p,
       experience := rp_experience p, rd_loading := False, rd_error := None\<rparr>"
| "resume_reducer s (ParseRejected m) = s\<lparr>rd_loading := False, rd_error := Some (js_or m ''Failed to parse resume'')\<rparr>"
| "resume_reducer s _ = s"

fun scholar_reducer :: "scholar_data \<Rightarrow> action \<Rightarrow> scholar_data" where
  "scholar_reducer s (SetProfileUrl u) = s\<lparr>profileUrl := u\<rparr>"
| "scholar_reducer s ClearScholarData = scholar_initial"
| "scholar_reducer s FetchPending = s\<lparr>sd_loading := True, sd_error := None\<rparr>"
| "scholar_reducer s (FetchFulfilled p) =
     s\<lparr>sd_name := (case sp_name p of Some n \<Rightarrow> Some n | None \<Rightarrow> sd_name s),
       profileUrl := keep (sp_profileUrl p) (profileUrl s),
       publications := keep (sp_publications p) (publications s),
       sd_citations := (case sp_citations p of Some c \<Rightarrow> Some c | None \<Rightarrow> sd_citations s),
       interests := keep (sp_interests p) (interests s), sd_loading := False, sd_error := None\<rparr>"
| "scholar_reducer s (FetchRejected m) =
     s\<lparr>sd_loading := False, sd_error := Some (js_or m ''Failed to fetch scholar data'')\<rparr>"
| "scholar_reducer s _ = s"

fun projects_reducer :: "projects_state \<Rightarrow> action \<Rightarrow> projects_state" where
  "projects_reducer s ClearSuggestions = projects_initial"
| "projects_reducer s GeneratePending = s\<lparr>ps_loading := True, ps_error := None\<rparr>"
| "projects_reducer s (GenerateFulfilled ps) = s\<lparr>ps_loading := False, suggestions := ps\<rparr>"
| "projects_reducer s (GenerateRejected m) =
     s\<lparr>ps_loading := False, ps_error := Some (js_or m ''Failed to generate project suggestions'')\<rparr>"
| "projects_reducer s _ = s"

section \<open>The store\<close>

record store =
  st_resume :: resume_data
  st_scholar :: scholar_data
  st_projects :: projects_state

definition store_initial :: store where
  "store_initial = \<lparr>st_resume = resume_initial, st_scholar = scholar_initial, st_projects = projects_initial\<rparr>"

definition dispatch :: "store \<Rightarrow> action \<Rightarrow> store" where
  "dispatch s a =
     \<lparr>st_resume = resume_reducer (st_resume s) a, st_scholar = scholar_reducer (st_scholar s) a,
      st_projects = projects_reducer (st_projects s) a\<rparr>"

inductive reachable :: "store \<Rightarrow> bool" where
  init: "reachable store_initial"
| step: "reachable s \<Longrightarrow> reachable (dispatch s a)"

section \<open>The thunks\<close>

text \<open>
  \<open>createAsyncThunk\<close> dispatches \<open>pending\<close>, runs the payload creator, then dispatches
  \<open>fulfilled\<close> with its result or \<open>rejected\<close> with the message of what it threw (a
  failed request throws axios' error).  The generation thunk reads the store when its
  payload creator runs.
\<close>

definition parse_resume_thunk :: "string + resume_partial \<Rightarrow> action list" where
  "parse_resume_thunk answer =
     [ParsePending, (case answer of Inl m \<Rightarrow> ParseRejected (Some m) | Inr p \<Rightarrow> ParseFulfilled p)]"

definition fetch_scholar_thunk :: "string \<Rightarrow> string + scholar_partial \<Rightarrow> action list" where
  "fetch_scholar_thunk url answer =
     [FetchPending,
      (if url = [] then FetchRejected (Some ''Profile URL is required'')
       else case answer of Inl m \<Rightarrow> FetchRejected (Some m) | Inr p \<Rightarrow> FetchFulfilled p)]"

definition generate_thunk_result :: "store \<Rightarrow> string + project list \<Rightarrow> action" where
  "generate_thunk_result s answer =
     (if rd_skills (st_resume s) = [] then GenerateRejected (Some ''Resume skills are required for project suggestions'')
      else case answer of Inl m \<Rightarrow> GenerateRejected (Some m) | Inr ps \<Rightarrow> GenerateFulfilled ps)"

definition run_actions :: "store \<Rightarrow> action list \<Rightarrow> store" where
  "run_actions s as = foldl dispatch s as"

section \<open>Lemmas\<close>

lemma run_actions_reachable: "reachable s \<Longrightarrow> reachable (run_actions s as)"
  unfolding run_actions_def by (induction as arbitrary: s) (auto intro: reachable.step)

lemma run_actions_append: "run_actions s (as @ bs) = run_actions (run_actions s as) bs"
  by (simp add: run_actions_def)

lemma dispatch_fields [simp]:
  "st_resume (dispatch s a) = resume_reducer (st_resume s) a"
  "st_scholar (dispatch s a) = scholar_reducer (st_scholar s) a"
  "st_projects (dispatch s a) = projects_reducer (st_projects s) a"
  by (simp_all add: dispatch_def)

text \<open>
  (C33)
  The merge keeps what a later payload leaves out: a profile fetched after another, whose
  total is 0 so that the route sends no \<open>citations\<close>, is shown with the citation
  metrics of the earlier profile.
\<close>

lemma stale_citations:
  assumes "sp_citations p1 = Some c" and "sp_citations p2 = None"
  shows "sd_citations (scholar_reducer (scholar_reducer s (FetchFulfilled p1)) (FetchFulfilled p2)) = Some c"
  using assms by simp

lemma stale_citations_witness:
  "sp_citations \<lparr>sp_name = None, sp_profileUrl = None, sp_publications = None,
          sp_citations = Some \<lparr>total = Num 5, h_index = None, i10_index = None\<rparr>, sp_interests = None\<rparr> = Some (\<lparr>total = Num 5, h_index = None, i10_index = None\<rparr>) \<and> sp_citations \<lparr>sp_name = None, sp_profileUrl = None, sp_publications = None, sp_citations = None,
          sp_interests = None\<rparr> = None
   \<and> sd_citations (scholar_reducer (scholar_reducer scholar_initial (FetchFulfilled \<lparr>sp_name = None, sp_profileUrl = None, sp_publications = None,
          sp_citations = Some \<lparr>total = Num 5, h_index = None, i10_index = None\<rparr>, sp_interests = None\<rparr>)) (FetchFulfilled \<lparr>sp_name = None, sp_profileUrl = None, sp_publications = None, sp_citations = None,
          sp_interests = None\<rparr>)) =
       Some (\<lparr>total = Num 5, h_index = None, i10_index = None\<rparr>)"
  using stale_citations [of "\<lparr>sp_name = None, sp_profileUrl = None, sp_publications = None,
          sp_citations = Some \<lparr>total = Num 5, h_index = None, i10_index = None\<rparr>, sp_interests = None\<rparr>" "\<lparr>total = Num 5, h_index = None, i10_index = None\<rparr>" "\<lparr>sp_name = None, sp_profileUrl = None, sp_publications = None, sp_citations = None,
          sp_interests = None\<rparr>" scholar_initial] by simp


section \<open>Properties\<close>

text \<open>
  (C40)
  In every state the store can reach, under any interleaving of the thunks' actions and the
  user's, a slice that shows an error is not loading: each \<open>pending\<close> clears the error
  and every action that records an error also clears the loading flag.
\<close>

theorem reachable_error_not_loading:
  assumes "reachable s"
  shows "(rd_error (st_resume s) \<noteq> None \<longrightarrow> \<not> rd_loading (st_resume s)) \<and>
         (sd_error (st_scholar s) \<noteq> None \<longrightarrow> \<not> sd_loading (st_scholar s)) \<and>
         (ps_error (st_projects s) \<noteq> None \<longrightarrow> \<not> ps_loading (st_projects s))"
  using assms
proof (induction rule: reachable.induct)
  case init
  then show ?case
    by (simp add: store_initial_def resume_initial_def scholar_initial_def projects_initial_def)
next
  case (step s a)
  then show ?case
    by (cases a) (simp_all add: resume_initial_def scholar_initial_def projects_initial_def)
qed

theorem reachable_error_not_loading_witness:
  "reachable (run_actions store_initial (parse_resume_thunk (Inl ''Request failed with status code 400'')))
   \<and> rd_error (st_resume (run_actions store_initial (parse_resume_thunk (Inl ''Request failed with status code 400'')))) =
       Some ''Request failed with status code 400''
   \<and> \<not> rd_loading (st_resume (run_actions store_initial (parse_resume_thunk (Inl ''Request failed with status code 400''))))"
proof -
  have r: "reachable (run_actions store_initial (parse_resume_thunk (Inl ''Request failed with status code 400'')))"
    by (rule run_actions_reachable [OF reachable.init])
  have e: "rd_error (st_resume (run_actions store_initial (parse_resume_thunk (Inl ''Request failed with status code 400'')))) =
             Some ''Request failed with status code 400''"
    by (simp add: run_actions_def parse_resume_thunk_def js_or_def)
  show ?thesis using r e reachable_error_not_loading [OF r] by simp
qed

end
