(* ===== verification/Client.thy ===== *)
theory Client
  imports Store
begin

text \<open>
  The client side: the TypeScript types of \<open>src/src/types/index.ts\<close> as a checker on JSON
  values (what the slices assume when they take a route's answer as a
  \<open>Partial<ResumeData>\<close>, a \<open>Partial<ScholarData>\<close> or a \<open>Project[]\<close>), and the event
  handlers of the React components (\<open>ScholarProfileInput\<close>, \<open>ResumeUploader\<close>,
  \<open>ProjectSuggestions\<close>) as the actions they dispatch, with the guards that decide
  whether they dispatch at all.
\<close>

section \<open>TypeScript types of the answers\<close>

text \<open>
  A type is a primitive, an array, an object with its fields (name, optional, type), a
  union, a string literal, or a class such as \<open>File\<close> that no JSON value has.  An
  object value has the type when every field it must carry is present, every field it
  carries is declared, and every present field has its type.
\<close>

datatype ts_type =
    TsString
  | TsNumber
  | TsBoolean
  | TsNull
  | TsArray ts_type
  | TsObject "(string \<times> bool \<times> ts_type) list"
  | TsUnion ts_type ts_type
  | TsLiteral string
  | TsClass string

fun has_type :: "ts_type \<Rightarrow> json \<Rightarrow> bool"
and has_fields :: "(string \<times> bool \<times> ts_type) list \<Rightarrow> (string \<times> json) list \<Rightarrow> bool" where
  "has_type TsString v = (case v of JStr _ \<Rightarrow> True | _ \<Rightarrow> False)"
| "has_type TsNumber v = (case v of JNum _ \<Rightarrow> True | _ \<Rightarrow> False)"
| "has_type TsBoolean v = (case v of JBool _ \<Rightarrow> True | _ \<Rightarrow> False)"
| "has_type TsNull v = (v = JNull)"
| "has_type (TsArray t) v = (case v of JArr vs \<Rightarrow> list_all (has_type t) vs | _ \<Rightarrow> False)"
| "has_type (TsObject fs) v =
     (case v of JObj kvs \<Rightarrow> has_fields fs kvs \<and> list_all (\<lambda>kv. fst kv \<in> set (map fst fs)) kvs
              | _ \<Rightarrow> False)"
| "has_type (TsUnion t u) v = (has_type t v \<or> has_type u v)"
| "has_type (TsLiteral s) v = (v = JStr s)"
| "has_type (TsClass c) v = False"
| "has_fields [] kvs = True"
| "has_fields ((k, opt, t) # fs) kvs =
     ((case map_of kvs k of None \<Rightarrow> opt | Some x \<Rightarrow> has_type t x) \<and> has_fields fs kvs)"

text \<open>\<open>Partial<T>\<close>: every field of the object type optional.\<close>

definition ts_partial :: "ts_type \<Rightarrow> ts_type" where
  "ts_partial t = (case t of TsObject fs \<Rightarrow> TsObject (map (\<lambda>(k, _, u). (k, True, u)) fs) | _ \<Rightarrow> t)"

definition education_ty :: ts_type where
  "education_ty =
     TsObject [(''institution'', False, TsString), (''degree'', False, TsString), (''field'', False, TsString),
               (''startDate'', True, TsString), (''endDate'', True, TsString)]"

definition work_experience_ty :: ts_type where
  "work_experience_ty =
     TsObject [(''company'', False, TsString), (''position'', False, TsString), (''startDate'', True, TsString),
               (''endDate'', True, TsString), (''description'', True, TsString)]"

definition contact_ty :: ts_type where
  "contact_ty =
     TsObject [(''email'', True, TsString), (''phone'', True, TsString), (''location'', True, TsString),
               (''linkedin'', True, TsString), (''website'', True, TsString)]"

definition resume_data_ty :: ts_type where
  "resume_data_ty =
     TsObject [(''name'', True, TsString), (''contact'', False, contact_ty), (''summary'', True, TsString),
               (''education'', False, TsArray education_ty), (''experience'', False, TsArray work_experience_ty),
               (''skills'', False, TsArray TsString), (''loading'', False, TsBoolean),
               (''error'', False, TsUnion TsString TsNull), (''file'', False, TsUnion (TsClass ''File'') TsNull)]"

definition publication_ty :: ts_type where
  "publication_ty =
     TsObject [(''title'', False, TsString), (''authors'', False, TsString), (''journal'', True, TsString),
               (''year'', True, TsString), (''citations'', True, TsNumber), (''url'', True, TsString)]"

definition project_ty :: ts_type where
  "project_ty =
     TsObject [(''id'', False, TsString), (''title'', False, TsString), (''description'', False, TsString),
               (''category'', False, TsString), (''skills'', False, TsArray TsString),
               (''relatedPublications'', True, TsArray publication_ty),
               (''difficulty'', False,
                  TsUnion (TsLiteral ''Beginner'') (TsUnion (TsLiteral ''Intermediate'') (TsLiteral ''Advanced'')))]"



section \<open>ScholarProfileInput\<close>

text \<open>
  \<open>/^https:\/\/scholar\.google\.(com|co\.[a-z]{2})\/citations\?user=.+$/i\<close>.  The dot
  matches any character but a line terminator (\<open>\n\<close>, \<open>\r\<close>; the two Unicode
  separators have no single-byte form).
\<close>

definition r_dot :: rx where
  "r_dot = RClass True [(CHR 0x0A, CHR 0x0A), (CHR 0x0D, CHR 0x0D)]"

definition scholar_url_rx :: rx where
  "scholar_url_rx =
     rseqs [RBegin, rstr ''https://scholar.google.'',
            RGroup 1 (RAlt (rstr ''com'') (rseqs [rstr ''co.'', RRep (RClass False [(CHR ''a'', CHR ''z'')]) 2 (Some 2) True])),
            rstr ''/citations?user='', rplus r_dot, REnd]"

definition validate_url :: "string \<Rightarrow> bool" where
  "validate_url url = rx_test True scholar_url_rx url"

text \<open>
  \<open>handleSubmit\<close>: an invalid URL raises an alert (the \<open>Inl\<close> message) and dispatches
  nothing; a valid one stores the URL and runs \<open>fetchScholarData\<close>, whose request gets
  the answer given.  The button is disabled while the input is empty or a fetch is
  loading.
\<close>

definition profile_submit :: "string \<Rightarrow> string + scholar_partial \<Rightarrow> string + action list" where
  "profile_submit input answer =
     (if validate_url input then Inr (SetProfileUrl input # fetch_scholar_thunk input answer)
      else Inl ''Please enter a valid Google Scholar profile URL'')"

definition profile_submit_enabled :: "string \<Rightarrow> store \<Rightarrow> bool" where
  "profile_submit_enabled input s = (input \<noteq> [] \<and> \<not> sd_loading (st_scholar s))"

section \<open>ResumeUploader\<close>

definition valid_upload_types :: "string list" where
  "valid_upload_types =
     [''application/pdf'', ''application/vnd.openxmlformats-officedocument.wordprocessingml.document'']"

definition max_upload_size :: nat where
  "max_upload_size = 10 * 1024 * 1024"

text \<open>
  \<open>onDrop\<close> receives the files the drop zone accepted; it checks the first one's type
  and size, alerting on a failure, and stores it otherwise.
\<close>

fun on_drop :: "file_info list \<Rightarrow> string + action list" where
  "on_drop [] = Inr []"
| "on_drop (f # _) =
     (if file_type f \<notin> set valid_upload_types then Inl ''Please upload a PDF or DOCX file''
      else if max_upload_size < file_size f then Inl ''File size should be less than 10MB''
      else Inr [SetFile (Some f)])"

definition resume_submit :: "store \<Rightarrow> string + resume_partial \<Rightarrow> action list" where
  "resume_submit s answer = (case rd_file (st_resume s) of None \<Rightarrow> [] | Some _ \<Rightarrow> parse_resume_thunk answer)"

definition resume_submit_enabled :: "store \<Rightarrow> bool" where
  "resume_submit_enabled s = (rd_file (st_resume s) \<noteq> None \<and> \<not> rd_loading (st_resume s))"

section \<open>ProjectSuggestions\<close>

definition has_resume_data :: "store \<Rightarrow> bool" where
  "has_resume_data s = (rd_skills (st_resume s) \<noteq> [])"

definition has_scholar_data :: "store \<Rightarrow> bool" where
  "has_scholar_data s = (publications (st_scholar s) \<noteq> [] \<or> interests (st_scholar s) \<noteq> [])"

text \<open>
  The generate button is rendered when the component is (some resume or scholar data),
  no suggestion is listed and nothing is loading; it is enabled when the resume has
  skills.  A click runs \<open>generateProjectSuggestions\<close>: \<open>pending\<close>, then the payload
  creator reads the store (after \<open>pending\<close>) and checks the skills.
\<close>

definition generate_enabled :: "store \<Rightarrow> bool" where
  "generate_enabled s =
     ((has_resume_data s \<or> has_scholar_data s) \<and> suggestions (st_projects s) = [] \<and>
      \<not> ps_loading (st_projects s) \<and> has_resume_data s)"

definition generate_click :: "store \<Rightarrow> string + project list \<Rightarrow> action list" where
  "generate_click s answer = [GeneratePending, generate_thunk_result (dispatch s GeneratePending) answer]"

section \<open>Lemmas on the types of the answers\<close>

lemma list_all_const_True [simp]: "list_all (\<lambda>_. True) xs"
  by (simp add: list_all_iff)

lemma has_fields_opt_field [simp]:
  "has_fields fs (opt_field k f v @ kvs) =
     has_fields fs ((case v of None \<Rightarrow> [] | Some x \<Rightarrow> [(k, f x)]) @ kvs)"
  by (simp add: opt_field_def)

lemma list_all_has_type_map:
  "list_all (has_type t) (map f xs) \<longleftrightarrow> list_all (\<lambda>x. has_type t (f x)) xs"
  by (simp add: list.pred_map comp_def)

lemma json_number_is_num:
  "(case json_of_number n of JNum _ \<Rightarrow> True | _ \<Rightarrow> False) \<longleftrightarrow> n \<noteq> NaN"
  by (cases n) simp_all

lemma education_json_typed: "has_type education_ty (json_of_education e)"
  by (cases "edu_startDate e"; cases "edu_endDate e")
     (simp_all add: education_ty_def json_of_education_def opt_field_def)

lemma experience_json_typed: "has_type work_experience_ty (json_of_experience x)"
  by (cases "exp_startDate x"; cases "exp_endDate x"; cases "exp_description x")
     (simp_all add: work_experience_ty_def json_of_experience_def opt_field_def)

lemma contact_json_typed:
  "has_type contact_ty (JObj (opt_field ''email'' JStr (email c) @ opt_field ''phone'' JStr (phone c)))"
  by (cases "email c"; cases "phone c") (simp_all add: contact_ty_def opt_field_def)

text \<open>
  A publication has its declared type exactly when its citation count is not \<open>NaN\<close>:
  \<open>JSON.stringify\<close> writes \<open>NaN\<close> as \<open>null\<close>, which is not a \<open>number\<close>.
\<close>

lemma publication_json_typed:
  "has_type publication_ty (json_of_publication p) \<longleftrightarrow> pub_citations p \<noteq> Some NaN"
  by (cases "pub_url p"; cases "journal p"; cases "pub_year p"; cases "pub_citations p")
     (auto simp: publication_ty_def json_of_publication_def opt_field_def json_number_is_num)

lemma publications_json_typed:
  "list_all (has_type publication_ty) (map json_of_publication ps) \<longleftrightarrow>
     list_all (\<lambda>q. pub_citations q \<noteq> Some NaN) ps"
  by (simp add: list_all_has_type_map publication_json_typed)



lemma project_json_typed:
  "has_type project_ty (json_of_project p) \<longleftrightarrow>
     (case relatedPublications p of None \<Rightarrow> True | Some ps \<Rightarrow> list_all (\<lambda>q. pub_citations q \<noteq> Some NaN) ps)"
  using publications_json_typed
  by (cases "relatedPublications p"; cases "difficulty p")
     (simp_all add: project_ty_def json_of_project_def opt_field_def list_all_has_type_map)

lemma validate_url_examples:
  "validate_url ''https://scholar.google.com/citations?user=ABC123''"
  "validate_url ''HTTPS://Scholar.Google.CO.UK/citations?user=x&hl=en''"
  "\<not> validate_url ''http://scholar.google.com/citations?user=ABC123''"
  "\<not> validate_url ''https://scholar.google.com/citations?user=''"
  "\<not> validate_url ''https://scholar.google.com.evil.io/citations?user=x''"
  "\<not> validate_url []"
  by code_simp+

text \<open>
  (C35)
  The component's check subsumes the thunk's: a URL the form accepts is never empty, so a
  submitted profile always reaches the network, and the request's answer decides the
  outcome.
\<close>

lemma profile_submit_valid:
  assumes "profile_submit input answer = Inr as"
  shows "as = [SetProfileUrl input, FetchPending,
               (case answer of Inl m \<Rightarrow> FetchRejected (Some m) | Inr p \<Rightarrow> FetchFulfilled p)]"
proof -
  have "validate_url input" using assms by (simp add: profile_submit_def split: if_splits)
  then have "input \<noteq> []" using validate_url_examples(6) by auto
  then show ?thesis
    using assms by (simp add: profile_submit_def fetch_scholar_thunk_def split: if_splits)
qed

lemma profile_submit_valid_witness:
  "profile_submit ''https://scholar.google.com/citations?user=ABC123'' (Inl ''down'') = Inr [SetProfileUrl ''https://scholar.google.com/citations?user=ABC123'', FetchPending, FetchRejected (Some ''down'')]
   \<and> [SetProfileUrl ''https://scholar.google.com/citations?user=ABC123'', FetchPending, FetchRejected (Some ''down'')] =
     [SetProfileUrl ''https://scholar.google.com/citations?user=ABC123'', FetchPending,
      (case (Inl ''down'' :: string + scholar_partial) of Inl m \<Rightarrow> FetchRejected (Some m) | Inr p \<Rightarrow> FetchFulfilled p)]"
proof -
  have h: "profile_submit ''https://scholar.google.com/citations?user=ABC123'' (Inl ''down'') = Inr [SetProfileUrl ''https://scholar.google.com/citations?user=ABC123'', FetchPending, FetchRejected (Some ''down'')]"
    by (simp add: profile_submit_def validate_url_examples(1) fetch_scholar_thunk_def)
  show ?thesis using profile_submit_valid [OF h] h by simp
qed

text \<open>
  (C37)
  A file the uploader stores has a type the route accepts and at most 10 MiB; the route
  itself has no size limit beyond \<open>formidable\<close>'s default.
\<close>

lemma on_drop_stored:
  assumes "on_drop fs = Inr as" and "SetFile (Some f) \<in> set as"
  shows "file_type f \<in> {pdf_mime, docx_mime} \<and> file_size f \<le> max_upload_size \<and> fs \<noteq> [] \<and> hd fs = f"
  using assms
  by (cases fs) (auto simp: valid_upload_types_def pdf_mime_def docx_mime_def split: if_splits)

lemma on_drop_stored_witness:
  "on_drop [\<lparr>file_name = ''cv.pdf'', file_type = ''application/pdf'', file_size = 1000\<rparr>] = Inr [SetFile (Some \<lparr>file_name = ''cv.pdf'', file_type = ''application/pdf'', file_size = 1000\<rparr>)] \<and> SetFile (Some \<lparr>file_name = ''cv.pdf'', file_type = ''application/pdf'', file_size = 1000\<rparr>) \<in> set [SetFile (Some \<lparr>file_name = ''cv.pdf'', file_type = ''application/pdf'', file_size = 1000\<rparr>)]
   \<and> file_type \<lparr>file_name = ''cv.pdf'', file_type = ''application/pdf'', file_size = 1000\<rparr> \<in> {pdf_mime, docx_mime} \<and> file_size \<lparr>file_name = ''cv.pdf'', file_type = ''application/pdf'', file_size = 1000\<rparr> \<le> max_upload_size"
  using on_drop_stored [of "[\<lparr>file_name = ''cv.pdf'', file_type = ''application/pdf'', file_size = 1000\<rparr>]" "[SetFile (Some \<lparr>file_name = ''cv.pdf'', file_type = ''application/pdf'', file_size = 1000\<rparr>)]" "\<lparr>file_name = ''cv.pdf'', file_type = ''application/pdf'', file_size = 1000\<rparr>"]
  by (simp add: valid_upload_types_def max_upload_size_def pdf_mime_def)

text \<open>
  (C39)
  The generate button is enabled only when the resume has skills, and \<open>pending\<close> does not
  change them, so a click never hits the thunk's own skills check.
\<close>

lemma generate_click_enabled:
  assumes "generate_enabled s"
  shows "generate_click s answer =
           [GeneratePending, (case answer of Inl m \<Rightarrow> GenerateRejected (Some m) | Inr ps \<Rightarrow> GenerateFulfilled ps)]"
  using assms
  by (simp add: generate_enabled_def has_resume_data_def generate_click_def generate_thunk_result_def)

lemma generate_click_enabled_witness:
  "generate_enabled (store_initial\<lparr>st_resume := resume_initial\<lparr>rd_skills := [''Python'']\<rparr>\<rparr>) \<and> generate_click (store_initial\<lparr>st_resume := resume_initial\<lparr>rd_skills := [''Python'']\<rparr>\<rparr>) (Inr []) = [GeneratePending, GenerateFulfilled []]"
  using generate_click_enabled [of "store_initial\<lparr>st_resume := resume_initial\<lparr>rd_skills := [''Python'']\<rparr>\<rparr>" "Inr []"]
  by (simp add: generate_enabled_def has_resume_data_def has_scholar_data_def store_initial_def
      projects_initial_def)

section \<open>Properties of the client\<close>

text \<open>
  (C20)
  Every request a thunk starts settles: whatever other actions are dispatched while it is
  in flight, once its answer arrives the slice it drives is no longer loading.  This holds
  for the resume upload, the profile fetch and the generation started by a click.
\<close>

theorem requests_settle:
  "\<not> rd_loading (st_resume (run_actions s (butlast (parse_resume_thunk a) @ xs @ [last (parse_resume_thunk a)]))) \<and>
   \<not> sd_loading (st_scholar (run_actions s (butlast (fetch_scholar_thunk u b) @ xs @ [last (fetch_scholar_thunk u b)]))) \<and>
   \<not> ps_loading (st_projects (run_actions s (butlast (generate_click s c) @ xs @ [last (generate_click s c)])))"
  by (simp add: run_actions_def parse_resume_thunk_def fetch_scholar_thunk_def generate_click_def
        generate_thunk_result_def split: sum.split)

text \<open>
  (C16)
  Every answer of \<open>/api/parse-resume\<close> with a parsed resume has the type the resume slice
  takes it at, \<open>Partial<ResumeData>\<close>: every field it carries is declared, with its
  declared type.
\<close>

theorem resume_answer_typed: "has_type (ts_partial resume_data_ty) (json_of_resume_partial p)"
  using contact_json_typed [of "rp_contact p"]
  by (cases "rp_name p")
     (simp_all add: ts_partial_def resume_data_ty_def json_of_resume_partial_def opt_field_def
        list_all_has_type_map education_json_typed experience_json_typed)

end
