(* ===== verification/Views.thy ===== *)
theory Views
  imports Client Recommend
begin

text \<open>
  What the page shows.  Each component of \<open>src/src/components\<close> and the page of
  \<open>src/src/pages/index.tsx\<close> is a function from the store (the slice it selects, and
  the component's own input state) to the element tree its JSX renders.  An element is a tag,
  its attributes and its children; class names are styling and left out, except where the
  code computes one.  A JSX child \<open>{x}\<close> renders nothing for \<open>undefined\<close>, \<open>null\<close>,
  \<open>false\<close> and the empty string, so \<open>{c && e}\<close> is \<open>e\<close> when \<open>c\<close> is truthy and nothing
  otherwise.  The store holds the values the routes produced; the client reads them after
  the JSON round trip, where a \<open>NaN\<close> count has become \<open>null\<close>.
\<close>

section \<open>Element trees\<close>

datatype node =
    Txt string
  | El string "(string \<times> string) list" "node list"
  | Spinner

abbreviation el :: "string \<Rightarrow> node list \<Rightarrow> node" where
  "el t ns \<equiv> El t [] ns"

definition guard_nodes :: "bool \<Rightarrow> node list \<Rightarrow> node list" where
  "guard_nodes b ns = (if b then ns else [])"

definition js_truthy :: "string option \<Rightarrow> bool" where
  "js_truthy x = (case x of Some v \<Rightarrow> v \<noteq> [] | None \<Rightarrow> False)"

definition text_of :: "string option \<Rightarrow> node list" where
  "text_of x = (case x of Some v \<Rightarrow> if v = [] then [] else [Txt v] | None \<Rightarrow> [])"

definition int_text :: "int \<Rightarrow> string" where
  "int_text i = (if i < 0 then CHR ''-'' # nat_digits (nat (- i)) else nat_digits (nat i))"

text \<open>A count as the client renders it: digits, or nothing for the \<open>null\<close> a \<open>NaN\<close> became.\<close>

fun number_nodes :: "js_number \<Rightarrow> node list" where
  "number_nodes (Num i) = [Txt (int_text i)]"
| "number_nodes NaN = []"

definition spinner_card :: "string \<Rightarrow> node list" where
  "spinner_card title = [el ''div'' [el ''h2'' [Txt title], el ''div'' [Spinner]]]"

definition section_node :: "string \<Rightarrow> node list \<Rightarrow> node" where
  "section_node heading items = el ''div'' [el ''h3'' [Txt heading], el ''div'' items]"

section \<open>ResumeParsingOutput\<close>

definition contact_nodes :: "contact \<Rightarrow> node list" where
  "contact_nodes c =
     guard_nodes (js_truthy (email c)) [el ''p'' (Txt ''Email: '' # text_of (email c))]
     @ guard_nodes (js_truthy (phone c)) [el ''p'' (Txt ''Phone: '' # text_of (phone c))]
     @ guard_nodes (js_truthy (location c)) [el ''p'' (Txt ''Location: '' # text_of (location c))]
     @ guard_nodes (js_truthy (linkedin c))
         [el ''p'' [Txt ''LinkedIn:'', Txt '' '', El ''a'' [(''href'', js_or (linkedin c) [])] (text_of (linkedin c))]]"

definition date_range_nodes :: "string option \<Rightarrow> string option \<Rightarrow> node list" where
  "date_range_nodes s e =
     guard_nodes (js_truthy s \<and> js_truthy e)
       [el ''span'' ([Txt ('' '' @ bullet @ '' '')] @ text_of s @ [Txt '' - ''] @ text_of e)]"

definition education_card :: "education \<Rightarrow> node" where
  "education_card e =
     el ''div'' [el ''p'' [Txt (edu_institution e)],
                 el ''p'' ([Txt (edu_degree e), Txt '' in '', Txt (edu_field e)]
                          @ date_range_nodes (edu_startDate e) (edu_endDate e))]"

definition experience_card :: "work_experience \<Rightarrow> node" where
  "experience_card x =
     el ''div'' ([el ''p'' [Txt (exp_company x)],
                  el ''p'' (Txt (exp_position x) # date_range_nodes (exp_startDate x) (exp_endDate x))]
                 @ guard_nodes (js_truthy (exp_description x)) [el ''p'' (text_of (exp_description x))])"

definition resume_view :: "resume_data \<Rightarrow> node list" where
  "resume_view d =
     (if rd_loading d then spinner_card ''Resume Data''
      else if js_truthy (rd_name d) \<or> rd_skills d \<noteq> [] then
        [el ''div''
          ([el ''h2'' [Txt ''Parsed Resume Data'']]
           @ guard_nodes (js_truthy (rd_name d))
               [el ''div'' [el ''h3'' (text_of (rd_name d)), el ''div'' (contact_nodes (contact d))]]
           @ guard_nodes (js_truthy (summary d))
               [el ''div'' [el ''h3'' [Txt ''Summary''], el ''p'' (text_of (summary d))]]
           @ guard_nodes (rd_skills d \<noteq> [])
               [section_node ''Skills'' (map (\<lambda>k. el ''span'' [Txt k]) (rd_skills d))]
           @ guard_nodes (education d \<noteq> [])
               [el ''div'' (el ''h3'' [Txt ''Education''] # map education_card (education d))]
           @ guard_nodes (experience d \<noteq> [])
               [el ''div'' (el ''h3'' [Txt ''Work Experience''] # map experience_card (experience d))])]
      else [])"

section \<open>ScholarDataOutput\<close>

definition metric_box :: "string \<Rightarrow> node list \<Rightarrow> node" where
  "metric_box label v = el ''div'' [el ''p'' [Txt label], el ''p'' v]"

definition publication_card :: "publication \<Rightarrow> node" where
  "publication_card p =
     el ''div''
       [el ''h4'' (if js_truthy (pub_url p) then [El ''a'' [(''href'', js_or (pub_url p) [])] [Txt (pub_title p)]]
                  else [Txt (pub_title p)]),
        el ''p'' [Txt (authors p)],
        el ''div'' (el ''span'' (text_of (journal p) @ [Txt '' '']
                                 @ guard_nodes (js_truthy (pub_year p)) [Txt (''('' @ js_or (pub_year p) [] @ '')'')])
                    # (case pub_citations p of None \<Rightarrow> []
                       | Some c \<Rightarrow> [el ''span'' (Txt ''Citations: '' # number_nodes c)]))]"

definition metrics_nodes :: "citation_metrics \<Rightarrow> node list" where
  "metrics_nodes c =
     [el ''div'' [el ''h3'' [Txt ''Citation Metrics''],
                  el ''div'' ([metric_box ''Total Citations'' (number_nodes (total c))]
                              @ (case h_index c of None \<Rightarrow> [] | Some h \<Rightarrow> [metric_box ''h-index'' (number_nodes h)])
                              @ (case i10_index c of None \<Rightarrow> [] | Some i \<Rightarrow> [metric_box ''i10-index'' (number_nodes i)]))]]"

definition publications_nodes :: "publication list \<Rightarrow> node list" where
  "publications_nodes ps =
     map publication_card (take 5 ps)
     @ guard_nodes (5 < length ps) [el ''p'' [Txt ''Showing 5 of '', Txt (nat_digits (length ps)), Txt '' publications'']]"

definition scholar_view :: "scholar_data \<Rightarrow> node list" where
  "scholar_view d =
     (if sd_loading d then spinner_card ''Scholar Data''
      else if js_truthy (sd_name d) \<or> publications d \<noteq> [] \<or> interests d \<noteq> [] then
        [el ''div''
          ([el ''h2'' [Txt ''Google Scholar Data'']]
           @ guard_nodes (js_truthy (sd_name d)) [el ''div'' [el ''h3'' (text_of (sd_name d))]]
           @ (case sd_citations d of None \<Rightarrow> [] | Some c \<Rightarrow> metrics_nodes c)
           @ guard_nodes (interests d \<noteq> [])
               [section_node ''Research Interests'' (map (\<lambda>i. el ''span'' [Txt i]) (interests d))]
           @ guard_nodes (publications d \<noteq> [])
               [section_node ''Publications'' (publications_nodes (publications d))])]
      else [])"

section \<open>ProjectSuggestions\<close>

text \<open>\<open>difficultyColor\<close>: the badge's colour classes; the \<open>default\<close> branch is unreachable.\<close>

fun difficulty_color :: "difficulty \<Rightarrow> string" where
  "difficulty_color Beginner = ''bg-green-100 text-green-800''"
| "difficulty_color Intermediate = ''bg-yellow-100 text-yellow-800''"
| "difficulty_color Advanced = ''bg-red-100 text-red-800''"

fun difficulty_text :: "difficulty \<Rightarrow> string" where
  "difficulty_text Beginner = ''Beginner''"
| "difficulty_text Intermediate = ''Intermediate''"
| "difficulty_text Advanced = ''Advanced''"

definition project_card :: "project \<Rightarrow> node" where
  "project_card p =
     El ''div'' [(''key'', nat_digits (proj_id p))]
       [el ''div'' [el ''h3'' [Txt (proj_title p)],
                    el ''div'' [El ''span'' [(''class'', difficulty_color (difficulty p))] [Txt (difficulty_text (difficulty p))],
                                el ''span'' [Txt bullet], el ''span'' [Txt (category p)]]],
        el ''div''
          ([el ''p'' [Txt (description p)],
            el ''div'' [el ''h4'' [Txt ''Relevant Skills''], el ''div'' (map (\<lambda>k. el ''span'' [Txt k]) (proj_skills p))]]
           @ (case relatedPublications p of None \<Rightarrow> []
              | Some ps \<Rightarrow> guard_nodes (ps \<noteq> [])
                  [el ''div'' [el ''h4'' [Txt ''Related Publications''],
                               el ''ul'' (map (\<lambda>q. el ''li'' [Txt (pub_title q)]) ps)]]))]"

definition projects_view :: "store \<Rightarrow> node list" where
  "projects_view s =
     (if has_resume_data s \<or> has_scholar_data s then
        [el ''div''
          ([el ''h2'' [Txt ''Project Suggestions'']]
           @ guard_nodes (suggestions (st_projects s) = [] \<and> \<not> ps_loading (st_projects s))
               [el ''div''
                  [el ''p'' [Txt ''Generate project suggestions based on your resume skills and academic interests.''],
                   El ''button'' (if ps_loading (st_projects s) \<or> \<not> has_resume_data s then [(''disabled'', [])] else [])
                     [Txt (if ps_loading (st_projects s) then ''Generating Suggestions...'' else ''Generate Project Suggestions'')]]]
           @ guard_nodes (ps_loading (st_projects s)) [el ''div'' [Spinner]]
           @ guard_nodes (js_truthy (ps_error (st_projects s))) [el ''div'' (text_of (ps_error (st_projects s)))]
           @ guard_nodes (suggestions (st_projects s) \<noteq> []) [el ''div'' (map project_card (suggestions (st_projects s)))])]
      else [])"

section \<open>ResumeUploader and ScholarProfileInput\<close>

text \<open>
  The drop zone's own state (\<open>isDragActive\<close>) and the URL typed so far are the
  components' local state, passed as arguments.
\<close>

definition uploader_view :: "bool \<Rightarrow> resume_data \<Rightarrow> node list" where
  "uploader_view drag d =
     [el ''div''
        ([el ''h2'' [Txt ''Upload Your Resume''],
          el ''div'' [El ''input'' [(''type'', ''file'')] [],
                      el ''p'' [Txt (if drag then ''Drop the file here...''
                                     else ''Drag and drop your resume (PDF or DOCX), or click to select'')]]]
         @ (case rd_file d of None \<Rightarrow> [] | Some f \<Rightarrow> [el ''div'' [el ''p'' [Txt ''Selected file: '', Txt (file_name f)]]])
         @ guard_nodes (js_truthy (rd_error d)) [el ''div'' (text_of (rd_error d))]
         @ [El ''button'' (if rd_file d = None \<or> rd_loading d then [(''disabled'', [])] else [])
              [Txt (if rd_loading d then ''Parsing Resume...'' else ''Parse Resume'')]])]"

definition profile_input_view :: "string \<Rightarrow> scholar_data \<Rightarrow> node list" where
  "profile_input_view input d =
     [el ''div''
        ([el ''h2'' [Txt ''Google Scholar Profile''],
          el ''form''
            ([el ''div'' [el ''label'' [Txt ''Profile URL''],
                          El ''input'' [(''type'', ''url''), (''value'', input), (''required'', [])] [],
                          el ''p'' [Txt ''Example: https://scholar.google.com/citations?user=ABC123'']]]
             @ guard_nodes (js_truthy (sd_error d)) [el ''div'' (text_of (sd_error d))]
             @ [El ''button'' (if input = [] \<or> sd_loading d then [(''disabled'', [])] else [])
                  [Txt (if sd_loading d then ''Fetching Data...'' else ''Fetch Scholar Data'')]])]
         @ guard_nodes (profileUrl d \<noteq> [] \<and> \<not> sd_loading d \<and> \<not> js_truthy (sd_error d))
             [el ''div'' [Txt ''Profile data successfully fetched!'']])]"

section \<open>Layout and the page\<close>

text \<open>The footer's year is \<open>new Date().getFullYear()\<close>, a parameter.\<close>

definition layout :: "string \<Rightarrow> nat \<Rightarrow> node list \<Rightarrow> node list" where
  "layout title year children =
     [el ''head'' [el ''title'' [Txt title]],
      el ''div''
        [el ''header'' [el ''div'' [el ''div'' [El ''a'' [(''href'', ''/'')] [el ''span'' [Txt ''ScholarSync'']],
                                                el ''p'' [Txt ''Combine your professional and academic profiles'']],
                                    el ''nav'' [el ''ul'' [el ''li'' [El ''a'' [(''href'', ''/'')] [Txt ''Home'']],
                                                          el ''li'' [El ''a'' [(''href'', ''/about'')] [Txt ''About'']]]]]],
         el ''main'' children,
         el ''footer'' [el ''div'' [el ''p'' [Txt (CHR 0xC2 # CHR 0xA9 # '' ''), Txt (nat_digits year),
                                             Txt '' ScholarSync. All rights reserved.'']]]]]"

definition home_view :: "nat \<Rightarrow> bool \<Rightarrow> string \<Rightarrow> store \<Rightarrow> node list" where
  "home_view year drag input s =
     layout ''ScholarSync - Home'' year
       [el ''div'' (uploader_view drag (st_resume s) @ profile_input_view input (st_scholar s)),
        el ''div'' (resume_view (st_resume s) @ scholar_view (st_scholar s)),
        el ''div'' (projects_view s)]"

section \<open>Reading a view\<close>

text \<open>
  What a reader finds under a heading: every \<open><div><h3>heading</h3><div>items</div></div>\<close>
  of the tree, in document order, and the texts of the single-text \<open>span\<close>s among items.
\<close>

fun h3_label :: "node \<Rightarrow> string option" where
  "h3_label (El h _ [Txt lbl]) = (if h = ''h3'' then Some lbl else None)"
| "h3_label _ = None"

fun div_items :: "node \<Rightarrow> node list option" where
  "div_items (El d _ items) = (if d = ''div'' then Some items else None)"
| "div_items _ = None"

definition section_at :: "string \<Rightarrow> node list \<Rightarrow> (string \<times> node list) list" where
  "section_at t ns =
     (case ns of [a, b] \<Rightarrow>
        (case (h3_label a, div_items b) of
           (Some lbl, Some items) \<Rightarrow> if t = ''div'' then [(lbl, items)] else []
         | _ \<Rightarrow> [])
      | _ \<Rightarrow> [])"

fun sections :: "node \<Rightarrow> (string \<times> node list) list"
and sections_list :: "node list \<Rightarrow> (string \<times> node list) list" where
  "sections (Txt _) = []"
| "sections Spinner = []"
| "sections (El t a ns) = section_at t ns @ sections_list ns"
| "sections_list [] = []"
| "sections_list (n # ns) = sections n @ sections_list ns"

definition view_items :: "string \<Rightarrow> node list \<Rightarrow> node list" where
  "view_items h ns = concat (map snd (filter (\<lambda>(h', _). h' = h) (sections_list ns)))"

fun span_text :: "node \<Rightarrow> string list" where
  "span_text (El t _ [Txt k]) = (if t = ''span'' then [k] else [])"
| "span_text _ = []"

definition span_texts :: "node list \<Rightarrow> string list" where
  "span_texts ns = concat (map span_text ns)"

text \<open>The text content of a tree, in document order.\<close>

fun node_texts :: "node \<Rightarrow> string list"
and node_texts_list :: "node list \<Rightarrow> string list" where
  "node_texts (Txt x) = [x]"
| "node_texts Spinner = []"
| "node_texts (El _ _ ns) = node_texts_list ns"
| "node_texts_list [] = []"
| "node_texts_list (n # ns) = node_texts n @ node_texts_list ns"

section \<open>Lemmas on the views\<close>

lemma h3_label_other [simp]: "h \<noteq> ''h3'' \<Longrightarrow> h3_label (El h a c) = None"
  by (cases "El h a c" rule: h3_label.cases) auto

lemma section_at_other [simp]:
  "t \<noteq> ''div'' \<Longrightarrow> section_at t ns = []"
  "h \<noteq> ''h3'' \<Longrightarrow> section_at t (El h a c # ns) = []"
  "section_at t (Txt x # ns) = []"
  "section_at t (Spinner # ns) = []"
  "section_at t [] = []"
  "section_at t [n] = []"
  "section_at t (n1 # n2 # n3 # ns) = []"
  by (simp_all add: section_at_def split: list.split option.split)

lemma span_text_other [simp]: "t \<noteq> ''span'' \<Longrightarrow> span_text (El t a ns) = []"
  by (cases "El t a ns" rule: span_text.cases) auto

lemma sections_list_append [simp]: "sections_list (xs @ ys) = sections_list xs @ sections_list ys"
  by (induction xs) simp_all

lemma sections_guard [simp]: "sections_list (guard_nodes b ns) = (if b then sections_list ns else [])"
  by (simp add: guard_nodes_def)

lemma span_texts_Nil [simp]: "span_texts [] = []"
  by (simp add: span_texts_def)

lemma span_texts_append [simp]: "span_texts (xs @ ys) = span_texts xs @ span_texts ys"
  by (simp add: span_texts_def)

lemma span_texts_guard [simp]: "span_texts (guard_nodes b ns) = (if b then span_texts ns else [])"
  by (simp add: guard_nodes_def span_texts_def)

lemma sections_text_of [simp]: "sections_list (text_of x) = []"
  by (simp add: text_of_def split: option.split)

lemma sections_number_nodes [simp]: "sections_list (number_nodes n) = []"
  by (cases n) simp_all

lemma sections_date_range [simp]: "sections_list (date_range_nodes s e) = []"
  by (simp add: date_range_nodes_def)

lemma sections_contact [simp]: "sections_list (contact_nodes c) = []"
  by (simp add: contact_nodes_def)

lemma section_at_h3 [simp]:
  "section_at t [El ''h3'' a [Txt l], El ''div'' b items] = (if t = ''div'' then [(l, items)] else [])"
  "section_at t [El ''h3'' a [], n] = []"
  "section_at t [El ''h3'' a c, El ''p'' b ns] = []"
  by (simp_all add: section_at_def split: option.split)

lemma section_at_spans [simp]: "section_at t (map (\<lambda>k. el ''span'' [Txt k]) ks) = []"
  by (cases ks) simp_all

lemma section_at_contact [simp]: "section_at t (contact_nodes c) = []"
  by (simp add: contact_nodes_def guard_nodes_def section_at_def split: list.split option.split)

lemma span_texts_contact [simp]: "span_texts (contact_nodes c) = []"
  by (simp add: contact_nodes_def span_texts_def guard_nodes_def)

lemma sections_education_cards [simp]: "sections_list (map education_card es) = []"
  by (induction es) (simp_all add: education_card_def)

lemma sections_experience_cards [simp]: "sections_list (map experience_card xs) = []"
  by (induction xs) (simp_all add: experience_card_def)

lemma sections_spans [simp]: "sections_list (map (\<lambda>k. el ''span'' [Txt k]) ks) = []"
  by (induction ks) simp_all

lemma span_texts_spans [simp]: "span_texts (map (\<lambda>k. el ''span'' [Txt k]) ks) = ks"
  by (induction ks) (simp_all add: span_texts_def)

lemma sections_publication_cards [simp]: "sections_list (map publication_card ps) = []"
  by (induction ps) (simp_all add: publication_card_def split: option.split)

lemma sections_publications_nodes [simp]: "sections_list (publications_nodes ps) = []"
  by (simp add: publications_nodes_def)

lemma section_at_heading_filter [simp]:
  "h \<noteq> k \<Longrightarrow> filter (\<lambda>(h', _). h' = k) (section_at t (El ''h3'' a [Txt h] # ns)) = []"
  by (simp add: section_at_def split: list.split option.split)

lemma view_items_append [simp]: "view_items h (xs @ ys) = view_items h xs @ view_items h ys"
  by (simp add: view_items_def)

lemma resume_view_skills:
  "span_texts (view_items ''Skills'' (resume_view d)) = (if rd_loading d then [] else rd_skills d)"
proof -
  have name: "span_texts (view_items ''Skills''
                [el ''div'' [el ''h3'' (text_of (rd_name d)), el ''div'' (contact_nodes (contact d))]]) = []"
    by (cases "rd_name d") (simp_all add: view_items_def text_of_def)
  show ?thesis
    using name
    by (auto simp: resume_view_def spinner_card_def section_node_def view_items_def guard_nodes_def)
qed

lemma sections_metrics [simp]:
  "sections_list (metrics_nodes c) =
     [(''Citation Metrics'', [metric_box ''Total Citations'' (number_nodes (total c))]
        @ (case h_index c of None \<Rightarrow> [] | Some h \<Rightarrow> [metric_box ''h-index'' (number_nodes h)])
        @ (case i10_index c of None \<Rightarrow> [] | Some i \<Rightarrow> [metric_box ''i10-index'' (number_nodes i)]))]"
  by (simp add: metrics_nodes_def metric_box_def split: option.split)

lemma publications_nodes_Nil [simp]: "publications_nodes [] = []"
  by (simp add: publications_nodes_def guard_nodes_def)

lemma section_at_publications [simp]: "section_at t (publications_nodes ps) = []"
  by (cases ps) (simp_all add: publications_nodes_def publication_card_def guard_nodes_def)

lemma scholar_view_publications_items:
  "view_items ''Publications'' (scholar_view d) = (if sd_loading d then [] else publications_nodes (publications d))"
  by (auto simp: scholar_view_def spinner_card_def section_node_def view_items_def guard_nodes_def
      split: option.split)

text \<open>
  React keys of the suggestion cards: \<open>key={project.id}\<close>, the decimal form of the
  identifier.  Distinct identifiers give distinct keys.
\<close>

definition card_keys :: "node list \<Rightarrow> string list" where
  "card_keys ns = concat (map (\<lambda>n. case n of El _ a _ \<Rightarrow> map snd (filter (\<lambda>(k, _). k = ''key'') a) | _ \<Rightarrow> []) ns)"

lemma project_card_keys:
  "card_keys (map project_card ps) = map (\<lambda>p. nat_digits (proj_id p)) ps"
  by (induction ps) (simp_all add: card_keys_def project_card_def)

lemma project_keys_distinct:
  "distinct (card_keys (map project_card ps)) \<longleftrightarrow> distinct (map proj_id ps)"
proof -
  have "inj_on nat_digits (set (map proj_id ps))"
    by (metis digits_value_nat_digits inj_on_inverseI)
  then show ?thesis
    using distinct_map [of nat_digits "map proj_id ps"] by (simp add: project_card_keys comp_def)
qed

lemma node_texts_list_append [simp]: "node_texts_list (xs @ ys) = node_texts_list xs @ node_texts_list ys"
  by (induction xs) simp_all

text \<open>
  A citation count that was \<open>NaN\<close> reaches the client as \<open>null\<close>; since
  \<open>null !== undefined\<close>, the card still shows the label, followed by nothing.
\<close>

lemma publication_card_nan:
  "pub_citations p = Some NaN \<Longrightarrow> last (node_texts (publication_card p)) = ''Citations: ''"
  by (simp add: publication_card_def)

text \<open>
  The suggestions the route answers with (the skills strategy, then the top-up) carry the
  identifiers \<open>u, u + 1, \<dots>\<close>, so the cards \<open>ProjectSuggestions\<close> renders from them
  have distinct React keys.
\<close>

lemma top_up_distinct_ids: "distinct (map proj_id (fst (top_up (generate_suggestions s rd sd u))))"
proof -
  have ids: "map proj_id (instantiate (strategy_templates s rd sd) (u::nat)) = [u..<u + length (strategy_templates s rd sd)]"
    by (rule ids_instantiate [OF stamps_id_strategy_templates])
  show ?thesis
    using ids by (simp add: generate_suggestions_eq top_up_def academic_website_project_def)
qed

text \<open>
  (C4)
  End to end, from the route to the screen: the suggestions the generate-suggestions route
  answers with (any strategy, then the top-up) are rendered by \<open>ProjectSuggestions\<close>
  as cards whose React keys (\<open>key={project.id}\<close>) are pairwise distinct.
\<close>

lemma answered_cards_distinct_keys:
  "distinct (card_keys (map project_card (fst (top_up (generate_suggestions s rd sd u)))))"
  by (simp add: project_keys_distinct top_up_distinct_ids)

section \<open>Properties of the views\<close>

text \<open>
  (C22)
  End to end, from the resume text to the screen: after an upload whose request is answered
  with what the parse-resume route extracts from a text, the Skills section of
  \<open>ResumeParsingOutput\<close> lists exactly the extracted skills, in order, whatever the
  store held before.
\<close>

theorem upload_shows_extracted_skills:
  "span_texts (view_items ''Skills''
     (resume_view (st_resume (run_actions s (parse_resume_thunk (Inr (extract_resume_data t))))))) =
   extract_skills t"
  by (simp add: resume_view_skills run_actions_def parse_resume_thunk_def extract_resume_data_def)

text \<open>
  (C34)
  \<open>ScholarDataOutput\<close> shows the first five publications, in order, followed by a
  ``Showing 5 of n'' note exactly when there are more than five; the section never holds
  more than six entries.
\<close>

theorem scholar_view_publications:
  "view_items ''Publications'' (scholar_view d) =
     (if sd_loading d then []
      else map publication_card (take 5 (publications d)) @
        (if 5 < length (publications d)
         then [el ''p'' [Txt ''Showing 5 of '', Txt (nat_digits (length (publications d))), Txt '' publications'']]
         else [])) \<and>
   length (view_items ''Publications'' (scholar_view d)) \<le> 6"
  by (simp add: scholar_view_publications_items publications_nodes_def guard_nodes_def)

end
