(* ===== verification/ScraperEvents.thy ===== *)
theory ScraperEvents
  imports Scholar
begin

text \<open>
  The observer of \<open>fetch-scholar-data.ts\<close>: \<open>ScraperObservable\<close> keeps a list of observer
  functions, compared by identity (\<open>!==\<close>), here observer identifiers; \<open>notify\<close> calls
  each in subscription order, here it returns the calls it makes.  \<open>ScholarScraper\<close>
  subscribes one logger in its constructor, and \<open>scrapeProfile\<close> notifies
  \<open>scraping_started\<close>, then \<open>scraping_completed\<close> or \<open>scraping_error\<close>.  The
  instrumented scraper returns the calls with the result of \<open>Scholar.scrape_profile\<close>.
\<close>

section \<open>ScraperObservable\<close>

type_synonym observer_id = nat

record observable =
  observers :: "observer_id list"

definition observable_new :: observable where
  "observable_new = \<lparr>observers = []\<rparr>"

definition subscribe :: "observer_id \<Rightarrow> observable \<Rightarrow> observable" where
  "subscribe ob s = s\<lparr>observers := observers s @ [ob]\<rparr>"

definition unsubscribe :: "observer_id \<Rightarrow> observable \<Rightarrow> observable" where
  "unsubscribe ob s = s\<lparr>observers := filter (\<lambda>x. x \<noteq> ob) (observers s)\<rparr>"

definition notify :: "observable \<Rightarrow> string \<Rightarrow> json \<Rightarrow> (observer_id \<times> string \<times> json) list" where
  "notify s e d = map (\<lambda>ob. (ob, e, d)) (observers s)"

section \<open>ScholarScraper\<close>

text \<open>The console logger the constructor subscribes, and the line it prints for an event.\<close>

definition console_logger :: observer_id where
  "console_logger = 0"

definition log_line :: "string \<Rightarrow> string" where
  "log_line e = ''Scholar Scraper Event: '' @ e"

definition scraper_new :: observable where
  "scraper_new = subscribe console_logger observable_new"

text \<open>The name \<open>scrapeProfile\<close> reports in \<open>scraping_completed\<close>: before the default.\<close>

definition scrape_name :: "profile_page \<Rightarrow> string" where
  "scrape_name p =
     (let name0 = trim (first_text (prf_in p))
      in if name0 = [] \<and> extract_publications p = [] \<and> extract_interests p = [] then fallback_name p else name0)"

definition completed_data :: "string \<Rightarrow> profile_page \<Rightarrow> json" where
  "completed_data u p =
     (let sd = extract_profile u p
      in JObj [(''name'', JStr (scrape_name p)),
               (''publicationsCount'', JNum (int (length (case sp_publications sd of Some ps \<Rightarrow> ps | None \<Rightarrow> [])))),
               (''interestsCount'', JNum (int (length (case sp_interests sd of Some is \<Rightarrow> is | None \<Rightarrow> []))))])"

definition scrape_profile_traced ::
  "(string \<Rightarrow> fetch_result) \<Rightarrow> (string \<Rightarrow> profile_page) \<Rightarrow> string \<Rightarrow>
   (observer_id \<times> string \<times> json) list \<times> (string + scholar_partial)" where
  "scrape_profile_traced fetch load profile_url =
     (let obs = scraper_new;
          started = notify obs ''scraping_started'' (JObj [(''profileUrl'', JStr profile_url)]);
          fail = (\<lambda>m. (started @ notify obs ''scraping_error'' (JObj [(''error'', JStr m)]), scrape_fail m))
      in case fetch (url_with_hl profile_url) of
           FetchError m \<Rightarrow> fail m
         | Fetched html \<Rightarrow>
             if html = [] then fail ''No HTML content returned from Google Scholar''
             else if str_includes html captcha_marker then fail ''Blocked by Google Scholar (CAPTCHA triggered)''
             else (started @ notify obs ''scraping_completed'' (completed_data profile_url (load html)),
                   Inr (extract_profile profile_url (load html))))"

section \<open>Lemmas\<close>

lemma notify_subscribe: "notify (subscribe ob s) e d = notify s e d @ [(ob, e, d)]"
  by (simp add: notify_def subscribe_def)

lemma notify_unsubscribe: "(ob, e, d) \<notin> set (notify (unsubscribe ob s) e d)"
  by (auto simp: notify_def unsubscribe_def)

lemma notify_scraper_new: "notify scraper_new e d = [(console_logger, e, d)]"
  by (simp add: scraper_new_def observable_new_def notify_def subscribe_def)

text \<open>\<open>subscribe\<close> does not look for the observer: subscribed twice, it is called twice.\<close>

lemma subscribe_twice:
  "notify (subscribe ob (subscribe ob observable_new)) e d = [(ob, e, d), (ob, e, d)]"
  by (simp add: observable_new_def notify_def subscribe_def)

lemma scrape_name_result:
  "sp_name (extract_profile u p) = Some (if scrape_name p = [] then ''Scholar Profile'' else scrape_name p)"
  by (simp add: extract_profile_def scrape_name_def Let_def split: prod.split)


text \<open>
  (C15)
  Every scrape notifies the logger exactly twice: \<open>scraping_started\<close> with the URL, then
  \<open>scraping_completed\<close> when it returns a profile, or \<open>scraping_error\<close> with the message
  the thrown error wraps.
\<close>

lemma scrape_profile_traced_events:
  "map (fst \<circ> snd) (fst (scrape_profile_traced fetch load u)) =
     [''scraping_started'',
      (case scrape_profile fetch load u of Inl _ \<Rightarrow> ''scraping_error'' | Inr _ \<Rightarrow> ''scraping_completed'')]
   \<and> map fst (fst (scrape_profile_traced fetch load u)) = [console_logger, console_logger]"
  by (simp add: scrape_profile_traced_def scrape_profile_def notify_scraper_new scrape_fail_def Let_def
      split: fetch_result.split)

lemma scrape_profile_traced_error:
  "fst (scrape_profile_traced fetch load u) ! 1 = (console_logger, ''scraping_error'', JObj [(''error'', JStr m)]) \<Longrightarrow>
   scrape_profile fetch load u = Inl (''Failed to scrape profile: '' @ m)"
  by (auto simp: scrape_profile_traced_def scrape_profile_def notify_scraper_new scrape_fail_def Let_def
      split: fetch_result.split if_splits)

end
