(* ===== verification/Spec2Isabelle.thy ===== *)
theory Spec2Isabelle
  imports Recommend Scholar Resume Views ScraperEvents
begin

text \<open>
  \<^bold>\<open>A verification development for scholarsync-resume-integration.\<close>

  The program is a Next.js application.  Three API routes under
  \<open>src/src/pages/api\<close> hold the logic: \<open>parse-resume.ts\<close> turns the text of an uploaded
  PDF or DOCX resume into a \<open>ResumeData\<close> record by regular-expression heuristics;
  \<open>fetch-scholar-data.ts\<close> scrapes a Google Scholar profile page into a
  \<open>ScholarData\<close> record; \<open>generate-suggestions.ts\<close> maps both records to a list of
  project suggestions through interchangeable strategies.  The two last routes share the
  limiter of \<open>src/src/utils/rateLimit.ts\<close>.  A Redux store (\<open>src/src/redux\<close>) holds
  one slice per record, filled by thunks that call the routes; React components
  (\<open>src/src/components\<close>) drive the thunks.

  \<^bold>\<open>Theories.\<close>
  \<^item> \<open>Prelude\<close>: the JavaScript primitives the sources call, as HOL functions on
    \<open>char list\<close>: \<open>trim\<close>, \<open>split_on\<close> and \<open>split_str\<close> (\<open>String.prototype.split\<close>),
    \<open>join\<close>, \<open>str_includes\<close>, \<open>replace_first\<close>, \<open>to_lower\<close>/\<open>to_upper\<close> (ASCII
    case maps), insertion-ordered sets (\<open>set_add\<close>, \<open>set_add_all\<close>: a JavaScript
    \<open>Set\<close>), decimal numerals (\<open>nat_digits\<close>, \<open>digits_value\<close>), the number type
    \<open>js_number\<close> with its \<open>NaN\<close>, and the identifier type \<open>uuid\<close>.  Lemmas: the
    split/join round trip, \<open>includes\<close> as substring, the first-occurrence order of
    \<open>Set\<close> insertion, the print/read round trip of numerals; \<open>js_eval\<close> bundles the
    unfoldings that evaluate the primitives on literals.
  \<^item> \<open>Types\<close>: \<open>src/src/types/index.ts\<close>, one record per interface (fields shared by two
    interfaces carry a prefix), and the \<open>initialState\<close>s of the three slices.
  \<^item> \<open>Json\<close>: JSON values, the responses of the API routes (headers set and
    \<open>res.status(s).json(v)\<close> calls made, in order; the client receives the first), and
    the serialisation of publications and projects (\<open>undefined\<close> fields left out,
    \<open>NaN\<close> written as \<open>null\<close>).
  \<^item> \<open>RateLimit\<close>: \<open>rateLimit\<close> and \<open>check\<close>.  The \<open>lru-cache\<close> package is not part
    of the repository; its \<open>get\<close>/\<open>set\<close> (recency order, eviction at \<open>max\<close>, expiry
    after \<open>ttl\<close>, \<open>get\<close> not renewing the start time) are modelled from its
    documentation.  The counter arrays live in an explicit heap because \<open>check\<close>
    increments the cached array in place.  Lemmas: one request on a fresh, an expired and a
    live entry; the fixed-window theorem (C6) and the reset after expiry, with the fresh
    entry stored by \<open>tokenCache.set\<close> (C7).
  \<^item> \<open>Recommend\<close>: the suggestion templates, \<open>SkillsBasedStrategy\<close>,
    \<open>PublicationsBasedStrategy\<close> (word counting in a plain object, with the key order of
    \<open>Object.entries\<close> and the stable sort), \<open>HybridStrategy\<close>, the strategy
    interface as a datatype with one dispatch function, \<open>RecommendationEngine\<close>, and the
    route handler with the limiter, the \<open>resumeData\<close> check and the top-up.  Each
    \<open>uuidv4()\<close> is a draw from a counter threaded through the calls.  The abstract
    specification is a rule table (\<open>skills_rules\<close>) and a per-strategy template list
    (\<open>strategy_templates\<close>); the strategies refine it (C1), from which follow fresh
    distinct identifiers (C3), the bound of two suggestions (C2), dependence on the set of
    skills only (C13) and distinct titles (C14).  The handler's answer on every branch is
    C5; the keyword extraction is characterised by C9 and C10, and its order by the key
    order of \<open>Object.entries\<close> (C11); the publications strategy's answer after the
    top-up, for every profile (C12).

  \<^item> \<open>Scholar\<close>: \<open>ScholarScraper.scrapeProfile\<close> of \<open>fetch-scholar-data.ts\<close> and its
    route.  The HTTP client and the HTML parser are parameters (\<open>fetch\<close>, \<open>load\<close>:
    the texts of the elements each selector matches); \<open>parseInt\<close> is modelled.  Lemmas:
    every scraped profile is well formed, with citations only for a positive total (C18);
    the positional metrics loop equals a named accessor (C19); the fallback runs only
    when the primary name, publications and interests are all empty (C21); the citation
    round trip of a row (C23) and a non-numeric citation cell (C24); the error paths (C26,
    C28) and the answer on every branch (C27).
  \<^item> \<open>Regex\<close>: the ECMAScript regular expressions the sources call, as a datatype and a
    backtracking matcher \<open>ms\<close> that lists the matches in the order ECMAScript tries
    them, with \<open>exec\<close>, \<open>test\<close>, global \<open>match\<close>, \<open>replace\<close> and \<open>split\<close> on
    top.  All loops are total: the matcher by the pattern's size, the quantifier's minimum
    and the remaining text; the global match and split by the remaining text, using the
    lemma that a match consumes a prefix accepted by the pattern's atoms.  The greedy loop
    over a class is characterised exactly (\<open>ms_class_rep\<close>), from which the first match
    of \<open>\b[X]+\b\<close> ends on a word character (\<open>wordb_plus_first\<close>).  The orders
    are also stated as theorems: the domains of \<open>ms\<close> and \<open>match_all\<close> are total
    (\<open>ms_total\<close>, \<open>match_all_total\<close>) and the global match yields at most one
    match per character plus one (\<open>match_all_length\<close>).
  \<^item> \<open>Resume\<close>: \<open>PdfParser.extractResumeData\<close> of \<open>parse-resume.ts\<close> with the
    source's patterns as terms, the parser factory and the route; decoders and the
    multipart parser are parameters.  Lemmas: the keyword fallback never reports \<open>C++\<close>
    or \<open>C#\<close> (C29); the route's answer on every branch (C30); an education entry
    without a degree line (C36); the bound on the words examined (C38).
  \<^item> \<open>Store\<close>: the Redux store of \<open>src/src/redux\<close>.  The actions of the three slices
    form one datatype; \<open>resume_reducer\<close>, \<open>scholar_reducer\<close> and
    \<open>projects_reducer\<close> translate the slices' \<open>reducers\<close> and \<open>extraReducers\<close>
    (\<open>{...state, ...action.payload}\<close> keeps a field the payload leaves out);
    \<open>dispatch\<close> is \<open>store.ts\<close>'s combined reducer.  Each thunk is the list of actions it
    dispatches, with the route's answer as a parameter (an error message, or the payload);
    since thunks run concurrently, the reachable states (\<open>reachable\<close>, an inductive
    predicate) are those of every sequence of actions.  By rule induction, no reachable
    slice shows an error while loading (C40).  A later profile without citations keeps the
    earlier metrics (C33), and overlapping uploads are applied in arrival order (C32).
  \<^item> \<open>Client\<close>: the client side.  The interfaces of \<open>types/index.ts\<close> as TypeScript types
    (\<open>ts_type\<close>) with a checker \<open>has_type\<close> on JSON values and \<open>Partial<T>\<close>; the
    event handlers of \<open>ScholarProfileInput\<close> (\<open>validateUrl\<close>, whose pattern is a term of
    \<open>Regex\<close>, and \<open>handleSubmit\<close>), \<open>ResumeUploader\<close> (\<open>onDrop\<close> with its type
    and size checks, \<open>handleSubmit\<close>) and \<open>ProjectSuggestions\<close>
    (\<open>handleGenerateSuggestions\<close>), each as the actions it dispatches, with the guards
    that render or enable it.  Lemmas: every parsed-resume answer is a
    \<open>Partial<ResumeData>\<close> (C16); the scholar and project answers are typed exactly when no
    citation count is \<open>NaN\<close>; every started request settles, whatever is dispatched
    while it is in flight (C20); the components' checks subsume the thunks' own (a valid URL
    is never empty (C35), an enabled generate button always has skills (C39), a stored file
    has a type the route accepts (C37)); the scholar answer is a \<open>Partial<ScholarData>\<close>
    exactly when no count is \<open>NaN\<close> (C31).
  \<^item> \<open>Views\<close>: what the page shows.  Each component's render (\<open>ResumeParsingOutput\<close>,
    \<open>ScholarDataOutput\<close>, \<open>ProjectSuggestions\<close>, \<open>ResumeUploader\<close>,
    \<open>ScholarProfileInput\<close>), \<open>Layout\<close> and \<open>pages/index.tsx\<close> as functions from the
    store and the components' local state to element trees (\<open>node\<close>), with JSX's
    rendering of \<open>&&\<close>, \<open>undefined\<close>, \<open>null\<close> and the empty string.  A reader
    (\<open>view_items\<close>, \<open>span_texts\<close>, \<open>node_texts\<close>) observes a tree the way a user
    finds a section by its heading.  Lemmas: end to end, an upload shows exactly the
    extracted skills (C22); the publication list shows at most five entries and the
    overflow note (C34); distinct project identifiers give distinct React keys
    (\<open>project_keys_distinct\<close>), so the cards rendered from the route's answer have
    distinct keys (C4).
  \<^item> \<open>ScraperEvents\<close>: the \<open>ScraperObservable\<close> of \<open>fetch-scholar-data.ts\<close>
    (observers as identifiers, compared as \<open>!==\<close> compares functions) and the
    notifications of \<open>scrapeProfile\<close>.  The instrumented scraper returns what
    \<open>scrape_profile\<close> returns (C25), and notifies the
    logger exactly twice, \<open>scraping_started\<close> then the completion or the error with the
    wrapped message (C15, \<open>scrape_profile_traced_error\<close>).

  \<^bold>\<open>What the theorems show about the code, and what they found.\<close>
  The production path answers with at least two suggestions for every resume (C2), but
  only because the skills-based strategy always yields one: with the publications-based
  strategy and no publications the top-up leaves a single suggestion (C12).  A refused
  request is answered twice, by the limiter and again from the \<open>catch\<close> block, in both
  limited routes (C8, C28).  The limiter counts in fixed windows from the first request
  (C6, C7); both routes pass a constant token, so the budget is shared by all callers.  The
  publications-based keywords follow the specification's first-occurrence tie-break only
  where no title word is a decimal array index (C9, C11).  The scraper turns a non-numeric
  citation cell into \<open>NaN\<close> where the specification asks for 0 (C24), splits the venue
  line at every separator, and its handler's missing-name test never decides (C27).
  The resume parser's keyword list holds \<open>C++\<close> and \<open>C#\<close>, which its word pattern
  can never produce (C29); the section patterns have no end-of-text alternative, so a
  section at the end of the document is lost; section skills are not de-duplicated, and
  the Skills section shows the extracted list as it is (C22); any hyphen selects bullet
  splitting, so a hyphenated skill breaks a comma list; an education entry without a
  degree line always gets \<open>Unknown Field\<close> (C36), and the case-insensitive degree
  pattern fires inside ordinary words.  In the store, a second profile whose total is 0
  keeps the first profile's citation metrics (C33), and answers to overlapping uploads
  are applied in arrival order, the loading flag dropping with the first of them (C32);
  the components avoid the overlap by disabling their
  buttons while loading.  A \<open>NaN\<close> citation count reaches the client as \<open>null\<close>
  where \<open>Publication\<close> declares a number (C31), and its card shows
  the label \<open>Citations:\<close> followed by nothing (\<open>publication_card_nan\<close>).

  \<^bold>\<open>Not modelled, and why.\<close>
  \<^item> The word \<open>constructor\<close> in a publication title: \<open>acc[word]\<close> reads the inherited
    \<open>Object\<close> function, the count becomes a string, and the comparator of the sort
    returns \<open>NaN\<close>, so the resulting order is left to the engine's sort; the model
    counts that word like any other.
  \<^item> Text is a list of bytes: \<open>toLowerCase\<close>, \<open>trim\<close> and \<open>\s\<close> are exact on ASCII;
    the non-ASCII characters of the patterns (bullet, middle dot, en dash) are matched as
    their UTF-8 byte sequences, and Unicode white space beyond ASCII is not recognised.
  \<^item> Byte decoding (\<open>pdf-parse\<close>, \<open>mammoth\<close>), the HTTP transport (\<open>axios\<close>), HTML
    parsing (\<open>cheerio\<close>), \<open>formidable\<close>, the temporary-file clean-up, the scraper's
    console output, React's reconciliation and the drop zone's generated props are
    libraries or I/O; the development models what the code does with their results.
    The views leave out class names (styling) except the computed difficulty colour, and
    the \<open>Head\<close> meta tags.
  \<^item> Fuel and bounds: no definition needs fuel; every loop is a structural recursion, a
    fold over a finite list, or a \<open>function\<close> with a termination proof.

  \<^bold>\<open>Plan.\<close>  A request identifier in the store model, to state what a guard
  against out-of-order answers would have to check.
\<close>

end
